theory Spec2Isabelle
  imports Complex_Main "HOL-Library.Char_ord" "HOL-Library.List_Lexorder" "HOL-Library.AList"
begin

section \<open>JavaScript numbers\<close>

text \<open>
  A JavaScript \<^verbatim>\<open>number\<close> is modelled as an exact real or one of the three special
  doubles. Rounding and overflow of doubles are not modelled, and \<^verbatim>\<open>-0\<close> is identified
  with \<^verbatim>\<open>0\<close> (a zero divisor counts as \<^verbatim>\<open>+0\<close>).
\<close>

datatype number = Fin real | PInf | NInf | NaN

definition inf_of_sign :: "real \<Rightarrow> number" where
  "inf_of_sign s = (if s = 0 then NaN else if 0 < s then PInf else NInf)"

fun jneg :: "number \<Rightarrow> number" where
  "jneg (Fin a) = Fin (- a)"
| "jneg PInf = NInf"
| "jneg NInf = PInf"
| "jneg NaN = NaN"

fun jadd :: "number \<Rightarrow> number \<Rightarrow> number" where
  "jadd (Fin a) (Fin b) = Fin (a + b)"
| "jadd NaN _ = NaN"
| "jadd _ NaN = NaN"
| "jadd PInf NInf = NaN"
| "jadd NInf PInf = NaN"
| "jadd PInf _ = PInf"
| "jadd _ PInf = PInf"
| "jadd NInf _ = NInf"
| "jadd _ NInf = NInf"

definition jsub :: "number \<Rightarrow> number \<Rightarrow> number" where
  "jsub a b = jadd a (jneg b)"

fun jmul :: "number \<Rightarrow> number \<Rightarrow> number" where
  "jmul (Fin a) (Fin b) = Fin (a * b)"
| "jmul NaN _ = NaN"
| "jmul _ NaN = NaN"
| "jmul PInf (Fin b) = inf_of_sign b"
| "jmul (Fin a) PInf = inf_of_sign a"
| "jmul NInf (Fin b) = inf_of_sign (- b)"
| "jmul (Fin a) NInf = inf_of_sign (- a)"
| "jmul PInf PInf = PInf"
| "jmul NInf NInf = PInf"
| "jmul PInf NInf = NInf"
| "jmul NInf PInf = NInf"

fun jdiv :: "number \<Rightarrow> number \<Rightarrow> number" where
  "jdiv (Fin a) (Fin b) = (if b = 0 then inf_of_sign a else Fin (a / b))"
| "jdiv NaN _ = NaN"
| "jdiv _ NaN = NaN"
| "jdiv (Fin a) PInf = Fin 0"
| "jdiv (Fin a) NInf = Fin 0"
| "jdiv PInf (Fin b) = (if 0 \<le> b then PInf else NInf)"
| "jdiv NInf (Fin b) = (if 0 \<le> b then NInf else PInf)"
| "jdiv PInf PInf = NaN"
| "jdiv PInf NInf = NaN"
| "jdiv NInf PInf = NaN"
| "jdiv NInf NInf = NaN"

text \<open>The comparisons \<^verbatim>\<open><\<close>, \<^verbatim>\<open>>\<close> and \<^verbatim>\<open>==\<close>: every comparison with NaN is false.\<close>

fun jlt :: "number \<Rightarrow> number \<Rightarrow> bool" where
  "jlt (Fin a) (Fin b) = (a < b)"
| "jlt NaN _ = False"
| "jlt _ NaN = False"
| "jlt _ NInf = False"
| "jlt PInf _ = False"
| "jlt NInf _ = True"
| "jlt _ PInf = True"

definition jgt :: "number \<Rightarrow> number \<Rightarrow> bool" where
  "jgt a b = jlt b a"

fun jeq :: "number \<Rightarrow> number \<Rightarrow> bool" where
  "jeq (Fin a) (Fin b) = (a = b)"
| "jeq PInf PInf = True"
| "jeq NInf NInf = True"
| "jeq _ _ = False"

text \<open>\<^verbatim>\<open>Math.min\<close>, \<^verbatim>\<open>Math.max\<close>, \<^verbatim>\<open>Math.abs\<close>, \<^verbatim>\<open>Math.round\<close>, \<^verbatim>\<open>Math.hypot\<close>,
  \<^verbatim>\<open>Math.cos\<close>, \<^verbatim>\<open>Math.sin\<close>, \<^verbatim>\<open>Math.atan2\<close>, \<^verbatim>\<open>Math.PI\<close> and \<^verbatim>\<open>Number.MAX_VALUE\<close>.\<close>

definition Math_min :: "number \<Rightarrow> number \<Rightarrow> number" where
  "Math_min a b = (if a = NaN \<or> b = NaN then NaN else if jlt a b then a else b)"

definition Math_max :: "number \<Rightarrow> number \<Rightarrow> number" where
  "Math_max a b = (if a = NaN \<or> b = NaN then NaN else if jlt a b then b else a)"

fun Math_abs :: "number \<Rightarrow> number" where
  "Math_abs (Fin a) = Fin \<bar>a\<bar>"
| "Math_abs PInf = PInf"
| "Math_abs NInf = PInf"
| "Math_abs NaN = NaN"

fun Math_round :: "number \<Rightarrow> number" where
  "Math_round (Fin a) = Fin (of_int \<lfloor>a + 1 / 2\<rfloor>)"
| "Math_round v = v"

fun Math_hypot :: "number \<Rightarrow> number \<Rightarrow> number" where
  "Math_hypot (Fin a) (Fin b) = Fin (sqrt (a\<^sup>2 + b\<^sup>2))"
| "Math_hypot PInf _ = PInf"
| "Math_hypot NInf _ = PInf"
| "Math_hypot _ PInf = PInf"
| "Math_hypot _ NInf = PInf"
| "Math_hypot _ _ = NaN"

fun Math_cos :: "number \<Rightarrow> number" where
  "Math_cos (Fin a) = Fin (cos a)"
| "Math_cos _ = NaN"

fun Math_sin :: "number \<Rightarrow> number" where
  "Math_sin (Fin a) = Fin (sin a)"
| "Math_sin _ = NaN"

definition atan2_real :: "real \<Rightarrow> real \<Rightarrow> real" where
  "atan2_real b a =
     (if 0 < a then arctan (b / a)
      else if a < 0 then (if 0 \<le> b then arctan (b / a) + pi else arctan (b / a) - pi)
      else if 0 < b then pi / 2
      else if b < 0 then - (pi / 2)
      else 0)"

fun Math_atan2 :: "number \<Rightarrow> number \<Rightarrow> number" where
  "Math_atan2 (Fin b) (Fin a) = Fin (atan2_real b a)"
| "Math_atan2 NaN _ = NaN"
| "Math_atan2 _ NaN = NaN"
| "Math_atan2 (Fin b) PInf = Fin 0"
| "Math_atan2 (Fin b) NInf = Fin (if 0 \<le> b then pi else - pi)"
| "Math_atan2 PInf (Fin a) = Fin (pi / 2)"
| "Math_atan2 NInf (Fin a) = Fin (- (pi / 2))"
| "Math_atan2 PInf PInf = Fin (pi / 4)"
| "Math_atan2 NInf PInf = Fin (- (pi / 4))"
| "Math_atan2 PInf NInf = Fin (3 * pi / 4)"
| "Math_atan2 NInf NInf = Fin (- (3 * pi / 4))"

definition Math_PI :: number where
  "Math_PI = Fin pi"

definition MAX_VALUE :: number where
  "MAX_VALUE = Fin ((2 ^ 53 - 1) * 2 ^ 971)"

text \<open>The operators \<^verbatim>\<open>??\<close> (nullish coalescing) and \<^verbatim>\<open>?.\<close> (optional chaining) on a value
  that may be \<^verbatim>\<open>undefined\<close> or \<^verbatim>\<open>null\<close>, both modelled by \<open>None\<close>.\<close>

definition nullish :: "'a option \<Rightarrow> 'a \<Rightarrow> 'a" where
  "nullish v d = (case v of None \<Rightarrow> d | Some a \<Rightarrow> a)"

definition chain :: "'a option \<Rightarrow> ('a \<Rightarrow> 'b option) \<Rightarrow> 'b option" where
  "chain v f = (case v of None \<Rightarrow> None | Some a \<Rightarrow> f a)"

text \<open>Exceptions the source can throw.\<close>

datatype error = TypeError

section \<open>Points and diagram utilities (diagram-utils.ts)\<close>

text \<open>\<^verbatim>\<open>Point\<close> of svg.js and \<^verbatim>\<open>PointMetadata\<close> both hold the two numbers \<^verbatim>\<open>x\<close> and \<^verbatim>\<open>y\<close>.\<close>

record Point =
  px :: number
  py :: number

type_synonym PointMetadata = Point

definition getDistance :: "Point \<Rightarrow> Point \<Rightarrow> number" where
  "getDistance point1 point2 =
     (let deltax = jsub (px point1) (px point2);
          deltay = jsub (py point1) (py point2)
      in Math_hypot deltax deltay)"

definition degToRad :: "number \<Rightarrow> number" where
  "degToRad deg = jmul deg (jdiv Math_PI (Fin 180))"

definition radToDeg :: "number \<Rightarrow> number" where
  "radToDeg rad = jdiv (jmul rad (Fin 180)) Math_PI"

definition round_num :: "number \<Rightarrow> number" where
  "round_num num = jdiv (Math_round (jmul num (Fin 100))) (Fin 100)"

definition getMidPosition :: "Point \<Rightarrow> Point \<Rightarrow> Point" where
  "getMidPosition point1 point2 =
     \<lparr>px = jmul (Fin (1 / 2)) (jadd (px point1) (px point2)),
      py = jmul (Fin (1 / 2)) (jadd (py point1) (py point2))\<rparr>"

definition getPointAtDistance :: "Point \<Rightarrow> Point \<Rightarrow> number \<Rightarrow> Point" where
  "getPointAtDistance point1 point2 radius =
     (let distance = getDistance point1 point2;
          r = jdiv radius distance
      in \<lparr>px = jadd (px point1) (jmul r (jsub (px point2) (px point1))),
          py = jadd (py point1) (jmul r (jsub (py point2) (py point1)))\<rparr>)"

definition getAngle :: "Point \<Rightarrow> Point \<Rightarrow> number" where
  "getAngle point1 point2 =
     Math_atan2 (jsub (py point2) (py point1)) (jsub (px point2) (px point1))"

definition getEdgeFork :: "Point \<Rightarrow> number \<Rightarrow> number \<Rightarrow> Point" where
  "getEdgeFork point edgeForkLength angleFork =
     \<lparr>px = jadd (px point) (jmul edgeForkLength (Math_cos angleFork)),
      py = jadd (py point) (jmul edgeForkLength (Math_sin angleFork))\<rparr>"

section \<open>Parameter accessors (svg-parameters.ts)\<close>

datatype EdgeInfoEnum = ACTIVE_POWER | REACTIVE_POWER | CURRENT | NAME

definition EdgeInfoEnumMapping :: "string \<Rightarrow> EdgeInfoEnum option" where
  "EdgeInfoEnumMapping key =
     (if key = ''ActivePower'' then Some ACTIVE_POWER
      else if key = ''ReactivePower'' then Some REACTIVE_POWER
      else if key = ''Current'' then Some CURRENT
      else if key = ''Name'' then Some NAME
      else None)"

record DiagramPadding =
  left :: number
  top :: number
  right :: number
  bottom :: number

datatype CssLocationEnum = INSERTED_IN_SVG | EXTERNAL_IMPORTED | EXTERNAL_NO_IMPORT

definition CssLocationEnumMapping :: "string \<Rightarrow> CssLocationEnum option" where
  "CssLocationEnumMapping key =
     (if key = ''INSERTED_IN_SVG'' then Some INSERTED_IN_SVG
      else if key = ''EXTERNAL_IMPORTED'' then Some EXTERNAL_IMPORTED
      else if key = ''EXTERNAL_NO_IMPORT'' then Some EXTERNAL_NO_IMPORT
      else None)"

text \<open>
  The configuration object read by the accessors (interface \<^verbatim>\<open>SvgParametersMetadata\<close> of
  diagram-metadata.ts), with the fields the accessors read. The interface declares every
  field required, yet each accessor guards its read with \<^verbatim>\<open>??\<close>: a field is optional in the
  model, \<open>None\<close> being a field that is missing from the object received at run time.
\<close>

record DiagramPaddingMetadata =
  paddingLeft :: "number option"
  paddingTop :: "number option"
  paddingRight :: "number option"
  paddingBottom :: "number option"

record SvgParametersMetadata =
  voltageLevelCircleRadius :: "number option"
  interAnnulusSpace :: "number option"
  transformerCircleRadius :: "number option"
  edgesForkAperture :: "number option"
  edgesForkLength :: "number option"
  arrowShift :: "number option"
  arrowLabelShift :: "number option"
  arrowPathIn :: "string option"
  arrowPathOut :: "string option"
  converterStationWidth :: "number option"
  nodeHollowWidth :: "number option"
  unknownBusNodeExtraRadius :: "number option"
  fictitiousVoltageLevelCircleRadius :: "number option"
  powerValuePrecision :: "number option"
  currentValuePrecision :: "number option"
  angleValuePrecision :: "number option"
  voltageValuePrecision :: "number option"
  diagramPadding :: "DiagramPaddingMetadata option"
  cssLocation :: "string option"

text \<open>An instance of class \<^verbatim>\<open>SvgParameters\<close> is its one field \<^verbatim>\<open>svgParametersMetadata\<close>.\<close>

type_synonym SvgParameters = "SvgParametersMetadata option"

definition VOLTAGE_LEVEL_CIRCLE_RADIUS_DEFAULT :: number where
  "VOLTAGE_LEVEL_CIRCLE_RADIUS_DEFAULT = Fin 30"
definition INTER_ANNULUS_SPACE_DEFAULT :: number where
  "INTER_ANNULUS_SPACE_DEFAULT = Fin 5"
definition TRANSFORMER_CIRCLE_RADIUS_DEFAULT :: number where
  "TRANSFORMER_CIRCLE_RADIUS_DEFAULT = Fin 20"
definition EDGES_FORK_APERTURE_DEFAULT :: number where
  "EDGES_FORK_APERTURE_DEFAULT = Fin 60"
definition EDGES_FORK_LENGTH_DEFAULT :: number where
  "EDGES_FORK_LENGTH_DEFAULT = Fin 80"
definition ARROW_SHIFT_DEFAULT :: number where
  "ARROW_SHIFT_DEFAULT = Fin 30"
definition ARROW_LABEL_SHIFT_DEFAULT :: number where
  "ARROW_LABEL_SHIFT_DEFAULT = Fin 19"
definition CONVERTER_STATION_WIDTH_DEFAULT :: number where
  "CONVERTER_STATION_WIDTH_DEFAULT = Fin 70"
definition NODE_HOLLOW_WIDTH_DEFAULT :: number where
  "NODE_HOLLOW_WIDTH_DEFAULT = Fin 15"
definition UNKNOWN_BUS_NODE_EXTRA_RADIUS_DEFAULT :: number where
  "UNKNOWN_BUS_NODE_EXTRA_RADIUS_DEFAULT = Fin 10"
definition FICTITIOUS_VOLTAGE_LEVEL_CIRCLE_RADIUS_DEFAULT :: number where
  "FICTITIOUS_VOLTAGE_LEVEL_CIRCLE_RADIUS_DEFAULT = Fin 15"
definition EDGE_INFO_DISPLAYED_DEFAULT :: EdgeInfoEnum where
  "EDGE_INFO_DISPLAYED_DEFAULT = ACTIVE_POWER"
definition POWER_VALUE_PRECISION_RADIUS_DEFAULT :: number where
  "POWER_VALUE_PRECISION_RADIUS_DEFAULT = Fin 0"
definition CURRENT_VALUE_PRECISION_DEFAULT :: number where
  "CURRENT_VALUE_PRECISION_DEFAULT = Fin 0"
definition ANGLE_VALUE_PRECISION_DEFAULT :: number where
  "ANGLE_VALUE_PRECISION_DEFAULT = Fin 1"
definition VOLTAGE_VALUE_PRECISION_DEFAULT :: number where
  "VOLTAGE_VALUE_PRECISION_DEFAULT = Fin 1"
definition DIAGRAM_PADDING_LEFT_DEFAULT :: number where
  "DIAGRAM_PADDING_LEFT_DEFAULT = Fin 200"
definition DIAGRAM_PADDING_TOP_DEFAULT :: number where
  "DIAGRAM_PADDING_TOP_DEFAULT = Fin 200"
definition DIAGRAM_PADDING_RIGHT_DEFAULT :: number where
  "DIAGRAM_PADDING_RIGHT_DEFAULT = Fin 200"
definition DIAGRAM_PADDING_BOTTON_DEFAULT :: number where
  "DIAGRAM_PADDING_BOTTON_DEFAULT = Fin 200"
definition CSS_LOCATION_DEFAULT :: CssLocationEnum where
  "CSS_LOCATION_DEFAULT = EXTERNAL_NO_IMPORT"
definition ARROW_PATH_IN_DEFAULT :: string where
  "ARROW_PATH_IN_DEFAULT = ''M-10 -10 H10 L0 10z''"
definition ARROW_PATH_OUT_DEFAULT :: string where
  "ARROW_PATH_OUT_DEFAULT = ''M-10 10 H10 L0 -10z''"

definition getVoltageLevelCircleRadius :: "SvgParameters \<Rightarrow> number" where
  "getVoltageLevelCircleRadius this =
     nullish (chain this voltageLevelCircleRadius) VOLTAGE_LEVEL_CIRCLE_RADIUS_DEFAULT"

definition getInterAnnulusSpace :: "SvgParameters \<Rightarrow> number" where
  "getInterAnnulusSpace this = nullish (chain this interAnnulusSpace) INTER_ANNULUS_SPACE_DEFAULT"

definition getTransformerCircleRadius :: "SvgParameters \<Rightarrow> number" where
  "getTransformerCircleRadius this =
     nullish (chain this transformerCircleRadius) TRANSFORMER_CIRCLE_RADIUS_DEFAULT"

definition getEdgesForkAperture :: "SvgParameters \<Rightarrow> number" where
  "getEdgesForkAperture this =
     degToRad (nullish (chain this edgesForkAperture) EDGES_FORK_APERTURE_DEFAULT)"

definition getEdgesForkLength :: "SvgParameters \<Rightarrow> number" where
  "getEdgesForkLength this = nullish (chain this edgesForkLength) EDGES_FORK_LENGTH_DEFAULT"

definition getArrowShift :: "SvgParameters \<Rightarrow> number" where
  "getArrowShift this = nullish (chain this arrowShift) ARROW_SHIFT_DEFAULT"

definition getArrowLabelShift :: "SvgParameters \<Rightarrow> number" where
  "getArrowLabelShift this = nullish (chain this arrowLabelShift) ARROW_LABEL_SHIFT_DEFAULT"

definition getArrowPathIn :: "SvgParameters \<Rightarrow> string" where
  "getArrowPathIn this = nullish (chain this arrowPathIn) ARROW_PATH_IN_DEFAULT"

definition getArrowPathOut :: "SvgParameters \<Rightarrow> string" where
  "getArrowPathOut this = nullish (chain this arrowPathOut) ARROW_PATH_OUT_DEFAULT"

definition getConverterStationWidth :: "SvgParameters \<Rightarrow> number" where
  "getConverterStationWidth this =
     nullish (chain this converterStationWidth) CONVERTER_STATION_WIDTH_DEFAULT"

definition getNodeHollowWidth :: "SvgParameters \<Rightarrow> number" where
  "getNodeHollowWidth this = nullish (chain this nodeHollowWidth) NODE_HOLLOW_WIDTH_DEFAULT"

definition getUnknownBusNodeExtraRadius :: "SvgParameters \<Rightarrow> number" where
  "getUnknownBusNodeExtraRadius this =
     nullish (chain this unknownBusNodeExtraRadius) UNKNOWN_BUS_NODE_EXTRA_RADIUS_DEFAULT"

definition getFictitiousVoltageLevelCircleRadius :: "SvgParameters \<Rightarrow> number" where
  "getFictitiousVoltageLevelCircleRadius this =
     nullish (chain this fictitiousVoltageLevelCircleRadius)
       FICTITIOUS_VOLTAGE_LEVEL_CIRCLE_RADIUS_DEFAULT"

text \<open>A string is truthy when it is not empty. A key that is not in the mapping object reads
  as \<^verbatim>\<open>undefined\<close> (\<open>None\<close>); members inherited from \<^verbatim>\<open>Object.prototype\<close> are not modelled.\<close>

definition getEdgeInfoDisplayed :: "SvgParameters \<Rightarrow> string option \<Rightarrow> EdgeInfoEnum option" where
  "getEdgeInfoDisplayed this edgeInfoType =
     (case edgeInfoType of
        None \<Rightarrow> Some EDGE_INFO_DISPLAYED_DEFAULT
      | Some t \<Rightarrow> if t \<noteq> [] then EdgeInfoEnumMapping t else Some EDGE_INFO_DISPLAYED_DEFAULT)"

definition getPowerValuePrecision :: "SvgParameters \<Rightarrow> number" where
  "getPowerValuePrecision this =
     nullish (chain this powerValuePrecision) POWER_VALUE_PRECISION_RADIUS_DEFAULT"

definition getCurrentValuePrecision :: "SvgParameters \<Rightarrow> number" where
  "getCurrentValuePrecision this =
     nullish (chain this currentValuePrecision) CURRENT_VALUE_PRECISION_DEFAULT"

definition getAngleValuePrecision :: "SvgParameters \<Rightarrow> number" where
  "getAngleValuePrecision this =
     nullish (chain this angleValuePrecision) ANGLE_VALUE_PRECISION_DEFAULT"

definition getVoltageValuePrecision :: "SvgParameters \<Rightarrow> number" where
  "getVoltageValuePrecision this =
     nullish (chain this voltageValuePrecision) VOLTAGE_VALUE_PRECISION_DEFAULT"

text \<open>
  \<^verbatim>\<open>this.svgParametersMetadata?.diagramPadding.left\<close> short-circuits only on an absent
  configuration object: when the object is there without \<^verbatim>\<open>diagramPadding\<close>, reading
  \<^verbatim>\<open>.left\<close> of \<^verbatim>\<open>undefined\<close> throws.
\<close>

definition getDiagramPadding :: "SvgParameters \<Rightarrow> error + DiagramPadding" where
  "getDiagramPadding this =
     (case this of
        None \<Rightarrow>
          Inr \<lparr>left = DIAGRAM_PADDING_LEFT_DEFAULT, top = DIAGRAM_PADDING_TOP_DEFAULT,
               right = DIAGRAM_PADDING_RIGHT_DEFAULT, bottom = DIAGRAM_PADDING_BOTTON_DEFAULT\<rparr>
      | Some m \<Rightarrow>
          (case diagramPadding m of
             None \<Rightarrow> Inl TypeError
           | Some p \<Rightarrow>
               Inr \<lparr>left = nullish (paddingLeft p) DIAGRAM_PADDING_LEFT_DEFAULT,
                    top = nullish (paddingTop p) DIAGRAM_PADDING_TOP_DEFAULT,
                    right = nullish (paddingRight p) DIAGRAM_PADDING_RIGHT_DEFAULT,
                    bottom = nullish (paddingBottom p) DIAGRAM_PADDING_BOTTON_DEFAULT\<rparr>))"

definition getCssLocation :: "SvgParameters \<Rightarrow> CssLocationEnum option" where
  "getCssLocation this =
     (case chain this cssLocation of
        None \<Rightarrow> Some CSS_LOCATION_DEFAULT
      | Some l \<Rightarrow> if l \<noteq> [] then CssLocationEnumMapping l else Some CSS_LOCATION_DEFAULT)"

text \<open>A configuration object with every field absent (the object \<^verbatim>\<open>{}\<close>), and the one of the
  unit test of \<^verbatim>\<open>getNodeRadius\<close>, with every field present.\<close>

definition emptySvgParametersMetadata :: SvgParametersMetadata where
  "emptySvgParametersMetadata =
     \<lparr>voltageLevelCircleRadius = None, interAnnulusSpace = None, transformerCircleRadius = None,
      edgesForkAperture = None, edgesForkLength = None, arrowShift = None,
      arrowLabelShift = None, arrowPathIn = None, arrowPathOut = None,
      converterStationWidth = None, nodeHollowWidth = None, unknownBusNodeExtraRadius = None,
      fictitiousVoltageLevelCircleRadius = None, powerValuePrecision = None,
      currentValuePrecision = None, angleValuePrecision = None, voltageValuePrecision = None,
      diagramPadding = None, cssLocation = None\<rparr>"

definition testSvgParametersMetadata :: SvgParametersMetadata where
  "testSvgParametersMetadata =
     \<lparr>voltageLevelCircleRadius = Some (Fin 30), interAnnulusSpace = Some (Fin 5),
      transformerCircleRadius = Some (Fin 0), edgesForkAperture = Some (Fin 0),
      edgesForkLength = Some (Fin 0), arrowShift = Some (Fin 0), arrowLabelShift = Some (Fin 0),
      arrowPathIn = Some [], arrowPathOut = Some [], converterStationWidth = Some (Fin 0),
      nodeHollowWidth = Some (Fin 0), unknownBusNodeExtraRadius = Some (Fin 0),
      fictitiousVoltageLevelCircleRadius = Some (Fin 15), powerValuePrecision = Some (Fin 0),
      currentValuePrecision = Some (Fin 0), angleValuePrecision = Some (Fin 0),
      voltageValuePrecision = Some (Fin 0),
      diagramPadding = Some \<lparr>paddingLeft = Some (Fin 0), paddingTop = Some (Fin 0),
                             paddingRight = Some (Fin 0), paddingBottom = Some (Fin 0)\<rparr>,
      cssLocation = Some []\<rparr>"

section \<open>Diagram metadata\<close>

text \<open>
  The interfaces of diagram-metadata.ts, with the fields the modelled functions read or
  write. Numbers keep their JavaScript type. A field whose name clashes with another record's
  field carries its record's name; \<^verbatim>\<open>type\<close> of an edge is \<open>edgeTypeName\<close>, optional in the model
  because \<^verbatim>\<open>getEdgeType\<close> tests it against \<^verbatim>\<open>null\<close>.
\<close>

record NodeMetadata =
  nodeSvgId :: string
  nodeEquipmentId :: string
  nodeX :: number
  nodeY :: number
  fictitious :: "bool option"

record BusNodeMetadata =
  busSvgId :: string
  busEquipmentId :: string
  nbNeighbours :: number
  busIndex :: number
  vlNode :: string

record EdgeInfoMetadata =
  infoSvgId :: string

record EdgeMetadata =
  edgeSvgId :: string
  edgeEquipmentId :: string
  node1 :: string
  node2 :: string
  busNode1 :: string
  busNode2 :: string
  edgeTypeName :: "string option"
  bendingPoints :: "PointMetadata list option"
  edgeInfo1 :: "EdgeInfoMetadata option"
  edgeInfo2 :: "EdgeInfoMetadata option"

record DiagramMetadata =
  nodes :: "NodeMetadata list"
  busNodes :: "BusNodeMetadata list"
  edges :: "EdgeMetadata list"

section \<open>Diagram types (diagram-types.ts)\<close>

datatype EdgeType =
  LINE | TWO_WINDINGS_TRANSFORMER | PHASE_SHIFT_TRANSFORMER | HVDC_LINE_VSC | HVDC_LINE_LCC
| DANGLING_LINE | TIE_LINE | THREE_WINDINGS_TRANSFORMER | THREE_WINDINGS_PHASE_SHIFT_TRANSFORMER
| UNKNOWN

record HalfEdge =
  side :: string
  fork :: bool
  halfEdgeBusOuterRadius :: number
  halfEdgeVoltageLevelRadius :: number
  edgeInfoId :: "string option"
  edgePoints :: "Point list"

record NodeRadius =
  busInnerRadius :: number
  busOuterRadius :: number
  voltageLevelRadius :: number

section \<open>Voltage-level radius and transformer test (diagram-utils.ts)\<close>

text \<open>The free function \<^verbatim>\<open>getVoltageLevelCircleRadius\<close> of diagram-utils.ts; the accessor of
  the same name is the method of \<^verbatim>\<open>SvgParameters\<close>.\<close>

definition getVoltageLevelCircleRadius_du :: "number \<Rightarrow> bool option \<Rightarrow> SvgParameters \<Rightarrow> number" where
  "getVoltageLevelCircleRadius_du nbNeighbours' fictitiousVl svgParameters =
     (let voltageLevelCircleRadius' =
            (if fictitiousVl = Some True
             then getFictitiousVoltageLevelCircleRadius svgParameters
             else getVoltageLevelCircleRadius svgParameters)
      in jmul (Math_min (Math_max (jadd nbNeighbours' (Fin 1)) (Fin 1)) (Fin 2))
           voltageLevelCircleRadius')"

definition isTransformerEdge :: "EdgeType option \<Rightarrow> bool" where
  "isTransformerEdge edgeType =
     (edgeType = Some TWO_WINDINGS_TRANSFORMER \<or> edgeType = Some PHASE_SHIFT_TRANSFORMER)"

section \<open>Metadata utilities (metadata-utils.ts)\<close>

definition EdgeTypeMapping :: "string \<Rightarrow> EdgeType option" where
  "EdgeTypeMapping key =
     (if key = ''LineEdge'' then Some LINE
      else if key = ''TwoWtEdge'' then Some TWO_WINDINGS_TRANSFORMER
      else if key = ''PstEdge'' then Some PHASE_SHIFT_TRANSFORMER
      else if key = ''HvdcLineVscEdge'' then Some HVDC_LINE_VSC
      else if key = ''HvdcLineLccEdge'' then Some HVDC_LINE_LCC
      else if key = ''DanglingLineEdge'' then Some DANGLING_LINE
      else if key = ''TieLineEdge'' then Some TIE_LINE
      else if key = ''ThreeWtEdge'' then Some THREE_WINDINGS_TRANSFORMER
      else if key = ''ThreeWtPstEdge'' then Some THREE_WINDINGS_PHASE_SHIFT_TRANSFORMER
      else None)"

text \<open>\<open>None\<close> is the \<^verbatim>\<open>undefined\<close> that an unrecognised type string reads from the mapping.\<close>

definition getEdgeType :: "EdgeMetadata \<Rightarrow> EdgeType option" where
  "getEdgeType edge =
     (case edgeTypeName edge of None \<Rightarrow> Some UNKNOWN | Some t \<Rightarrow> EdgeTypeMapping t)"

text \<open>\<^verbatim>\<open>x ** 2\<close>.\<close>

definition jsq :: "number \<Rightarrow> number" where
  "jsq v = jmul v v"

definition getValue :: "number \<Rightarrow> number \<Rightarrow> number \<Rightarrow> number" where
  "getValue param firstValue secondValue =
     (if jlt param (Fin 0) then firstValue
      else if jgt param (Fin 1) then secondValue
      else jadd firstValue (jmul param (jsub secondValue firstValue)))"

definition getSquareDistanceFromSegment :: "Point \<Rightarrow> Point \<Rightarrow> Point \<Rightarrow> number" where
  "getSquareDistanceFromSegment p a b =
     (let dx = jsub (px b) (px a);
          dy = jsub (py b) (py a);
          param = jdiv (jadd (jmul (jsub (px p) (px a)) dx) (jmul (jsub (py p) (py a)) dy))
                    (jadd (jsq dx) (jsq dy));
          xx = getValue param (px a) (px b);
          yy = getValue param (py a) (py b);
          distX = jsub (px p) xx;
          distY = jsub (py p) yy
      in jadd (jsq distX) (jsq distY))"

text \<open>
  The search loop of \<^verbatim>\<open>addPointToList\<close>: the list holds the points from index \<open>i\<close> on, the
  state is \<^verbatim>\<open>(minDistance, index)\<close>.
\<close>

fun nearestSegment :: "Point \<Rightarrow> Point list \<Rightarrow> nat \<Rightarrow> number \<times> nat \<Rightarrow> number \<times> nat" where
  "nearestSegment bendPoint (point1 # point2 # ps) i (minDistance, index) =
     (let distance = getSquareDistanceFromSegment bendPoint point1 point2
      in if jlt distance minDistance
         then nearestSegment bendPoint (point2 # ps) (Suc i) (distance, i)
         else nearestSegment bendPoint (point2 # ps) (Suc i) (minDistance, index))"
| "nearestSegment bendPoint ps i st = st"

record AddedPoint =
  linePoints :: "PointMetadata list"
  pointIndex :: nat

text \<open>\<^verbatim>\<open>xs.splice(i, 0, v)\<close> inserts \<open>v\<close> before position \<open>i\<close>, at the end when \<open>i\<close> is beyond it.\<close>

definition splice_insert :: "'a list \<Rightarrow> nat \<Rightarrow> 'a \<Rightarrow> 'a list" where
  "splice_insert xs i v = take i xs @ [v] @ drop i xs"

definition addPointToList ::
  "PointMetadata list option \<Rightarrow> Point \<Rightarrow> Point \<Rightarrow> Point \<Rightarrow> AddedPoint" where
  "addPointToList pointsMetadata node1' node2' bendPoint =
     (case pointsMetadata of
        None \<Rightarrow> \<lparr>linePoints = [\<lparr>px = px bendPoint, py = py bendPoint\<rparr>], pointIndex = 0\<rparr>
      | Some pts \<Rightarrow>
          (let extended = [\<lparr>px = px node1', py = py node1'\<rparr>] @ pts
                            @ [\<lparr>px = px node2', py = py node2'\<rparr>];
               (minDistance, index) = nearestSegment bendPoint extended 0 (MAX_VALUE, 0);
               restored = tl (butlast extended)
           in \<lparr>linePoints =
                  splice_insert restored index
                    \<lparr>px = round_num (px bendPoint), py = round_num (py bendPoint)\<rparr>,
                pointIndex = index\<rparr>))"

definition getGroupedEdgesIndexKey :: "EdgeMetadata \<Rightarrow> string" where
  "getGroupedEdgesIndexKey edge =
     (if node1 edge < node2 edge
      then node1 edge @ ''_'' @ node2 edge
      else node2 edge @ ''_'' @ node1 edge)"

definition getBusNodeMetadata :: "string \<Rightarrow> DiagramMetadata option \<Rightarrow> BusNodeMetadata option" where
  "getBusNodeMetadata busNodeId diagramMetadata =
     chain diagramMetadata (\<lambda>m. find (\<lambda>busNode. busSvgId busNode = busNodeId) (busNodes m))"

definition getNodeMetadata :: "string \<Rightarrow> DiagramMetadata option \<Rightarrow> NodeMetadata option" where
  "getNodeMetadata nodeId diagramMetadata =
     chain diagramMetadata (\<lambda>m. find (\<lambda>node. nodeSvgId node = nodeId) (nodes m))"

definition getNodeRadius ::
  "BusNodeMetadata option \<Rightarrow> NodeMetadata option \<Rightarrow> SvgParameters \<Rightarrow> NodeRadius" where
  "getNodeRadius busNode node svgParameters =
     (let nbNeighbours' = nullish (map_option nbNeighbours busNode) (Fin 0);
          busIndex' = nullish (map_option busIndex busNode) (Fin 0);
          vlCircleRadius =
            getVoltageLevelCircleRadius_du nbNeighbours' (chain node fictitious) svgParameters;
          interAnnulusSpace' = getInterAnnulusSpace svgParameters;
          unitaryRadius = jdiv vlCircleRadius (jadd nbNeighbours' (Fin 1))
      in \<lparr>busInnerRadius =
             (if jeq busIndex' (Fin 0) then Fin 0
              else jadd (jmul busIndex' unitaryRadius) (jdiv interAnnulusSpace' (Fin 2))),
          busOuterRadius =
             jsub (jmul (jadd busIndex' (Fin 1)) unitaryRadius) (jdiv interAnnulusSpace' (Fin 2)),
          voltageLevelRadius = vlCircleRadius\<rparr>)"

text \<open>The first loop of \<^verbatim>\<open>getEdgePoints\<close>: the length of the polyline, added up segment by
  segment onto \<^verbatim>\<open>distance\<close>.\<close>

fun polylineLength :: "Point list \<Rightarrow> number \<Rightarrow> number" where
  "polylineLength (point # nextPoint # ps) distance =
     polylineLength (nextPoint # ps) (jadd distance (getDistance point nextPoint))"
| "polylineLength ps distance = distance"

text \<open>
  The second loop: the list holds the points from index \<open>i\<close> on, the state is
  \<^verbatim>\<open>(halfEdgePoints1, halfEdgePoints2, partialDistance, middleAdded)\<close>.
\<close>

fun splitAtMiddle ::
  "number \<Rightarrow> Point list \<Rightarrow> Point list \<times> Point list \<times> number \<times> bool
     \<Rightarrow> Point list \<times> Point list \<times> number \<times> bool" where
  "splitAtMiddle distance (point # nextPoint # ps)
       (halfEdgePoints1, halfEdgePoints2, partialDistance, middleAdded) =
     (let partialDistance' = jadd partialDistance (getDistance point nextPoint)
      in if jlt partialDistance' (jdiv distance (Fin 2))
         then splitAtMiddle distance (nextPoint # ps)
                (halfEdgePoints1 @ [nextPoint], halfEdgePoints2, partialDistance', middleAdded)
         else if \<not> middleAdded
         then (let edgeMiddle =
                     getPointAtDistance nextPoint point
                       (jsub partialDistance' (jdiv distance (Fin 2)))
               in splitAtMiddle distance (nextPoint # ps)
                    (halfEdgePoints1 @ [edgeMiddle], halfEdgePoints2 @ [edgeMiddle, nextPoint],
                     partialDistance', True))
         else splitAtMiddle distance (nextPoint # ps)
                (halfEdgePoints1, halfEdgePoints2 @ [nextPoint], partialDistance', middleAdded))"
| "splitAtMiddle distance ps st = st"

definition getEdgePoints ::
  "Point \<Rightarrow> Point option \<Rightarrow> Point \<Rightarrow> Point \<Rightarrow> Point option \<Rightarrow> Point
     \<Rightarrow> PointMetadata list option \<Rightarrow> Point list \<times> Point list" where
  "getEdgePoints edgeStart1 edgeFork1 edgeEnd1 edgeStart2 edgeFork2 edgeEnd2 bendingPoints' =
     (case bendingPoints' of
        None \<Rightarrow>
          (let edgePoints1 = (case edgeFork1 of Some f \<Rightarrow> [edgeStart1, f, edgeEnd1]
                                               | None \<Rightarrow> [edgeStart1, edgeEnd1]);
               edgePoints2 = (case edgeFork2 of Some f \<Rightarrow> [edgeStart2, f, edgeEnd2]
                                               | None \<Rightarrow> [edgeStart2, edgeEnd2])
           in (edgePoints1, edgePoints2))
      | Some bends \<Rightarrow>
          (let pointsMetadata = [\<lparr>px = px edgeStart1, py = py edgeStart1\<rparr>] @ bends
                                  @ [\<lparr>px = px edgeStart2, py = py edgeStart2\<rparr>];
               distance = polylineLength pointsMetadata (Fin 0);
               (halfEdgePoints1, halfEdgePoints2, partialDistance, middleAdded) =
                  splitAtMiddle distance pointsMetadata
                    ([hd pointsMetadata], [], Fin 0, False)
           in (halfEdgePoints1, rev halfEdgePoints2)))"

section \<open>Viewer state and bus reassignment (network-area-diagram-viewer.ts)\<close>

text \<open>
  \<^verbatim>\<open>setBranchBusConnection\<close> mutates the edge it is given and then redraws the voltage-level
  node, which writes to the DOM only. The model returns the edge after the call together with
  the console warnings; \<open>hasElement\<close> tells whether \<^verbatim>\<open>container.querySelector\<close> finds an
  element with the given id.
\<close>

definition setBranchBusConnection ::
  "DiagramMetadata option \<Rightarrow> (string \<Rightarrow> bool) \<Rightarrow> EdgeMetadata \<Rightarrow> string \<Rightarrow> string
     \<Rightarrow> string option \<Rightarrow> EdgeMetadata \<times> string list" where
  "setBranchBusConnection diagramMetadata hasElement edge branchId side' busId =
     (case busId of
        None \<Rightarrow> (edge, [])
      | Some bus \<Rightarrow>
          if bus = [] then (edge, [])
          else
            (case chain diagramMetadata
                    (\<lambda>m. find (\<lambda>busNode. busEquipmentId busNode = bus) (busNodes m)) of
               None \<Rightarrow>
                 (edge, [''Skipping updating branch '' @ branchId @ '' side '' @ side'
                           @ '' status: Bus '' @ bus @ '' not found in metadata''])
             | Some targetBusNode \<Rightarrow>
                 (let currentBusNodeId = (if side' = ''1'' then busNode1 edge else busNode2 edge);
                      currentBusNode =
                        chain diagramMetadata
                          (\<lambda>m. find (\<lambda>busNode. busSvgId busNode = currentBusNodeId) (busNodes m))
                  in if (case currentBusNode of
                           None \<Rightarrow> False
                         | Some current \<Rightarrow> vlNode current \<noteq> vlNode targetBusNode)
                     then (edge, [''Skipping updating branch '' @ branchId @ '' side '' @ side'
                                    @ '' status: Cannot connect to bus from different voltage level''])
                     else
                       (let edge' = (if side' = ''1''
                                     then edge\<lparr>busNode1 := busSvgId targetBusNode\<rparr>
                                     else edge\<lparr>busNode2 := busSvgId targetBusNode\<rparr>)
                        in if \<not> hasElement (vlNode targetBusNode)
                           then (edge', [''VoltageLevel '' @ vlNode targetBusNode @ '' not found''])
                           else (edge', [])))))"

text \<open>A small diagram for concrete instances: voltage level \<^verbatim>\<open>0\<close> with two buses, voltage level
  \<^verbatim>\<open>3\<close> with one, and a line between them.\<close>

definition exampleBuses :: DiagramMetadata where
  "exampleBuses =
     \<lparr>nodes = [],
      busNodes =
        [\<lparr>busSvgId = ''1'', busEquipmentId = ''VL1_0'', nbNeighbours = Fin 1, busIndex = Fin 0,
          vlNode = ''0''\<rparr>,
         \<lparr>busSvgId = ''2'', busEquipmentId = ''VL1_1'', nbNeighbours = Fin 1, busIndex = Fin 1,
          vlNode = ''0''\<rparr>,
         \<lparr>busSvgId = ''4'', busEquipmentId = ''VL2_0'', nbNeighbours = Fin 0, busIndex = Fin 0,
          vlNode = ''3''\<rparr>],
      edges = []\<rparr>"

definition exampleLine :: EdgeMetadata where
  "exampleLine =
     \<lparr>edgeSvgId = ''5'', edgeEquipmentId = ''L1'', node1 = ''0'', node2 = ''3'',
      busNode1 = ''1'', busNode2 = ''4'', edgeTypeName = Some ''LineEdge'',
      bendingPoints = None, edgeInfo1 = None, edgeInfo2 = None\<rparr>"

section \<open>Reference notions for the geometric properties\<close>

text \<open>A point with finite coordinates, given by a pair of reals.\<close>

definition finPoint :: "real \<times> real \<Rightarrow> Point" where
  "finPoint p = \<lparr>px = Fin (fst p), py = Fin (snd p)\<rparr>"



text \<open>The Euclidean distance of two points and the length of a polyline, over the reals.\<close>

definition euclid :: "real \<times> real \<Rightarrow> real \<times> real \<Rightarrow> real" where
  "euclid a b = sqrt ((fst a - fst b)\<^sup>2 + (snd a - snd b)\<^sup>2)"

fun pathLength :: "(real \<times> real) list \<Rightarrow> real" where
  "pathLength (a # b # ps) = euclid a b + pathLength (b # ps)"
| "pathLength ps = 0"

section \<open>Annulus paths (diagram-utils.ts)\<close>

text \<open>
  \<^verbatim>\<open>Number.prototype.toFixed\<close> is a builtin of the language, the decimal notation of a double
  with the given number of digits; the functions that print numbers take it as the
  parameter \<open>toFixed\<close>.
\<close>

definition getCirclePath ::
  "(number \<Rightarrow> nat \<Rightarrow> string) \<Rightarrow> number \<Rightarrow> number \<Rightarrow> number \<Rightarrow> bool \<Rightarrow> string" where
  "getCirclePath toFixed radius angleStart angleEnd clockWise =
     (let arcAngle = jsub angleEnd angleStart;
          xStart = jmul radius (Math_cos angleStart);
          yStart = jmul radius (Math_sin angleStart);
          xEnd = jmul radius (Math_cos angleEnd);
          yEnd = jmul radius (Math_sin angleEnd);
          largeArc = (if jgt (Math_abs arcAngle) Math_PI then ''1'' else ''0'')
      in toFixed xStart 3 @ '','' @ toFixed yStart 3 @ '' A'' @ toFixed radius 3 @ '',''
         @ toFixed radius 3 @ '' '' @ toFixed (radToDeg arcAngle) 3 @ '' '' @ largeArc @ '' ''
         @ (if clockWise then ''1'' else ''0'') @ '' '' @ toFixed xEnd 3 @ '',''
         @ toFixed yEnd 3)"

text \<open>
  The loop of \<^verbatim>\<open>getFragmentedAnnulusPath\<close>: the list holds the angles from \<^verbatim>\<open>index\<close> on.
  At the last index \<^verbatim>\<open>angles[index + 1]\<close> is \<^verbatim>\<open>undefined\<close>, which is NaN in arithmetic.
\<close>

fun annulusSlices ::
  "(number \<Rightarrow> nat \<Rightarrow> string) \<Rightarrow> NodeRadius \<Rightarrow> number \<Rightarrow> number \<Rightarrow> number list \<Rightarrow> string
     \<Rightarrow> string" where
  "annulusSlices toFixed nodeRadius deltaAngle0 deltaAngle1 (angle # rest) path =
     (let nextAngle = (case rest of [] \<Rightarrow> NaN | b # _ \<Rightarrow> b);
          outerArcStart = jadd angle deltaAngle0;
          outerArcEnd = jsub nextAngle deltaAngle0;
          innerArcStart = jsub nextAngle deltaAngle1;
          innerArcEnd = jadd angle deltaAngle1
      in annulusSlices toFixed nodeRadius deltaAngle0 deltaAngle1 rest
           (if jgt outerArcEnd outerArcStart \<and> jlt innerArcEnd innerArcStart
            then path @ ''M''
                 @ getCirclePath toFixed (busOuterRadius nodeRadius) outerArcStart outerArcEnd True
                 @ '' L''
                 @ getCirclePath toFixed (busInnerRadius nodeRadius) innerArcStart innerArcEnd False
                 @ '' Z ''
            else path))"
| "annulusSlices toFixed nodeRadius deltaAngle0 deltaAngle1 [] path = path"

definition getFragmentedAnnulusPath ::
  "(number \<Rightarrow> nat \<Rightarrow> string) \<Rightarrow> number list \<Rightarrow> NodeRadius \<Rightarrow> number \<Rightarrow> string" where
  "getFragmentedAnnulusPath toFixed angles nodeRadius nodeHollowWidth' =
     (if length angles = 0
      then (let path = ''M'' @ getCirclePath toFixed (busOuterRadius nodeRadius) (Fin 0) Math_PI True
                       @ '' M''
                       @ getCirclePath toFixed (busOuterRadius nodeRadius) Math_PI (Fin 0) True
            in if jgt (busInnerRadius nodeRadius) (Fin 0)
               then path @ '' M''
                    @ getCirclePath toFixed (busInnerRadius nodeRadius) (Fin 0) Math_PI False
                    @ '' M''
                    @ getCirclePath toFixed (busInnerRadius nodeRadius) Math_PI (Fin 0) False
               else path)
      else (let halfWidth = jdiv nodeHollowWidth' (Fin 2);
                deltaAngle0 = jdiv halfWidth (busOuterRadius nodeRadius);
                deltaAngle1 = jdiv halfWidth (busInnerRadius nodeRadius)
            in annulusSlices toFixed nodeRadius deltaAngle0 deltaAngle1 angles ''''))"

section \<open>Half-edges (half-edge-utils.ts)\<close>

text \<open>
  \<open>UndefinedValue\<close> is not an exception: it marks a result in which \<^verbatim>\<open>undefined\<close> stands where
  the declared type has a value (a non-null assertion \<^verbatim>\<open>!\<close> that did not hold).
\<close>

datatype failure = Throws error | UndefinedValue

text \<open>\<^verbatim>\<open>xs.at(0)\<close> and \<^verbatim>\<open>xs.at(-1)\<close>.\<close>

definition at_first :: "'a list \<Rightarrow> 'a option" where
  "at_first xs = (case xs of [] \<Rightarrow> None | v # _ \<Rightarrow> Some v)"

definition at_last :: "'a list \<Rightarrow> 'a option" where
  "at_last xs = (if xs = [] then None else Some (last xs))"

definition getTranslatedPolyline :: "Point list \<Rightarrow> NodeMetadata \<Rightarrow> Point \<Rightarrow> Point list" where
  "getTranslatedPolyline polylinePoints nodeMetadata initialPosition =
     (let translation = \<lparr>px = jsub (nodeX nodeMetadata) (px initialPosition),
                         py = jsub (nodeY nodeMetadata) (py initialPosition)\<rparr>
      in map (\<lambda>point. \<lparr>px = jadd (px point) (px translation),
                       py = jadd (py point) (py translation)\<rparr>) polylinePoints)"

definition getEdgeStart ::
  "string option \<Rightarrow> Point \<Rightarrow> Point \<Rightarrow> number \<Rightarrow> SvgParameters \<Rightarrow> Point" where
  "getEdgeStart busNodeId vlPoint direction busOuterRadius' svgParameters =
     (let unknownBusNode1 = (case busNodeId of None \<Rightarrow> False | Some b \<Rightarrow> length b = 0);
          rho = (if unknownBusNode1
                 then jadd busOuterRadius' (getUnknownBusNodeExtraRadius svgParameters)
                 else busOuterRadius')
      in getPointAtDistance vlPoint direction rho)"

definition getEdgeDirection :: "Point \<Rightarrow> Point option \<Rightarrow> PointMetadata option \<Rightarrow> Point" where
  "getEdgeDirection nodePoint edgeFork firstBendingPoint =
     (case firstBendingPoint of
        Some bend \<Rightarrow> \<lparr>px = px bend, py = py bend\<rparr>
      | None \<Rightarrow> (case edgeFork of Some f \<Rightarrow> f | None \<Rightarrow> nodePoint))"

definition getThreeWtHalfEdge ::
  "Point list option \<Rightarrow> EdgeMetadata \<Rightarrow> bool \<Rightarrow> Point option \<Rightarrow> DiagramMetadata option
     \<Rightarrow> SvgParameters \<Rightarrow> failure + HalfEdge option" where
  "getThreeWtHalfEdge points edgeMetadata threeWtMoved initialPosition diagramMetadata svgParameters =
     (case points of
        None \<Rightarrow> Inr None
      | Some pts \<Rightarrow>
          (let busNode = getBusNodeMetadata (busNode1 edgeMetadata) diagramMetadata;
               vlNode' = getNodeMetadata (node1 edgeMetadata) diagramMetadata;
               twtNode' = getNodeMetadata (node2 edgeMetadata) diagramMetadata
           in case vlNode' of
                None \<Rightarrow> Inr None
              | Some vl \<Rightarrow>
                  (case twtNode' of
                     None \<Rightarrow> Inr None
                   | Some twtNode \<Rightarrow>
                       (let pointVl = \<lparr>px = nodeX vl, py = nodeY vl\<rparr>;
                            pointTwt = \<lparr>px = nodeX twtNode, py = nodeY twtNode\<rparr>;
                            nodeRadius = getNodeRadius busNode (Some vl) svgParameters;
                            edgeStart = getEdgeStart (Some (busNode1 edgeMetadata)) pointVl pointTwt
                                          (busOuterRadius nodeRadius) svgParameters;
                            halfEdge = (\<lambda>edgeEnd.
                              \<lparr>side = ''1'', fork = False,
                               halfEdgeBusOuterRadius = busOuterRadius nodeRadius,
                               halfEdgeVoltageLevelRadius = voltageLevelRadius nodeRadius,
                               edgeInfoId = map_option infoSvgId (edgeInfo1 edgeMetadata),
                               edgePoints = [edgeStart, edgeEnd]\<rparr>)
                        in case (if threeWtMoved then initialPosition else None) of
                             Some initial \<Rightarrow>
                               (case at_last pts of
                                  None \<Rightarrow> Inl (Throws TypeError)
                                | Some lastPoint \<Rightarrow>
                                    Inr (Some (halfEdge
                                      \<lparr>px = jsub (jadd (px lastPoint) (px pointTwt)) (px initial),
                                       py = jsub (jadd (py lastPoint) (py pointTwt)) (py initial)\<rparr>)))
                           | None \<Rightarrow>
                               (case at_last pts of
                                  None \<Rightarrow> Inl UndefinedValue
                                | Some lastPoint \<Rightarrow> Inr (Some (halfEdge lastPoint)))))))"

definition getHalfVisibleHalfEdges ::
  "Point list option \<Rightarrow> EdgeMetadata \<Rightarrow> string \<Rightarrow> bool \<Rightarrow> DiagramMetadata option \<Rightarrow> Point option
     \<Rightarrow> SvgParameters \<Rightarrow> failure + HalfEdge option \<times> HalfEdge option" where
  "getHalfVisibleHalfEdges polylinePoints edgeMetadata visibleSide fork' diagramMetadata
       initialPosition svgParameters =
     (case polylinePoints of
        None \<Rightarrow> Inr (None, None)
      | Some pts \<Rightarrow>
          if length pts = 0 then Inr (None, None)
          else
            (let visibleNodeId = (if visibleSide = ''1'' then node1 edgeMetadata
                                  else node2 edgeMetadata);
                 visibleNodeMetadata =
                   chain diagramMetadata
                     (\<lambda>m. find (\<lambda>node. nodeSvgId node = visibleNodeId) (nodes m))
             in case visibleNodeMetadata of
                  None \<Rightarrow> Inr (None, None)
                | Some visibleNode \<Rightarrow>
                    (let pts' = (case initialPosition of
                                   Some initial \<Rightarrow> getTranslatedPolyline pts visibleNode initial
                                 | None \<Rightarrow> pts);
                         busNode = getBusNodeMetadata
                                     (if visibleSide = ''1'' then busNode1 edgeMetadata
                                      else busNode2 edgeMetadata) diagramMetadata;
                         vlNode' = getNodeMetadata
                                     (if visibleSide = ''1'' then node1 edgeMetadata
                                      else node2 edgeMetadata) diagramMetadata;
                         nodeRadius = getNodeRadius busNode vlNode' svgParameters;
                         point = \<lparr>px = nodeX visibleNode, py = nodeY visibleNode\<rparr>;
                         visibleBusNode = (if visibleSide = ''1'' then busNode1 edgeMetadata
                                           else busNode2 edgeMetadata)
                     in case tl pts' of
                          [] \<Rightarrow> Inl (Throws TypeError)
                        | second # others \<Rightarrow>
                            (let pts'' = getEdgeStart (Some visibleBusNode) point second
                                           (busOuterRadius nodeRadius) svgParameters
                                         # second # others;
                                 visibleHalfEdge =
                                   \<lparr>side = visibleSide, fork = fork',
                                    halfEdgeBusOuterRadius = busOuterRadius nodeRadius,
                                    halfEdgeVoltageLevelRadius = voltageLevelRadius nodeRadius,
                                    edgeInfoId = None,
                                    edgePoints = pts''\<rparr>
                             in if visibleSide = ''1''
                                then Inr (Some (visibleHalfEdge
                                            \<lparr>edgeInfoId :=
                                               map_option infoSvgId (edgeInfo1 edgeMetadata)\<rparr>),
                                          None)
                                else Inr (None,
                                          Some (visibleHalfEdge
                                            \<lparr>edgeInfoId :=
                                               map_option infoSvgId (edgeInfo2 edgeMetadata)\<rparr>))))))"

definition getHalfEdges ::
  "EdgeMetadata \<Rightarrow> number \<Rightarrow> number \<Rightarrow> DiagramMetadata option \<Rightarrow> SvgParameters
     \<Rightarrow> HalfEdge option \<times> HalfEdge option" where
  "getHalfEdges edge iEdge groupedEdgesCount diagramMetadata svgParameters =
     (let edgeType = getEdgeType edge;
          busNode1' = getBusNodeMetadata (busNode1 edge) diagramMetadata;
          busNode2' = getBusNodeMetadata (busNode2 edge) diagramMetadata;
          node1' = getNodeMetadata (node1 edge) diagramMetadata;
          node2' = getNodeMetadata (node2 edge) diagramMetadata
      in case node1' of
           None \<Rightarrow> (None, None)
         | Some n1 \<Rightarrow>
             (case node2' of
                None \<Rightarrow> (None, None)
              | Some n2 \<Rightarrow>
                  (let point1 = \<lparr>px = nodeX n1, py = nodeY n1\<rparr>;
                       point2 = \<lparr>px = nodeX n2, py = nodeY n2\<rparr>;
                       (edgeFork1, edgeFork2) =
                         (if jgt groupedEdgesCount (Fin 1)
                          then (let angle = getAngle point1 point2;
                                    angleStep = jdiv (getEdgesForkAperture svgParameters)
                                                  (jsub groupedEdgesCount (Fin 1));
                                    alpha = jadd (jdiv (jneg (getEdgesForkAperture svgParameters))
                                                    (Fin 2))
                                              (jmul iEdge angleStep);
                                    angleFork1 = jsub angle alpha;
                                    angleFork2 = jadd (jadd angle Math_PI) alpha
                                in (Some (getEdgeFork point1 (getEdgesForkLength svgParameters)
                                            angleFork1),
                                    Some (getEdgeFork point2 (getEdgesForkLength svgParameters)
                                            angleFork2)))
                          else (None, None));
                       edgeDirection1 = getEdgeDirection point2 edgeFork1
                                          (chain (bendingPoints edge) at_first);
                       nodeRadius1 = getNodeRadius busNode1' (Some n1) svgParameters;
                       edgeStart1 = getEdgeStart (Some (busNode1 edge)) point1 edgeDirection1
                                      (busOuterRadius nodeRadius1) svgParameters;
                       edgeDirection2 = getEdgeDirection point1 edgeFork2
                                          (chain (bendingPoints edge) at_last);
                       nodeRadius2 = getNodeRadius busNode2' (Some n2) svgParameters;
                       edgeStart2 = getEdgeStart (Some (busNode2 edge)) point2 edgeDirection2
                                      (busOuterRadius nodeRadius2) svgParameters;
                       edgeMiddle =
                         (case edgeFork1 of
                            None \<Rightarrow> getMidPosition edgeStart1 edgeStart2
                          | Some f1 \<Rightarrow>
                              (case edgeFork2 of
                                 None \<Rightarrow> getMidPosition edgeStart1 edgeStart2
                               | Some f2 \<Rightarrow> getMidPosition f1 f2));
                       (edgeEnd1, edgeEnd2) =
                         (if isTransformerEdge edgeType
                          then (let endShift =
                                      jmul (Fin (3 / 2)) (getTransformerCircleRadius svgParameters)
                                in (getPointAtDistance edgeMiddle (nullish edgeFork1 edgeStart1)
                                      endShift,
                                    getPointAtDistance edgeMiddle (nullish edgeFork2 edgeStart2)
                                      endShift))
                          else (edgeMiddle, edgeMiddle));
                       edgePoints' = getEdgePoints edgeStart1 edgeFork1 edgeEnd1 edgeStart2
                                       edgeFork2 edgeEnd2 (bendingPoints edge);
                       halfEdge1 =
                         \<lparr>side = ''1'', fork = jgt groupedEdgesCount (Fin 1),
                          halfEdgeBusOuterRadius = busOuterRadius nodeRadius1,
                          halfEdgeVoltageLevelRadius = voltageLevelRadius nodeRadius1,
                          edgeInfoId = map_option infoSvgId (edgeInfo1 edge),
                          edgePoints = fst edgePoints'\<rparr>;
                       halfEdge2 =
                         \<lparr>side = ''2'', fork = jgt groupedEdgesCount (Fin 1),
                          halfEdgeBusOuterRadius = busOuterRadius nodeRadius2,
                          halfEdgeVoltageLevelRadius = voltageLevelRadius nodeRadius2,
                          edgeInfoId = map_option infoSvgId (edgeInfo2 edge),
                          edgePoints = snd edgePoints'\<rparr>
                   in (Some halfEdge1, Some halfEdge2))))"

text \<open>The result of \<^verbatim>\<open>getEdgePoints\<close> for an edge with bend points, and the points of the two
  half-edges of such an edge, written without forks and ends.\<close>

definition bentEdgePoints :: "Point \<Rightarrow> Point \<Rightarrow> PointMetadata list \<Rightarrow> Point list \<times> Point list" where
  "bentEdgePoints edgeStart1 edgeStart2 bends =
     getEdgePoints edgeStart1 None edgeStart1 edgeStart2 None edgeStart2 (Some bends)"

definition bentHalfEdgePoints ::
  "EdgeMetadata \<Rightarrow> PointMetadata \<Rightarrow> PointMetadata list \<Rightarrow> DiagramMetadata option
     \<Rightarrow> SvgParameters \<Rightarrow> (Point list \<times> Point list) option" where
  "bentHalfEdgePoints edge bend bends diagramMetadata svgParameters =
     (case getNodeMetadata (node1 edge) diagramMetadata of
        None \<Rightarrow> None
      | Some n1 \<Rightarrow>
          (case getNodeMetadata (node2 edge) diagramMetadata of
             None \<Rightarrow> None
           | Some n2 \<Rightarrow>
               Some (bentEdgePoints
                 (getEdgeStart (Some (busNode1 edge)) \<lparr>px = nodeX n1, py = nodeY n1\<rparr>
                    \<lparr>px = px bend, py = py bend\<rparr>
                    (busOuterRadius (getNodeRadius
                       (getBusNodeMetadata (busNode1 edge) diagramMetadata) (Some n1) svgParameters))
                    svgParameters)
                 (getEdgeStart (Some (busNode2 edge)) \<lparr>px = nodeX n2, py = nodeY n2\<rparr>
                    \<lparr>px = px (last (bend # bends)), py = py (last (bend # bends))\<rparr>
                    (busOuterRadius (getNodeRadius
                       (getBusNodeMetadata (busNode2 edge) diagramMetadata) (Some n2) svgParameters))
                    svgParameters)
                 (bend # bends))))"

section \<open>Bend handles (network-area-diagram-viewer.ts)\<close>

text \<open>
  The part of the viewer's state that bending reads and writes: the metadata and the map
  \<^verbatim>\<open>linePointIndexMap\<close> from the id of a handle to the edge and the position of its bend
  point. A \<^verbatim>\<open>Map\<close> is an association list with distinct keys, in insertion order. The DOM
  is not part of the state: \<open>hasElement\<close> tells whether \<^verbatim>\<open>svgDiv.querySelector\<close> finds the
  element with a given id, and redrawing writes to the DOM only.
\<close>

datatype LineOperation = BEND | STRAIGHTEN

record LinePointIndex =
  lpEdgeId :: string
  lpIndex :: int

record ViewerState =
  this_diagramMetadata :: "DiagramMetadata option"
  this_linePointIndexMap :: "(string \<times> LinePointIndex) list"

text \<open>
  An edge handed to a method is the object that \<^verbatim>\<open>find\<close> returned, the first edge of the
  metadata with that \<^verbatim>\<open>svgId\<close>: an assignment to one of its fields is a write to that element
  of the list.
\<close>

fun updateFirst :: "('a \<Rightarrow> bool) \<Rightarrow> ('a \<Rightarrow> 'a) \<Rightarrow> 'a list \<Rightarrow> 'a list" where
  "updateFirst test f [] = []"
| "updateFirst test f (v # vs) = (if test v then f v # vs else v # updateFirst test f vs)"

definition writeEdge :: "string \<Rightarrow> (EdgeMetadata \<Rightarrow> EdgeMetadata) \<Rightarrow> ViewerState \<Rightarrow> ViewerState" where
  "writeEdge edgeId f this =
     this\<lparr>this_diagramMetadata :=
            map_option (\<lambda>m. m\<lparr>edges := updateFirst (\<lambda>e. edgeSvgId e = edgeId) f (edges m)\<rparr>)
              (this_diagramMetadata this)\<rparr>"

text \<open>\<^verbatim>\<open>createLinePointElement\<close> for a handle that is not a preview: the element gets the
  fresh id \<open>newId\<close> (\<^verbatim>\<open>crypto.randomUUID()\<close>) and the map an entry for it.\<close>

definition createLinePointElement ::
  "string \<Rightarrow> string \<Rightarrow> int \<Rightarrow> (string \<times> LinePointIndex) list \<Rightarrow> (string \<times> LinePointIndex) list" where
  "createLinePointElement newId edgeId index linePointIndexMap =
     AList.update newId \<lparr>lpEdgeId = edgeId, lpIndex = index\<rparr> linePointIndexMap"

text \<open>\<^verbatim>\<open>xs.splice(i, 1)\<close>: a negative start counts from the end.\<close>

definition splice_remove :: "'a list \<Rightarrow> int \<Rightarrow> 'a list" where
  "splice_remove xs i =
     (let n = int (length xs);
          start = nat (if i < 0 then max (n + i) 0 else min i n)
      in take start xs @ drop (Suc start) xs)"

text \<open>
  \<^verbatim>\<open>xs[i] = v\<close>: inside the list the element is replaced, at its end the list grows by one;
  a negative or \<^verbatim>\<open>undefined\<close> index sets a property and leaves the elements as they are.
  An index beyond the end would leave holes in the JavaScript array; no list of points
  stands for that array, and the model keeps the list as it is.
\<close>

definition array_set :: "'a list \<Rightarrow> int option \<Rightarrow> 'a \<Rightarrow> 'a list" where
  "array_set xs i v =
     (case i of
        None \<Rightarrow> xs
      | Some j \<Rightarrow> if 0 \<le> j \<and> nat j < length xs then xs[nat j := v]
                  else if j = int (length xs) then xs @ [v]
                  else xs)"

definition updateEdgeMetadataWhenBending ::
  "EdgeMetadata \<Rightarrow> string \<Rightarrow> Point \<Rightarrow> ViewerState \<Rightarrow> ViewerState" where
  "updateEdgeMetadataWhenBending edge linePointId position this =
     (let index = map_option lpIndex (map_of (this_linePointIndexMap this) linePointId)
      in if index = Some (- 1)
         then
           (let node1' = chain (this_diagramMetadata this)
                           (\<lambda>m. find (\<lambda>node. nodeSvgId node = node1 edge) (nodes m));
                node2' = chain (this_diagramMetadata this)
                           (\<lambda>m. find (\<lambda>node. nodeSvgId node = node2 edge) (nodes m))
            in case node1' of
                 None \<Rightarrow> this
               | Some n1 \<Rightarrow>
                   (case node2' of
                      None \<Rightarrow> this
                    | Some n2 \<Rightarrow>
                        (let added = addPointToList (bendingPoints edge)
                                       \<lparr>px = nodeX n1, py = nodeY n1\<rparr>
                                       \<lparr>px = nodeX n2, py = nodeY n2\<rparr> position;
                             this' = writeEdge (edgeSvgId edge)
                                       (\<lambda>e. e\<lparr>bendingPoints := Some (linePoints added)\<rparr>) this;
                             set = AList.update linePointId
                                     \<lparr>lpEdgeId = edgeSvgId edge, lpIndex = int (pointIndex added)\<rparr>
                                     (this_linePointIndexMap this')
                         in this'\<lparr>this_linePointIndexMap :=
                                    map (\<lambda>(key, value).
                                           if key \<noteq> linePointId \<and> lpEdgeId value = edgeSvgId edge
                                              \<and> lpIndex value \<ge> int (pointIndex added)
                                           then (key, value\<lparr>lpIndex := lpIndex value + 1\<rparr>)
                                           else (key, value)) set\<rparr>)))
         else
           (let rounded = \<lparr>px = round_num (px position), py = round_num (py position)\<rparr>
            in case bendingPoints edge of
                 Some pts \<Rightarrow>
                   writeEdge (edgeSvgId edge)
                     (\<lambda>e. e\<lparr>bendingPoints := Some (array_set pts index rounded)\<rparr>) this
               | None \<Rightarrow>
                   writeEdge (edgeSvgId edge) (\<lambda>e. e\<lparr>bendingPoints := Some [rounded]\<rparr>) this))"

definition updateEdgeMetadataWhenStraightening ::
  "EdgeMetadata \<Rightarrow> string \<Rightarrow> ViewerState \<Rightarrow> ViewerState" where
  "updateEdgeMetadataWhenStraightening edge linePointId this =
     (let index = nullish (map_option lpIndex (map_of (this_linePointIndexMap this) linePointId))
                    (- 1)
      in case bendingPoints edge of
           None \<Rightarrow> this
         | Some pts \<Rightarrow>
             (let this' = this\<lparr>this_linePointIndexMap :=
                                 map (\<lambda>(key, value).
                                        if key \<noteq> linePointId \<and> lpEdgeId value = edgeSvgId edge
                                           \<and> lpIndex value \<ge> index
                                        then (key, value\<lparr>lpIndex := lpIndex value - 1\<rparr>)
                                        else (key, value)) (this_linePointIndexMap this)\<rparr>;
                  pts' = splice_remove pts index
              in writeEdge (edgeSvgId edge)
                   (\<lambda>e. e\<lparr>bendingPoints := (if length pts' = 0 then None else Some pts')\<rparr>) this'))"

definition updateEdgeMetadata ::
  "string \<Rightarrow> Point option \<Rightarrow> LineOperation \<Rightarrow> ViewerState \<Rightarrow> ViewerState" where
  "updateEdgeMetadata linePointId position lineOperation this =
     (let edge = chain (this_diagramMetadata this)
                   (\<lambda>m. find (\<lambda>edge. Some (edgeSvgId edge)
                                        = map_option lpEdgeId
                                            (map_of (this_linePointIndexMap this) linePointId))
                           (edges m))
      in case edge of
           None \<Rightarrow> this
         | Some e \<Rightarrow>
             (case (if lineOperation = BEND then position else None) of
                Some p \<Rightarrow> updateEdgeMetadataWhenBending e linePointId p this
              | None \<Rightarrow> updateEdgeMetadataWhenStraightening e linePointId this))"

text \<open>\<^verbatim>\<open>redrawBentLine\<close>, for what it does to the state: after the redraw of a straightened
  line the handle is removed and its entry deleted.\<close>

definition redrawBentLine ::
  "(string \<Rightarrow> bool) \<Rightarrow> string \<Rightarrow> LineOperation \<Rightarrow> ViewerState \<Rightarrow> ViewerState" where
  "redrawBentLine hasElement linePointId lineOperation this =
     (let edgeId = (if linePointId \<noteq> []
                    then map_option lpEdgeId (map_of (this_linePointIndexMap this) linePointId)
                    else Some ''-1'');
          edge = chain (this_diagramMetadata this)
                   (\<lambda>m. find (\<lambda>edge. Some (edgeSvgId edge) = edgeId) (edges m))
      in case edge of
           None \<Rightarrow> this
         | Some e \<Rightarrow>
             if lineOperation = BEND \<and> bendingPoints e = None then this
             else if \<not> hasElement (edgeSvgId e) then this
             else if bendingPoints e \<noteq> None \<and> lineOperation = BEND then this
             else this\<lparr>this_linePointIndexMap :=
                         AList.delete linePointId (this_linePointIndexMap this)\<rparr>)"

text \<open>\<^verbatim>\<open>createEdgeBendPoint\<close>: a new handle, at index \<^verbatim>\<open>-1\<close>, then the metadata update that
  inserts its point.\<close>

definition createEdgeBendPoint ::
  "string \<Rightarrow> string option \<Rightarrow> Point \<Rightarrow> ViewerState \<Rightarrow> ViewerState" where
  "createEdgeBendPoint newId bendableElem mousePosition this =
     (case bendableElem of
        None \<Rightarrow> this
      | Some lineId \<Rightarrow>
          updateEdgeMetadata newId (Some mousePosition) BEND
            (this\<lparr>this_linePointIndexMap :=
                    createLinePointElement newId lineId (- 1) (this_linePointIndexMap this)\<rparr>))"

definition onStraightenEnd :: "(string \<Rightarrow> bool) \<Rightarrow> string option \<Rightarrow> ViewerState \<Rightarrow> ViewerState" where
  "onStraightenEnd hasElement straightenedElement this =
     (case straightenedElement of
        None \<Rightarrow> this
      | Some linePointId \<Rightarrow>
          redrawBentLine hasElement linePointId STRAIGHTEN
            (updateEdgeMetadata linePointId None STRAIGHTEN this))"

text \<open>
  The handles of an edge are exactly the positions of its bend points: the indices stored
  for the edge are pairwise different and are the numbers \<open>0, \<dots>, k - 1\<close> for \<open>k\<close> bend
  points.
\<close>

definition handleIndices :: "(string \<times> LinePointIndex) list \<Rightarrow> string \<Rightarrow> int list" where
  "handleIndices linePointIndexMap edgeId =
     map (\<lambda>(key, value). lpIndex value)
       (filter (\<lambda>(key, value). lpEdgeId value = edgeId) linePointIndexMap)"

definition bendCount :: "EdgeMetadata \<Rightarrow> nat" where
  "bendCount edge = (case bendingPoints edge of None \<Rightarrow> 0 | Some pts \<Rightarrow> length pts)"

definition handlesExact :: "ViewerState \<Rightarrow> bool" where
  "handlesExact this \<longleftrightarrow>
     distinct (map fst (this_linePointIndexMap this))
     \<and> (case this_diagramMetadata this of
          None \<Rightarrow> True
        | Some m \<Rightarrow>
            distinct (map edgeSvgId (edges m))
            \<and> list_all (\<lambda>edge.
                 distinct (handleIndices (this_linePointIndexMap this) (edgeSvgId edge))
                 \<and> set (handleIndices (this_linePointIndexMap this) (edgeSvgId edge))
                     = set (map int [0..<bendCount edge])) (edges m))"

text \<open>A viewer state for concrete instances: one line with two bend points and a handle on
  each of them.\<close>

definition exampleBentDiagram :: DiagramMetadata where
  "exampleBentDiagram =
     \<lparr>nodes =
        [\<lparr>nodeSvgId = ''0'', nodeEquipmentId = ''VL1'', nodeX = Fin 0, nodeY = Fin 0,
          fictitious = None\<rparr>,
         \<lparr>nodeSvgId = ''3'', nodeEquipmentId = ''VL2'', nodeX = Fin 300, nodeY = Fin 0,
          fictitious = None\<rparr>],
      busNodes = [],
      edges =
        [\<lparr>edgeSvgId = ''5'', edgeEquipmentId = ''L1'', node1 = ''0'', node2 = ''3'',
          busNode1 = ''1'', busNode2 = ''4'', edgeTypeName = Some ''LineEdge'',
          bendingPoints = Some [\<lparr>px = Fin 100, py = Fin 50\<rparr>, \<lparr>px = Fin 200, py = Fin 50\<rparr>],
          edgeInfo1 = None, edgeInfo2 = None\<rparr>]\<rparr>"

definition exampleBentViewer :: ViewerState where
  "exampleBentViewer =
     \<lparr>this_diagramMetadata = Some exampleBentDiagram,
      this_linePointIndexMap =
        [(''a'', \<lparr>lpEdgeId = ''5'', lpIndex = 0\<rparr>), (''b'', \<lparr>lpEdgeId = ''5'', lpIndex = 1\<rparr>)]\<rparr>"

section \<open>Double-precision arithmetic\<close>

text \<open>
  The numbers of the program are IEEE 754 doubles: the result of an arithmetic operation is
  the exact result rounded to the nearest double, to the one with an even significand when
  two are equally near, and to an infinity from \<open>2\<^sup>1\<^sup>0\<^sup>2\<^sup>4 - 2\<^sup>9\<^sup>7\<^sup>0\<close> on. A double is a
  multiple of \<open>2\<^sup>e\<close> by an integer below \<open>2\<^sup>5\<^sup>3\<close>, with \<open>e\<close> at least \<open>-1074\<close>.

  \<open>exponent a\<close> is the integer part of the binary logarithm of \<open>a > 0\<close>, found by halving or
  doubling; the bounds of the search are the exponents of the doubles.
\<close>

fun exponent_up :: "nat \<Rightarrow> real \<Rightarrow> int" where
  "exponent_up 0 a = 0"
| "exponent_up (Suc fuel) a = (if a < 2 then 0 else 1 + exponent_up fuel (a / 2))"

fun exponent_down :: "nat \<Rightarrow> real \<Rightarrow> int" where
  "exponent_down 0 a = 0"
| "exponent_down (Suc fuel) a = (if 1 \<le> a then 0 else exponent_down fuel (2 * a) - 1)"

definition exponent :: "real \<Rightarrow> int" where
  "exponent a = (if 1 \<le> a then exponent_up 1024 a else exponent_down 1075 a)"

definition pow2 :: "int \<Rightarrow> real" where
  "pow2 e = (if 0 \<le> e then 2 ^ nat e else 1 / 2 ^ nat (- e))"

definition round_half_even :: "real \<Rightarrow> int" where
  "round_half_even q =
     (let f = \<lfloor>q\<rfloor>;
          r = q - of_int f
      in if r < 1 / 2 then f else if 1 / 2 < r then f + 1 else if even f then f else f + 1)"

text \<open>The double nearest to a real number: the value of a decimal literal, and the rounding
  of an exact result.\<close>

definition fl :: "real \<Rightarrow> number" where
  "fl x =
     (if x = 0 then Fin 0
      else if 2 ^ 1024 \<le> \<bar>x\<bar> then inf_of_sign x
      else (let e = max (exponent \<bar>x\<bar> - 52) (- 1074);
                r = of_int (round_half_even (x / pow2 e)) * pow2 e
            in if 2 ^ 1024 \<le> \<bar>r\<bar> then inf_of_sign x else Fin r))"

definition rnd :: "number \<Rightarrow> number" where
  "rnd v = (case v of Fin x \<Rightarrow> fl x | _ \<Rightarrow> v)"

text \<open>The operators \<^verbatim>\<open>+\<close>, \<^verbatim>\<open>-\<close>, \<^verbatim>\<open>*\<close> and \<^verbatim>\<open>/\<close> on doubles.\<close>

definition dadd :: "number \<Rightarrow> number \<Rightarrow> number" where
  "dadd a b = rnd (jadd a b)"

definition dsub :: "number \<Rightarrow> number \<Rightarrow> number" where
  "dsub a b = rnd (jsub a b)"

definition dmul :: "number \<Rightarrow> number \<Rightarrow> number" where
  "dmul a b = rnd (jmul a b)"

definition ddiv :: "number \<Rightarrow> number \<Rightarrow> number" where
  "ddiv a b = rnd (jdiv a b)"

text \<open>
  The functions of the bus annuli and of the insertion of a bend point, in the arithmetic of
  doubles: the same expressions as above, every operation rounded. \<^verbatim>\<open>Math.round\<close> is exact,
  and \<^verbatim>\<open>x ** 2\<close> is the rounded product \<^verbatim>\<open>x * x\<close>.
\<close>

definition round_f64 :: "number \<Rightarrow> number" where
  "round_f64 num = ddiv (Math_round (dmul num (Fin 100))) (Fin 100)"

definition getVoltageLevelCircleRadius_du_f64 ::
  "number \<Rightarrow> bool option \<Rightarrow> SvgParameters \<Rightarrow> number" where
  "getVoltageLevelCircleRadius_du_f64 nbNeighbours' fictitiousVl svgParameters =
     (let voltageLevelCircleRadius' =
            (if fictitiousVl = Some True
             then getFictitiousVoltageLevelCircleRadius svgParameters
             else getVoltageLevelCircleRadius svgParameters)
      in dmul (Math_min (Math_max (dadd nbNeighbours' (Fin 1)) (Fin 1)) (Fin 2))
           voltageLevelCircleRadius')"

definition getNodeRadius_f64 ::
  "BusNodeMetadata option \<Rightarrow> NodeMetadata option \<Rightarrow> SvgParameters \<Rightarrow> NodeRadius" where
  "getNodeRadius_f64 busNode node svgParameters =
     (let nbNeighbours' = nullish (map_option nbNeighbours busNode) (Fin 0);
          busIndex' = nullish (map_option busIndex busNode) (Fin 0);
          vlCircleRadius =
            getVoltageLevelCircleRadius_du_f64 nbNeighbours' (chain node fictitious) svgParameters;
          interAnnulusSpace' = getInterAnnulusSpace svgParameters;
          unitaryRadius = ddiv vlCircleRadius (dadd nbNeighbours' (Fin 1))
      in \<lparr>busInnerRadius =
             (if jeq busIndex' (Fin 0) then Fin 0
              else dadd (dmul busIndex' unitaryRadius) (ddiv interAnnulusSpace' (Fin 2))),
          busOuterRadius =
             dsub (dmul (dadd busIndex' (Fin 1)) unitaryRadius) (ddiv interAnnulusSpace' (Fin 2)),
          voltageLevelRadius = vlCircleRadius\<rparr>)"

definition jsq_f64 :: "number \<Rightarrow> number" where
  "jsq_f64 v = dmul v v"

definition getValue_f64 :: "number \<Rightarrow> number \<Rightarrow> number \<Rightarrow> number" where
  "getValue_f64 param firstValue secondValue =
     (if jlt param (Fin 0) then firstValue
      else if jgt param (Fin 1) then secondValue
      else dadd firstValue (dmul param (dsub secondValue firstValue)))"

definition getSquareDistanceFromSegment_f64 :: "Point \<Rightarrow> Point \<Rightarrow> Point \<Rightarrow> number" where
  "getSquareDistanceFromSegment_f64 p a b =
     (let dx = dsub (px b) (px a);
          dy = dsub (py b) (py a);
          param = ddiv (dadd (dmul (dsub (px p) (px a)) dx) (dmul (dsub (py p) (py a)) dy))
                    (dadd (jsq_f64 dx) (jsq_f64 dy));
          xx = getValue_f64 param (px a) (px b);
          yy = getValue_f64 param (py a) (py b);
          distX = dsub (px p) xx;
          distY = dsub (py p) yy
      in dadd (jsq_f64 distX) (jsq_f64 distY))"

fun nearestSegment_f64 ::
  "Point \<Rightarrow> Point list \<Rightarrow> nat \<Rightarrow> number \<times> nat \<Rightarrow> number \<times> nat" where
  "nearestSegment_f64 bendPoint (point1 # point2 # ps) i (minDistance, index) =
     (let distance = getSquareDistanceFromSegment_f64 bendPoint point1 point2
      in if jlt distance minDistance
         then nearestSegment_f64 bendPoint (point2 # ps) (Suc i) (distance, i)
         else nearestSegment_f64 bendPoint (point2 # ps) (Suc i) (minDistance, index))"
| "nearestSegment_f64 bendPoint ps i st = st"

definition addPointToList_f64 ::
  "PointMetadata list option \<Rightarrow> Point \<Rightarrow> Point \<Rightarrow> Point \<Rightarrow> AddedPoint" where
  "addPointToList_f64 pointsMetadata node1' node2' bendPoint =
     (case pointsMetadata of
        None \<Rightarrow> \<lparr>linePoints = [\<lparr>px = px bendPoint, py = py bendPoint\<rparr>], pointIndex = 0\<rparr>
      | Some pts \<Rightarrow>
          (let extended = [\<lparr>px = px node1', py = py node1'\<rparr>] @ pts
                            @ [\<lparr>px = px node2', py = py node2'\<rparr>];
               (minDistance, index) = nearestSegment_f64 bendPoint extended 0 (MAX_VALUE, 0);
               restored = tl (butlast extended)
           in \<lparr>linePoints =
                  splice_insert restored index
                    \<lparr>px = round_f64 (px bendPoint), py = round_f64 (py bendPoint)\<rparr>,
                pointIndex = index\<rparr>))"

text \<open>The exact coordinates of a point of finite doubles.\<close>

definition realValue :: "number \<Rightarrow> real" where
  "realValue v = (case v of Fin x \<Rightarrow> x | _ \<Rightarrow> 0)"

definition realPoint :: "Point \<Rightarrow> real \<times> real" where
  "realPoint p = (realValue (px p), realValue (py p))"

text \<open>The distance that the search loop computes for segment \<open>j\<close> of a polyline.\<close>

definition segmentDistance_f64 :: "Point \<Rightarrow> Point list \<Rightarrow> nat \<Rightarrow> number" where
  "segmentDistance_f64 p ps j = getSquareDistanceFromSegment_f64 p (ps ! j) (ps ! Suc j)"

section \<open>Verified properties\<close>

lemmas svg_defaults =
  VOLTAGE_LEVEL_CIRCLE_RADIUS_DEFAULT_def INTER_ANNULUS_SPACE_DEFAULT_def
  TRANSFORMER_CIRCLE_RADIUS_DEFAULT_def EDGES_FORK_APERTURE_DEFAULT_def
  EDGES_FORK_LENGTH_DEFAULT_def ARROW_SHIFT_DEFAULT_def ARROW_LABEL_SHIFT_DEFAULT_def
  CONVERTER_STATION_WIDTH_DEFAULT_def NODE_HOLLOW_WIDTH_DEFAULT_def
  UNKNOWN_BUS_NODE_EXTRA_RADIUS_DEFAULT_def FICTITIOUS_VOLTAGE_LEVEL_CIRCLE_RADIUS_DEFAULT_def
  EDGE_INFO_DISPLAYED_DEFAULT_def POWER_VALUE_PRECISION_RADIUS_DEFAULT_def
  CURRENT_VALUE_PRECISION_DEFAULT_def ANGLE_VALUE_PRECISION_DEFAULT_def
  VOLTAGE_VALUE_PRECISION_DEFAULT_def DIAGRAM_PADDING_LEFT_DEFAULT_def
  DIAGRAM_PADDING_TOP_DEFAULT_def DIAGRAM_PADDING_RIGHT_DEFAULT_def
  DIAGRAM_PADDING_BOTTON_DEFAULT_def CSS_LOCATION_DEFAULT_def ARROW_PATH_IN_DEFAULT_def
  ARROW_PATH_OUT_DEFAULT_def

lemmas accessor_defs =
  getVoltageLevelCircleRadius_def getInterAnnulusSpace_def getTransformerCircleRadius_def
  getEdgesForkAperture_def getEdgesForkLength_def getArrowShift_def getArrowLabelShift_def
  getArrowPathIn_def getArrowPathOut_def getConverterStationWidth_def getNodeHollowWidth_def
  getUnknownBusNodeExtraRadius_def getFictitiousVoltageLevelCircleRadius_def
  getPowerValuePrecision_def getCurrentValuePrecision_def getAngleValuePrecision_def
  getVoltageValuePrecision_def

subsection \<open>Parallel-edge grouping key\<close>

text \<open>
  Claim C9. \<^verbatim>\<open>getGroupedEdgesIndexKey\<close> is symmetric in the two node ids: an edge from
  \<open>a\<close> to \<open>b\<close> and an edge from \<open>b\<close> to \<open>a\<close> get the same key, which is the smaller id in
  string order, an underscore, and the larger id. The ids \<^verbatim>\<open>'0'\<close> and \<^verbatim>\<open>'2'\<close> give
  \<^verbatim>\<open>"0_2"\<close> in either order. (Strings are compared unit by unit, as JavaScript does.)
\<close>

theorem getGroupedEdgesIndexKey_symmetric:
  "getGroupedEdgesIndexKey (e\<lparr>node1 := a, node2 := b\<rparr>) = min a b @ ''_'' @ max a b
   \<and> getGroupedEdgesIndexKey (e\<lparr>node1 := a, node2 := b\<rparr>)
       = getGroupedEdgesIndexKey (e'\<lparr>node1 := b, node2 := a\<rparr>)
   \<and> getGroupedEdgesIndexKey (e\<lparr>node1 := ''0'', node2 := ''2''\<rparr>) = ''0_2''
   \<and> getGroupedEdgesIndexKey (e\<lparr>node1 := ''2'', node2 := ''0''\<rparr>) = ''0_2''"
  by (auto simp: getGroupedEdgesIndexKey_def min_def max_def)

subsection \<open>Parameter accessors\<close>

text \<open>
  Claim C8, as stated, fails: an accessor can return a value that is neither the configured
  one nor the default. With \<^verbatim>\<open>cssLocation: 'FOO'\<close> configured, \<^verbatim>\<open>getCssLocation\<close> returns
  \<^verbatim>\<open>undefined\<close>.
\<close>

theorem getCssLocation_unrecognised_counterexample:
  "getCssLocation (Some (testSvgParametersMetadata\<lparr>cssLocation := Some ''FOO''\<rparr>)) = None"
  by (simp add: getCssLocation_def chain_def CssLocationEnumMapping_def)

text \<open>An accessor can also throw, on an object that the interface does not allow: the padding
  of a configuration object that has no \<^verbatim>\<open>diagramPadding\<close>.\<close>

lemma getDiagramPadding_throws:
  "getDiagramPadding (Some emptySvgParametersMetadata) = Inl TypeError"
  by (simp add: getDiagramPadding_def emptySvgParametersMetadata_def)

text \<open>
  Claim C8, amended. Every number- or string-valued accessor returns the default when the
  configuration object or its field is absent and the configured field otherwise;
  \<^verbatim>\<open>getEdgesForkAperture\<close> converts the configured or default (60) degrees to radians;
  \<^verbatim>\<open>getDiagramPadding\<close> does the same side by side, each of the four sides on its own, when
  the object is absent or has a \<^verbatim>\<open>diagramPadding\<close>; \<^verbatim>\<open>getCssLocation\<close> returns the default for an absent or empty
  string and the named member for each of the three recognised strings;
  \<^verbatim>\<open>getEdgeInfoDisplayed\<close> maps its argument the same way.
\<close>

theorem accessors_value_or_default:
  "getVoltageLevelCircleRadius None = Fin 30
   \<and> getVoltageLevelCircleRadius (Some (m\<lparr>voltageLevelCircleRadius := None\<rparr>)) = Fin 30
   \<and> getVoltageLevelCircleRadius (Some (m\<lparr>voltageLevelCircleRadius := Some v\<rparr>)) = v
   \<and> getInterAnnulusSpace None = Fin 5
   \<and> getInterAnnulusSpace (Some (m\<lparr>interAnnulusSpace := None\<rparr>)) = Fin 5
   \<and> getInterAnnulusSpace (Some (m\<lparr>interAnnulusSpace := Some v\<rparr>)) = v
   \<and> getTransformerCircleRadius None = Fin 20
   \<and> getTransformerCircleRadius (Some (m\<lparr>transformerCircleRadius := None\<rparr>)) = Fin 20
   \<and> getTransformerCircleRadius (Some (m\<lparr>transformerCircleRadius := Some v\<rparr>)) = v
   \<and> getEdgesForkAperture None = degToRad (Fin 60)
   \<and> getEdgesForkAperture (Some (m\<lparr>edgesForkAperture := None\<rparr>)) = degToRad (Fin 60)
   \<and> getEdgesForkAperture (Some (m\<lparr>edgesForkAperture := Some v\<rparr>)) = degToRad v
   \<and> degToRad (Fin d) = Fin (d * pi / 180)
   \<and> getEdgesForkLength None = Fin 80
   \<and> getEdgesForkLength (Some (m\<lparr>edgesForkLength := None\<rparr>)) = Fin 80
   \<and> getEdgesForkLength (Some (m\<lparr>edgesForkLength := Some v\<rparr>)) = v
   \<and> getArrowShift None = Fin 30
   \<and> getArrowShift (Some (m\<lparr>arrowShift := None\<rparr>)) = Fin 30
   \<and> getArrowShift (Some (m\<lparr>arrowShift := Some v\<rparr>)) = v
   \<and> getArrowLabelShift None = Fin 19
   \<and> getArrowLabelShift (Some (m\<lparr>arrowLabelShift := None\<rparr>)) = Fin 19
   \<and> getArrowLabelShift (Some (m\<lparr>arrowLabelShift := Some v\<rparr>)) = v
   \<and> getArrowPathIn None = ''M-10 -10 H10 L0 10z''
   \<and> getArrowPathIn (Some (m\<lparr>arrowPathIn := None\<rparr>)) = ''M-10 -10 H10 L0 10z''
   \<and> getArrowPathIn (Some (m\<lparr>arrowPathIn := Some s\<rparr>)) = s
   \<and> getArrowPathOut None = ''M-10 10 H10 L0 -10z''
   \<and> getArrowPathOut (Some (m\<lparr>arrowPathOut := None\<rparr>)) = ''M-10 10 H10 L0 -10z''
   \<and> getArrowPathOut (Some (m\<lparr>arrowPathOut := Some s\<rparr>)) = s
   \<and> getConverterStationWidth None = Fin 70
   \<and> getConverterStationWidth (Some (m\<lparr>converterStationWidth := None\<rparr>)) = Fin 70
   \<and> getConverterStationWidth (Some (m\<lparr>converterStationWidth := Some v\<rparr>)) = v
   \<and> getNodeHollowWidth None = Fin 15
   \<and> getNodeHollowWidth (Some (m\<lparr>nodeHollowWidth := None\<rparr>)) = Fin 15
   \<and> getNodeHollowWidth (Some (m\<lparr>nodeHollowWidth := Some v\<rparr>)) = v
   \<and> getUnknownBusNodeExtraRadius None = Fin 10
   \<and> getUnknownBusNodeExtraRadius (Some (m\<lparr>unknownBusNodeExtraRadius := None\<rparr>)) = Fin 10
   \<and> getUnknownBusNodeExtraRadius (Some (m\<lparr>unknownBusNodeExtraRadius := Some v\<rparr>)) = v
   \<and> getFictitiousVoltageLevelCircleRadius None = Fin 15
   \<and> getFictitiousVoltageLevelCircleRadius
         (Some (m\<lparr>fictitiousVoltageLevelCircleRadius := None\<rparr>)) = Fin 15
   \<and> getFictitiousVoltageLevelCircleRadius
         (Some (m\<lparr>fictitiousVoltageLevelCircleRadius := Some v\<rparr>)) = v
   \<and> getPowerValuePrecision None = Fin 0
   \<and> getPowerValuePrecision (Some (m\<lparr>powerValuePrecision := None\<rparr>)) = Fin 0
   \<and> getPowerValuePrecision (Some (m\<lparr>powerValuePrecision := Some v\<rparr>)) = v
   \<and> getCurrentValuePrecision None = Fin 0
   \<and> getCurrentValuePrecision (Some (m\<lparr>currentValuePrecision := None\<rparr>)) = Fin 0
   \<and> getCurrentValuePrecision (Some (m\<lparr>currentValuePrecision := Some v\<rparr>)) = v
   \<and> getAngleValuePrecision None = Fin 1
   \<and> getAngleValuePrecision (Some (m\<lparr>angleValuePrecision := None\<rparr>)) = Fin 1
   \<and> getAngleValuePrecision (Some (m\<lparr>angleValuePrecision := Some v\<rparr>)) = v
   \<and> getVoltageValuePrecision None = Fin 1
   \<and> getVoltageValuePrecision (Some (m\<lparr>voltageValuePrecision := None\<rparr>)) = Fin 1
   \<and> getVoltageValuePrecision (Some (m\<lparr>voltageValuePrecision := Some v\<rparr>)) = v
   \<and> getDiagramPadding None
       = Inr \<lparr>left = Fin 200, top = Fin 200, right = Fin 200, bottom = Fin 200\<rparr>
   \<and> getDiagramPadding
         (Some (m\<lparr>diagramPadding :=
                    Some \<lparr>paddingLeft = None, paddingTop = None,
                          paddingRight = None, paddingBottom = None\<rparr>\<rparr>))
       = Inr \<lparr>left = Fin 200, top = Fin 200, right = Fin 200, bottom = Fin 200\<rparr>
   \<and> getDiagramPadding
         (Some (m\<lparr>diagramPadding :=
                    Some \<lparr>paddingLeft = Some l, paddingTop = Some t,
                          paddingRight = Some r, paddingBottom = Some b\<rparr>\<rparr>))
       = Inr \<lparr>left = l, top = t, right = r, bottom = b\<rparr>
   \<and> getDiagramPadding (Some (m\<lparr>diagramPadding := Some p\<rparr>))
       = Inr \<lparr>left = (case paddingLeft p of None \<Rightarrow> Fin 200 | Some l \<Rightarrow> l),
              top = (case paddingTop p of None \<Rightarrow> Fin 200 | Some t \<Rightarrow> t),
              right = (case paddingRight p of None \<Rightarrow> Fin 200 | Some r \<Rightarrow> r),
              bottom = (case paddingBottom p of None \<Rightarrow> Fin 200 | Some b \<Rightarrow> b)\<rparr>
   \<and> getDiagramPadding
         (Some (m\<lparr>diagramPadding :=
                    Some \<lparr>paddingLeft = Some l, paddingTop = None,
                          paddingRight = None, paddingBottom = Some b\<rparr>\<rparr>))
       = Inr \<lparr>left = l, top = Fin 200, right = Fin 200, bottom = b\<rparr>
   \<and> getCssLocation None = Some EXTERNAL_NO_IMPORT
   \<and> getCssLocation (Some (m\<lparr>cssLocation := None\<rparr>)) = Some EXTERNAL_NO_IMPORT
   \<and> getCssLocation (Some (m\<lparr>cssLocation := Some ''''\<rparr>)) = Some EXTERNAL_NO_IMPORT
   \<and> getCssLocation (Some (m\<lparr>cssLocation := Some ''INSERTED_IN_SVG''\<rparr>)) = Some INSERTED_IN_SVG
   \<and> getCssLocation (Some (m\<lparr>cssLocation := Some ''EXTERNAL_IMPORTED''\<rparr>))
       = Some EXTERNAL_IMPORTED
   \<and> getCssLocation (Some (m\<lparr>cssLocation := Some ''EXTERNAL_NO_IMPORT''\<rparr>))
       = Some EXTERNAL_NO_IMPORT
   \<and> getEdgeInfoDisplayed sp None = Some ACTIVE_POWER
   \<and> getEdgeInfoDisplayed sp (Some '''') = Some ACTIVE_POWER
   \<and> getEdgeInfoDisplayed sp (Some ''ActivePower'') = Some ACTIVE_POWER
   \<and> getEdgeInfoDisplayed sp (Some ''ReactivePower'') = Some REACTIVE_POWER
   \<and> getEdgeInfoDisplayed sp (Some ''Current'') = Some CURRENT
   \<and> getEdgeInfoDisplayed sp (Some ''Name'') = Some NAME"
  by (simp add: accessor_defs svg_defaults nullish_def chain_def getDiagramPadding_def
      getCssLocation_def CssLocationEnumMapping_def getEdgeInfoDisplayed_def
      EdgeInfoEnumMapping_def degToRad_def Math_PI_def)

subsection \<open>Bus annuli\<close>



subsection \<open>Bus reassignment\<close>

text \<open>
  Claim C6. When a branch-state update reassigns the bus of one side: if the target bus is in
  another voltage level than the bus now connected on that side, the edge is left as it was,
  every field of it; whenever the edge changes, the target bus exists, the voltage-level check
  passes and the change is exactly that side's bus-node id becoming the target's
  \<^verbatim>\<open>svgId\<close>; and when the target exists and the check passes, that replacement is made.
\<close>

theorem setBranchBusConnection_voltage_level_check:
  "(find (\<lambda>busNode. busEquipmentId busNode = bus) (busNodes m) = Some target
      \<and> find (\<lambda>busNode. busSvgId busNode = (if side' = ''1'' then busNode1 edge else busNode2 edge))
            (busNodes m) = Some current
      \<and> vlNode current \<noteq> vlNode target
    \<longrightarrow> fst (setBranchBusConnection (Some m) hasElement edge branchId side' (Some bus)) = edge)
   \<and> (fst (setBranchBusConnection diagramMetadata hasElement edge branchId side' busId) \<noteq> edge
    \<longrightarrow> (\<exists>bus' m' target'.
           busId = Some bus' \<and> diagramMetadata = Some m'
           \<and> find (\<lambda>busNode. busEquipmentId busNode = bus') (busNodes m') = Some target'
           \<and> (\<forall>current'.
                 find (\<lambda>busNode. busSvgId busNode
                                    = (if side' = ''1'' then busNode1 edge else busNode2 edge))
                   (busNodes m') = Some current'
                 \<longrightarrow> vlNode current' = vlNode target')
           \<and> fst (setBranchBusConnection diagramMetadata hasElement edge branchId side' busId)
               = (if side' = ''1'' then edge\<lparr>busNode1 := busSvgId target'\<rparr>
                  else edge\<lparr>busNode2 := busSvgId target'\<rparr>)))
   \<and> (find (\<lambda>busNode. busEquipmentId busNode = bus) (busNodes m) = Some target
      \<and> bus \<noteq> []
      \<and> (\<forall>current'.
            find (\<lambda>busNode. busSvgId busNode = (if side' = ''1'' then busNode1 edge else busNode2 edge))
              (busNodes m) = Some current'
            \<longrightarrow> vlNode current' = vlNode target)
    \<longrightarrow> fst (setBranchBusConnection (Some m) hasElement edge branchId side' (Some bus))
        = (if side' = ''1'' then edge\<lparr>busNode1 := busSvgId target\<rparr>
           else edge\<lparr>busNode2 := busSvgId target\<rparr>))"
proof (intro conjI impI)
  assume "find (\<lambda>busNode. busEquipmentId busNode = bus) (busNodes m) = Some target
      \<and> find (\<lambda>busNode. busSvgId busNode = (if side' = ''1'' then busNode1 edge else busNode2 edge))
            (busNodes m) = Some current
      \<and> vlNode current \<noteq> vlNode target"
  then show "fst (setBranchBusConnection (Some m) hasElement edge branchId side' (Some bus)) = edge"
    by (simp add: setBranchBusConnection_def chain_def Let_def)
next
  assume changed:
    "fst (setBranchBusConnection diagramMetadata hasElement edge branchId side' busId) \<noteq> edge"
  then obtain bus' where b: "busId = Some bus'" "bus' \<noteq> []"
    by (cases busId) (auto simp: setBranchBusConnection_def split: if_splits)
  from changed b obtain m' where m: "diagramMetadata = Some m'"
    by (cases diagramMetadata) (auto simp: setBranchBusConnection_def chain_def)
  from changed b m obtain target' where
    t: "find (\<lambda>busNode. busEquipmentId busNode = bus') (busNodes m') = Some target'"
    by (cases "find (\<lambda>busNode. busEquipmentId busNode = bus') (busNodes m')")
      (auto simp: setBranchBusConnection_def chain_def)
  from changed b m t have
    pass: "\<forall>current'.
             find (\<lambda>busNode. busSvgId busNode
                                = (if side' = ''1'' then busNode1 edge else busNode2 edge))
               (busNodes m') = Some current'
             \<longrightarrow> vlNode current' = vlNode target'"
    by (auto simp: setBranchBusConnection_def chain_def Let_def split: option.splits if_splits)
  from b m t pass have
    "fst (setBranchBusConnection diagramMetadata hasElement edge branchId side' busId)
       = (if side' = ''1'' then edge\<lparr>busNode1 := busSvgId target'\<rparr>
          else edge\<lparr>busNode2 := busSvgId target'\<rparr>)"
    by (auto simp: setBranchBusConnection_def chain_def Let_def split: option.splits)
  with b m t pass show "\<exists>bus' m' target'.
           busId = Some bus' \<and> diagramMetadata = Some m'
           \<and> find (\<lambda>busNode. busEquipmentId busNode = bus') (busNodes m') = Some target'
           \<and> (\<forall>current'.
                 find (\<lambda>busNode. busSvgId busNode
                                    = (if side' = ''1'' then busNode1 edge else busNode2 edge))
                   (busNodes m') = Some current'
                 \<longrightarrow> vlNode current' = vlNode target')
           \<and> fst (setBranchBusConnection diagramMetadata hasElement edge branchId side' busId)
               = (if side' = ''1'' then edge\<lparr>busNode1 := busSvgId target'\<rparr>
                  else edge\<lparr>busNode2 := busSvgId target'\<rparr>)"
    by blast
next
  assume "find (\<lambda>busNode. busEquipmentId busNode = bus) (busNodes m) = Some target
      \<and> bus \<noteq> []
      \<and> (\<forall>current'.
            find (\<lambda>busNode. busSvgId busNode = (if side' = ''1'' then busNode1 edge else busNode2 edge))
              (busNodes m) = Some current'
            \<longrightarrow> vlNode current' = vlNode target)"
  then show "fst (setBranchBusConnection (Some m) hasElement edge branchId side' (Some bus))
        = (if side' = ''1'' then edge\<lparr>busNode1 := busSvgId target\<rparr>
           else edge\<lparr>busNode2 := busSvgId target\<rparr>)"
    by (auto simp: setBranchBusConnection_def chain_def Let_def split: option.splits)
qed

theorem setBranchBusConnection_voltage_level_check_witness:
  "fst (setBranchBusConnection (Some exampleBuses) (\<lambda>i. True) exampleLine ''L1'' ''1''
          (Some ''VL2_0'')) = exampleLine
   \<and> fst (setBranchBusConnection (Some exampleBuses) (\<lambda>i. True) exampleLine ''L1'' ''1''
          (Some ''VL1_1'')) = exampleLine\<lparr>busNode1 := ''2''\<rparr>"
proof -
  have reject:
    "fst (setBranchBusConnection (Some exampleBuses) (\<lambda>i. True) exampleLine ''L1'' ''1''
          (Some ''VL2_0'')) = exampleLine"
    using setBranchBusConnection_voltage_level_check
      [where m = exampleBuses and bus = "''VL2_0''" and edge = exampleLine and side' = "''1''"
         and target = "\<lparr>busSvgId = ''4'', busEquipmentId = ''VL2_0'', nbNeighbours = Fin 0,
                          busIndex = Fin 0, vlNode = ''3''\<rparr>"
         and current = "\<lparr>busSvgId = ''1'', busEquipmentId = ''VL1_0'', nbNeighbours = Fin 1,
                           busIndex = Fin 0, vlNode = ''0''\<rparr>"
         and hasElement = "\<lambda>i. True" and branchId = "''L1''"]
    by (simp add: exampleBuses_def exampleLine_def)
  have accept:
    "fst (setBranchBusConnection (Some exampleBuses) (\<lambda>i. True) exampleLine ''L1'' ''1''
          (Some ''VL1_1'')) = exampleLine\<lparr>busNode1 := ''2''\<rparr>"
    using setBranchBusConnection_voltage_level_check
      [where m = exampleBuses and bus = "''VL1_1''" and edge = exampleLine and side' = "''1''"
         and target = "\<lparr>busSvgId = ''2'', busEquipmentId = ''VL1_1'', nbNeighbours = Fin 1,
                          busIndex = Fin 1, vlNode = ''0''\<rparr>"
         and hasElement = "\<lambda>i. True" and branchId = "''L1''"]
    by (simp add: exampleBuses_def exampleLine_def)
  from reject accept show ?thesis by simp
qed

subsection \<open>Inserting a bend point\<close>


lemma jlt_irrefl [simp]: "\<not> jlt a a"
  by (cases a) simp_all

lemma sumsq_zero_iff: "(x::real)\<^sup>2 + y\<^sup>2 = 0 \<longleftrightarrow> x = 0 \<and> y = 0"
  by (simp add: sum_power2_eq_zero_iff)






lemma nearestSegment_index_range:
  "snd (nearestSegment bendPoint ps i (m, k)) = k
   \<or> (i \<le> snd (nearestSegment bendPoint ps i (m, k))
      \<and> Suc (snd (nearestSegment bendPoint ps i (m, k))) < i + length ps)"
proof (induction bendPoint ps i "(m, k)" arbitrary: m k rule: nearestSegment.induct)
  case (1 bendPoint point1 point2 ps i minDistance index)
  show ?case
  proof (cases "jlt (getSquareDistanceFromSegment bendPoint point1 point2) minDistance")
    case True
    with "1.hyps"(1) [OF refl True, of ]
    show ?thesis by (auto simp: Let_def)
  next
    case False
    with "1.hyps"(2) [OF refl False]
    show ?thesis by (auto simp: Let_def)
  qed
qed simp_all







lemma addPointToList_Some:
  "addPointToList (Some pts) a b bp =
     \<lparr>linePoints =
        splice_insert pts
          (snd (nearestSegment bp (\<lparr>px = px a, py = py a\<rparr> # pts @ [\<lparr>px = px b, py = py b\<rparr>]) 0
                  (MAX_VALUE, 0)))
          \<lparr>px = round_num (px bp), py = round_num (py bp)\<rparr>,
      pointIndex =
        snd (nearestSegment bp (\<lparr>px = px a, py = py a\<rparr> # pts @ [\<lparr>px = px b, py = py b\<rparr>]) 0
               (MAX_VALUE, 0))\<rparr>"
  by (simp add: addPointToList_def Let_def case_prod_unfold butlast_append)

lemma addPointToList_index_le:
  "pointIndex (addPointToList (Some pts) a b bp) \<le> length pts"
  using nearestSegment_index_range
    [of bp "\<lparr>px = px a, py = py a\<rparr> # pts @ [\<lparr>px = px b, py = py b\<rparr>]" 0 MAX_VALUE 0]
  by (auto simp: addPointToList_Some)







subsection \<open>Splitting a bent edge in two half-edges\<close>


lemma getDistance_fin: "getDistance (finPoint a) (finPoint b) = Fin (euclid a b)"
  by (simp add: getDistance_def finPoint_def jsub_def euclid_def Let_def)

lemma euclid_nonneg [simp]: "0 \<le> euclid a b"
  by (simp add: euclid_def)

lemma pathLength_nonneg [simp]: "0 \<le> pathLength ps"
  by (induction ps rule: pathLength.induct) simp_all

lemma euclid_zero_iff: "euclid a b = 0 \<longleftrightarrow> a = b"
  by (auto simp: euclid_def sum_power2_eq_zero_iff prod_eq_iff)

lemma polylineLength_fin:
  "polylineLength (map finPoint ps) (Fin d) = Fin (d + pathLength ps)"
  by (induction ps arbitrary: d rule: pathLength.induct) (simp_all add: getDistance_fin)

lemma getPointAtDistance_fin:
  assumes "a \<noteq> b"
  shows "getPointAtDistance (finPoint a) (finPoint b) (Fin \<rho>)
           = finPoint (fst a + \<rho> / euclid a b * (fst b - fst a),
                       snd a + \<rho> / euclid a b * (snd b - snd a))"
  unfolding getPointAtDistance_def getDistance_fin Let_def
  using assms
  by (simp add: finPoint_def jsub_def euclid_zero_iff)

lemma getPointAtDistance_coincident:
  "getPointAtDistance (finPoint a) (finPoint a) (Fin \<rho>) = \<lparr>px = NaN, py = NaN\<rparr>"
  by (simp add: getPointAtDistance_def getDistance_def Let_def finPoint_def jsub_def
      inf_of_sign_def)

lemma euclid_along:
  fixes a b :: "real \<times> real"
  defines "m \<equiv> \<lambda>r. (fst a + r * (fst b - fst a), snd a + r * (snd b - snd a))"
  shows "0 \<le> r \<Longrightarrow> euclid (m r) a = r * euclid a b"
    and "r \<le> 1 \<Longrightarrow> euclid b (m r) = (1 - r) * euclid a b"
proof -
  assume r: "0 \<le> r"
  have "(fst (m r) - fst a)\<^sup>2 + (snd (m r) - snd a)\<^sup>2
          = r\<^sup>2 * ((fst a - fst b)\<^sup>2 + (snd a - snd b)\<^sup>2)"
    by (simp add: m_def power2_eq_square algebra_simps)
  then show "euclid (m r) a = r * euclid a b"
    using r by (simp add: euclid_def real_sqrt_mult)
next
  assume r: "r \<le> 1"
  have "(fst b - fst (m r))\<^sup>2 + (snd b - snd (m r))\<^sup>2
          = (1 - r)\<^sup>2 * ((fst a - fst b)\<^sup>2 + (snd a - snd b)\<^sup>2)"
    by (simp add: m_def power2_eq_square algebra_simps)
  then show "euclid b (m r) = (1 - r) * euclid a b"
    using r by (simp add: euclid_def real_sqrt_mult)
qed

lemma splitAtMiddle_after:
  assumes "D / 2 \<le> partial"
  shows "splitAtMiddle (Fin D) (map finPoint (q # qs)) (h1, h2, Fin partial, True)
           = (h1, h2 @ map finPoint qs, Fin (partial + pathLength (q # qs)), True)"
  using assms
proof (induction qs arbitrary: q h2 partial)
  case Nil
  then show ?case by simp
next
  case (Cons n rest)
  have "D / 2 \<le> partial + euclid q n"
    using Cons.prems euclid_nonneg [of q n] by linarith
  with Cons.IH [where partial = "partial + euclid q n" and ?h2.0 = "h2 @ [finPoint n]" and q = n]
    Cons.prems
  show ?case
    by (simp add: getDistance_fin Let_def add.assoc)
qed

lemma euclid_commute: "euclid a b = euclid b a"
  by (simp add: euclid_def power2_commute)

lemma splitAtMiddle_before:
  assumes "partial < D / 2" and "D / 2 \<le> partial + pathLength (q # qs)"
  shows "\<exists>P S m. q # qs = P @ S \<and> P \<noteq> [] \<and> S \<noteq> []
           \<and> splitAtMiddle (Fin D) (map finPoint (q # qs)) (h1, [], Fin partial, False)
               = (h1 @ map finPoint (tl P) @ [finPoint m], finPoint m # map finPoint S,
                  Fin (partial + pathLength (q # qs)), True)
           \<and> partial + pathLength (P @ [m]) = D / 2
           \<and> pathLength (m # S) = partial + pathLength (q # qs) - D / 2"
  using assms
proof (induction qs arbitrary: q h1 partial)
  case Nil
  then show ?case by simp
next
  case (Cons n rest)
  let ?d = "euclid q n"
  show ?case
  proof (cases "partial + ?d < D / 2")
    case True
    from Cons.prems(2) have "D / 2 \<le> (partial + ?d) + pathLength (n # rest)" by simp
    from Cons.IH [OF True this, where ?h1.0 = "h1 @ [finPoint n]"]
    obtain P' S' m where
      split: "n # rest = P' @ S'" "P' \<noteq> []" "S' \<noteq> []"
      and run: "splitAtMiddle (Fin D) (map finPoint (n # rest))
                  (h1 @ [finPoint n], [], Fin (partial + ?d), False)
               = ((h1 @ [finPoint n]) @ map finPoint (tl P') @ [finPoint m],
                  finPoint m # map finPoint S',
                  Fin (partial + ?d + pathLength (n # rest)), True)"
      and half: "partial + ?d + pathLength (P' @ [m]) = D / 2"
      and rest: "pathLength (m # S') = partial + ?d + pathLength (n # rest) - D / 2"
      by blast
    from split obtain T where P': "P' = n # T" by (cases P') auto
    have 1: "q # n # rest = (q # P') @ S'" using split by simp
    have 2: "splitAtMiddle (Fin D) (map finPoint (q # n # rest)) (h1, [], Fin partial, False)
               = (h1 @ map finPoint (tl (q # P')) @ [finPoint m], finPoint m # map finPoint S',
                  Fin (partial + pathLength (q # n # rest)), True)"
      using True run by (simp add: getDistance_fin Let_def P' add.assoc)
    have 3: "partial + pathLength ((q # P') @ [m]) = D / 2"
      using half by (simp add: P')
    have 4: "pathLength (m # S') = partial + pathLength (q # n # rest) - D / 2"
      using rest by simp
    from 1 2 3 4 split(3) show ?thesis by blast
  next
    case False
    then have reach: "D / 2 \<le> partial + ?d" by simp
    with Cons.prems(1) have dpos: "0 < ?d" by linarith
    then have qn: "n \<noteq> q" using euclid_zero_iff [of q n] by auto
    define r where "r = (partial + ?d - D / 2) / ?d"
    define m where "m = (fst n + r * (fst q - fst n), snd n + r * (snd q - snd n))"
    have r0: "0 \<le> r" using reach dpos by (simp add: r_def)
    have r1: "r \<le> 1" using Cons.prems(1) dpos by (simp add: r_def)
    have rd: "r * ?d = partial + ?d - D / 2" using dpos by (simp add: r_def)
    have mid: "getPointAtDistance (finPoint n) (finPoint q)
                 (jsub (Fin (partial + ?d)) (jdiv (Fin D) (Fin 2))) = finPoint m"
      using getPointAtDistance_fin [OF qn, of "partial + ?d - D / 2"]
      by (simp add: jsub_def m_def r_def euclid_commute [of n q])
    have em: "euclid m n = r * ?d"
      using euclid_along(1) [OF r0, of n q] by (simp add: m_def euclid_commute [of n q])
    have eq: "euclid q m = (1 - r) * ?d"
      using euclid_along(2) [OF r1, of q n] by (simp add: m_def euclid_commute [of n q])
    have 1: "q # n # rest = [q] @ (n # rest)" by simp
    have 2: "splitAtMiddle (Fin D) (map finPoint (q # n # rest)) (h1, [], Fin partial, False)
               = (h1 @ map finPoint (tl [q]) @ [finPoint m], finPoint m # map finPoint (n # rest),
                  Fin (partial + pathLength (q # n # rest)), True)"
      using False mid splitAtMiddle_after [OF reach, of n rest "h1 @ [finPoint m]"
          "[finPoint m, finPoint n]"]
      by (simp add: getDistance_fin Let_def add.assoc)
    have 3: "partial + pathLength ([q] @ [m]) = D / 2"
      using eq rd by (simp add: algebra_simps)
    have 4: "pathLength (m # n # rest) = partial + pathLength (q # n # rest) - D / 2"
      using em rd by simp
    from 1 2 3 4 show ?thesis by blast
  qed
qed

lemma Math_hypot_horizontal: "Math_hypot (Fin a) (Fin 0) = Fin \<bar>a\<bar>"
  by simp

lemma getEdgePoints_example:
  "getEdgePoints (finPoint (0, 0)) None e1 (finPoint (1000, 0)) None e2 (Some [finPoint (100, 0)])
     = ([finPoint (0, 0), finPoint (100, 0), finPoint (500, 0)],
        [finPoint (1000, 0), finPoint (500, 0)])"
  by (simp add: getEdgePoints_def getDistance_def getPointAtDistance_def finPoint_def jsub_def
      Let_def)

text \<open>
  Claim C1, as stated, fails. In the claim's own instance the first half-edge followed by the
  reversed second one is not the original chain: the split point is in both halves. And when
  all the points coincide, the split point is not at half the length: it has no coordinates.
\<close>

theorem getEdgePoints_roundtrip_counterexample:
  "fst (getEdgePoints (finPoint (0, 0)) None (finPoint (0, 0)) (finPoint (1000, 0)) None
          (finPoint (0, 0)) (Some [finPoint (100, 0)]))
     @ rev (snd (getEdgePoints (finPoint (0, 0)) None (finPoint (0, 0)) (finPoint (1000, 0)) None
                   (finPoint (0, 0)) (Some [finPoint (100, 0)])))
   \<noteq> [finPoint (0, 0), finPoint (100, 0), finPoint (1000, 0)]
   \<and> getEdgePoints (finPoint (0, 0)) None (finPoint (0, 0)) (finPoint (0, 0)) None
         (finPoint (0, 0)) (Some [finPoint (0, 0)])
       = ([finPoint (0, 0), \<lparr>px = NaN, py = NaN\<rparr>],
          [finPoint (0, 0), finPoint (0, 0), \<lparr>px = NaN, py = NaN\<rparr>])"
  by (simp add: getEdgePoints_def getDistance_def getPointAtDistance_def finPoint_def jsub_def
      Let_def inf_of_sign_def)

text \<open>
  Claim C1, amended. For a polyline start1, bend points, start2 of positive length (finite
  coordinates, exact arithmetic), \<^verbatim>\<open>getEdgePoints\<close> splits the chain in two non-empty parts
  \<open>P\<close> and \<open>S\<close> at a point \<open>m\<close>: the first half-edge is \<open>P\<close> followed by \<open>m\<close>, the second
  half-edge reversed is \<open>m\<close> followed by \<open>S\<close>, and each half has exactly half the length of the
  polyline. For start1 \<open>(0, 0)\<close>, start2 \<open>(1000, 0)\<close> and the bend point \<open>(100, 0)\<close> the halves are
  \<open>[(0, 0), (100, 0), (500, 0)]\<close> and \<open>[(1000, 0), (500, 0)]\<close>.
\<close>

theorem getEdgePoints_split_at_half_length:
  assumes "0 < pathLength (start1 # bends @ [start2])"
  shows "(\<exists>P S m. start1 # bends @ [start2] = P @ S \<and> P \<noteq> [] \<and> S \<noteq> []
            \<and> getEdgePoints (finPoint start1) edgeFork1 edgeEnd1 (finPoint start2) edgeFork2
                 edgeEnd2 (Some (map finPoint bends))
                = (map finPoint (P @ [m]), rev (map finPoint (m # S)))
            \<and> pathLength (P @ [m]) = pathLength (start1 # bends @ [start2]) / 2
            \<and> pathLength (m # S) = pathLength (start1 # bends @ [start2]) / 2)
         \<and> getEdgePoints (finPoint (0, 0)) None edgeEnd1 (finPoint (1000, 0)) None edgeEnd2
              (Some [finPoint (100, 0)])
            = ([finPoint (0, 0), finPoint (100, 0), finPoint (500, 0)],
               [finPoint (1000, 0), finPoint (500, 0)])"
proof -
  let ?chain = "start1 # bends @ [start2]"
  let ?D = "pathLength ?chain"
  have pm: "[\<lparr>px = px (finPoint start1), py = py (finPoint start1)\<rparr>] @ map finPoint bends
              @ [\<lparr>px = px (finPoint start2), py = py (finPoint start2)\<rparr>] = map finPoint ?chain"
    by (simp add: finPoint_def)
  have dist: "polylineLength (map finPoint ?chain) (Fin 0) = Fin ?D"
    using polylineLength_fin [of ?chain 0] by simp
  from assms have a: "(0::real) < ?D / 2" and b: "?D / 2 \<le> 0 + pathLength (start1 # (bends @ [start2]))"
    by simp_all
  from splitAtMiddle_before [OF a b, of "[finPoint start1]"]
  obtain P S m where
    split: "start1 # bends @ [start2] = P @ S" "P \<noteq> []" "S \<noteq> []"
    and run: "splitAtMiddle (Fin ?D) (map finPoint ?chain) ([finPoint start1], [], Fin 0, False)
               = ([finPoint start1] @ map finPoint (tl P) @ [finPoint m],
                  finPoint m # map finPoint S, Fin (0 + ?D), True)"
    and half: "0 + pathLength (P @ [m]) = ?D / 2"
    and rest: "pathLength (m # S) = 0 + ?D - ?D / 2"
    by blast
  from split obtain T where P: "P = start1 # T" by (cases P) auto
  have "getEdgePoints (finPoint start1) edgeFork1 edgeEnd1 (finPoint start2) edgeFork2
                 edgeEnd2 (Some (map finPoint bends))
                = (map finPoint (P @ [m]), rev (map finPoint (m # S)))"
    unfolding getEdgePoints_def option.case pm Let_def dist
    using run by (simp add: P)
  moreover from half have "pathLength (P @ [m]) = ?D / 2" by simp
  moreover from rest have "pathLength (m # S) = ?D / 2" by simp
  ultimately have "\<exists>P S m. start1 # bends @ [start2] = P @ S \<and> P \<noteq> [] \<and> S \<noteq> []
            \<and> getEdgePoints (finPoint start1) edgeFork1 edgeEnd1 (finPoint start2) edgeFork2
                 edgeEnd2 (Some (map finPoint bends))
                = (map finPoint (P @ [m]), rev (map finPoint (m # S)))
            \<and> pathLength (P @ [m]) = pathLength (start1 # bends @ [start2]) / 2
            \<and> pathLength (m # S) = pathLength (start1 # bends @ [start2]) / 2"
    using split by blast
  with getEdgePoints_example show ?thesis by blast
qed

theorem getEdgePoints_split_at_half_length_witness:
  "0 < pathLength ((0, 0) # [(100, 0)] @ [(1000, 0)])
   \<and> (\<exists>P S m. (0, 0) # [(100, 0)] @ [(1000, 0)] = P @ S \<and> P \<noteq> [] \<and> S \<noteq> []
      \<and> getEdgePoints (finPoint (0, 0)) None (finPoint (0, 0)) (finPoint (1000, 0)) None
           (finPoint (0, 0)) (Some (map finPoint [(100, 0)]))
          = (map finPoint (P @ [m]), rev (map finPoint (m # S)))
      \<and> pathLength (P @ [m]) = pathLength ((0, 0) # [(100, 0)] @ [(1000, 0)]) / 2
      \<and> pathLength (m # S) = pathLength ((0, 0) # [(100, 0)] @ [(1000, 0)]) / 2)"
proof -
  have pos: "0 < pathLength ((0, 0) # [(100, 0)] @ [(1000, 0)])"
    by (simp add: euclid_def)
  from getEdgePoints_split_at_half_length
         [OF pos, of None "finPoint (0, 0)" None "finPoint (0, 0)"] pos
  show ?thesis by blast
qed

subsection \<open>Missing node metadata\<close>

text \<open>
  Claim C5. When the lookup of either end node of the edge fails, \<^verbatim>\<open>getHalfEdges\<close> returns
  \<^verbatim>\<open>[null, null]\<close>; \<^verbatim>\<open>getThreeWtHalfEdge\<close> returns \<^verbatim>\<open>undefined\<close> when its points are
  \<^verbatim>\<open>null\<close> and when the voltage-level node or the transformer node is not found;
  \<^verbatim>\<open>getHalfVisibleHalfEdges\<close> returns \<^verbatim>\<open>[null, null]\<close> when the polyline is \<^verbatim>\<open>null\<close> or
  empty and when the visible node is not found. None of them throws there: each result is a
  returned value.
\<close>

theorem half_edges_of_missing_nodes:
  "(getNodeMetadata (node1 edge) diagramMetadata = None
      \<or> getNodeMetadata (node2 edge) diagramMetadata = None
    \<longrightarrow> getHalfEdges edge iEdge groupedEdgesCount diagramMetadata svgParameters = (None, None))
   \<and> getThreeWtHalfEdge None edge threeWtMoved initialPosition diagramMetadata svgParameters
       = Inr None
   \<and> (getNodeMetadata (node1 edge) diagramMetadata = None
      \<or> getNodeMetadata (node2 edge) diagramMetadata = None
    \<longrightarrow> getThreeWtHalfEdge points edge threeWtMoved initialPosition diagramMetadata svgParameters
        = Inr None)
   \<and> getHalfVisibleHalfEdges None edge visibleSide fork' diagramMetadata initialPosition
         svgParameters = Inr (None, None)
   \<and> getHalfVisibleHalfEdges (Some []) edge visibleSide fork' diagramMetadata initialPosition
         svgParameters = Inr (None, None)
   \<and> (getNodeMetadata (if visibleSide = ''1'' then node1 edge else node2 edge) diagramMetadata = None
    \<longrightarrow> getHalfVisibleHalfEdges polylinePoints edge visibleSide fork' diagramMetadata
          initialPosition svgParameters = Inr (None, None))"
proof (intro conjI impI)
  assume "getNodeMetadata (node1 edge) diagramMetadata = None
      \<or> getNodeMetadata (node2 edge) diagramMetadata = None"
  then show "getHalfEdges edge iEdge groupedEdgesCount diagramMetadata svgParameters = (None, None)"
    unfolding getHalfEdges_def Let_def by (auto split: option.splits)
next
  show "getThreeWtHalfEdge None edge threeWtMoved initialPosition diagramMetadata svgParameters
       = Inr None"
    by (simp add: getThreeWtHalfEdge_def)
next
  assume "getNodeMetadata (node1 edge) diagramMetadata = None
      \<or> getNodeMetadata (node2 edge) diagramMetadata = None"
  then show "getThreeWtHalfEdge points edge threeWtMoved initialPosition diagramMetadata
               svgParameters = Inr None"
    unfolding getThreeWtHalfEdge_def Let_def by (cases points) (auto split: option.splits)
next
  show "getHalfVisibleHalfEdges None edge visibleSide fork' diagramMetadata initialPosition
         svgParameters = Inr (None, None)"
    by (simp add: getHalfVisibleHalfEdges_def)
next
  show "getHalfVisibleHalfEdges (Some []) edge visibleSide fork' diagramMetadata initialPosition
         svgParameters = Inr (None, None)"
    by (simp add: getHalfVisibleHalfEdges_def)
next
  assume "getNodeMetadata (if visibleSide = ''1'' then node1 edge else node2 edge)
            diagramMetadata = None"
  then have "chain diagramMetadata
               (\<lambda>m. find (\<lambda>node. nodeSvgId node
                                   = (if visibleSide = ''1'' then node1 edge else node2 edge))
                       (nodes m)) = None"
    by (simp add: getNodeMetadata_def)
  then show "getHalfVisibleHalfEdges polylinePoints edge visibleSide fork' diagramMetadata
          initialPosition svgParameters = Inr (None, None)"
    unfolding getHalfVisibleHalfEdges_def Let_def by (cases polylinePoints) simp_all
qed

theorem half_edges_of_missing_nodes_witness:
  "getHalfEdges exampleLine (Fin 0) (Fin 1) (Some exampleBuses) None = (None, None)
   \<and> getThreeWtHalfEdge (Some [finPoint (0, 0), finPoint (10, 0)]) exampleLine True
        (Some (finPoint (5, 5))) (Some exampleBuses) None = Inr None
   \<and> getHalfVisibleHalfEdges (Some [finPoint (0, 0), finPoint (10, 0)]) exampleLine ''2'' False
        (Some exampleBuses) None None = Inr (None, None)"
proof -
  have n1: "getNodeMetadata (node1 exampleLine) (Some exampleBuses) = None"
    by (simp add: getNodeMetadata_def chain_def exampleBuses_def)
  have n2: "getNodeMetadata (if ''2'' = ''1'' then node1 exampleLine else node2 exampleLine)
              (Some exampleBuses) = None"
    by (simp add: getNodeMetadata_def chain_def exampleBuses_def)
  from half_edges_of_missing_nodes
         [where edge = exampleLine and diagramMetadata = "Some exampleBuses"
            and visibleSide = "''2''"]
       n1 n2
  show ?thesis by blast
qed

subsection \<open>Bend points override forks and transformer ends\<close>

lemma getEdgePoints_bent:
  "getEdgePoints edgeStart1 edgeFork1 edgeEnd1 edgeStart2 edgeFork2 edgeEnd2 (Some bends)
     = bentEdgePoints edgeStart1 edgeStart2 bends"
  by (simp add: getEdgePoints_def bentEdgePoints_def)

lemma getEdgeDirection_bent:
  "getEdgeDirection nodePoint edgeFork (chain (Some (bend # bends)) at_first)
     = \<lparr>px = px bend, py = py bend\<rparr>"
  "getEdgeDirection nodePoint edgeFork (chain (Some (bend # bends)) at_last)
     = \<lparr>px = px (last (bend # bends)), py = py (last (bend # bends))\<rparr>"
  by (simp_all add: getEdgeDirection_def chain_def at_first_def at_last_def)

lemma getEdgeStart_fork_parameters:
  "getEdgeStart busNodeId vlPoint direction r
     (Some (m\<lparr>edgesForkAperture := aperture, edgesForkLength := forkLength,
              transformerCircleRadius := radius\<rparr>))
   = getEdgeStart busNodeId vlPoint direction r (Some m)"
  by (simp add: getEdgeStart_def getUnknownBusNodeExtraRadius_def chain_def)

lemma getNodeRadius_fork_parameters:
  "getNodeRadius busNode node
     (Some (m\<lparr>edgesForkAperture := aperture, edgesForkLength := forkLength,
              transformerCircleRadius := radius\<rparr>))
   = getNodeRadius busNode node (Some m)"
  by (simp add: getNodeRadius_def getVoltageLevelCircleRadius_du_def
      getVoltageLevelCircleRadius_def getFictitiousVoltageLevelCircleRadius_def
      getInterAnnulusSpace_def chain_def)

lemma bentHalfEdgePoints_fork_parameters:
  "bentHalfEdgePoints edge bend bends diagramMetadata
     (Some (m\<lparr>edgesForkAperture := aperture, edgesForkLength := forkLength,
              transformerCircleRadius := radius\<rparr>))
   = bentHalfEdgePoints edge bend bends diagramMetadata (Some m)"
  by (simp add: bentHalfEdgePoints_def getEdgeStart_fork_parameters
      getNodeRadius_fork_parameters split: option.splits)

lemma getHalfEdges_bent:
  "map_option edgePoints
     (fst (getHalfEdges (edge\<lparr>bendingPoints := Some (bend # bends), edgeTypeName := t\<rparr>)
             iEdge groupedEdgesCount diagramMetadata svgParameters))
   = map_option fst (bentHalfEdgePoints edge bend bends diagramMetadata svgParameters)"
  "map_option edgePoints
     (snd (getHalfEdges (edge\<lparr>bendingPoints := Some (bend # bends), edgeTypeName := t\<rparr>)
             iEdge groupedEdgesCount diagramMetadata svgParameters))
   = map_option snd (bentHalfEdgePoints edge bend bends diagramMetadata svgParameters)"
  by (simp_all add: getHalfEdges_def bentHalfEdgePoints_def Let_def case_prod_unfold
      getEdgePoints_bent getEdgeDirection_bent split: option.splits)

text \<open>
  Claim C10. When \<^verbatim>\<open>bendingPoints\<close> is present, the result of \<^verbatim>\<open>getEdgePoints\<close> does not
  depend on the fork and end arguments. So for an edge that has bend points the points of
  the two half-edges computed by \<^verbatim>\<open>getHalfEdges\<close> are the same whatever the edge type
  (transformer or not), the rank of the edge in its group, the size of the group, the fork
  aperture and length and the transformer circle radius: forks and the transformer
  pull-back are discarded.
\<close>

theorem bend_points_override_forks_and_ends:
  "getEdgePoints edgeStart1 edgeFork1 edgeEnd1 edgeStart2 edgeFork2 edgeEnd2 (Some bends)
     = getEdgePoints edgeStart1 edgeFork1' edgeEnd1' edgeStart2 edgeFork2' edgeEnd2' (Some bends)
   \<and> map_option edgePoints
        (fst (getHalfEdges (edge\<lparr>bendingPoints := Some (bend # bends), edgeTypeName := t\<rparr>)
                iEdge groupedEdgesCount diagramMetadata svgParameters))
     = map_option edgePoints
        (fst (getHalfEdges (edge\<lparr>bendingPoints := Some (bend # bends), edgeTypeName := t'\<rparr>)
                iEdge' groupedEdgesCount' diagramMetadata svgParameters))
   \<and> map_option edgePoints
        (snd (getHalfEdges (edge\<lparr>bendingPoints := Some (bend # bends), edgeTypeName := t\<rparr>)
                iEdge groupedEdgesCount diagramMetadata svgParameters))
     = map_option edgePoints
        (snd (getHalfEdges (edge\<lparr>bendingPoints := Some (bend # bends), edgeTypeName := t'\<rparr>)
                iEdge' groupedEdgesCount' diagramMetadata svgParameters))
   \<and> map_option edgePoints
        (fst (getHalfEdges (edge\<lparr>bendingPoints := Some (bend # bends), edgeTypeName := t\<rparr>)
                iEdge groupedEdgesCount diagramMetadata
                (Some (m\<lparr>edgesForkAperture := aperture, edgesForkLength := forkLength,
                         transformerCircleRadius := radius\<rparr>))))
     = map_option edgePoints
        (fst (getHalfEdges (edge\<lparr>bendingPoints := Some (bend # bends), edgeTypeName := t'\<rparr>)
                iEdge' groupedEdgesCount' diagramMetadata
                (Some (m\<lparr>edgesForkAperture := aperture', edgesForkLength := forkLength',
                         transformerCircleRadius := radius'\<rparr>))))
   \<and> map_option edgePoints
        (snd (getHalfEdges (edge\<lparr>bendingPoints := Some (bend # bends), edgeTypeName := t\<rparr>)
                iEdge groupedEdgesCount diagramMetadata
                (Some (m\<lparr>edgesForkAperture := aperture, edgesForkLength := forkLength,
                         transformerCircleRadius := radius\<rparr>))))
     = map_option edgePoints
        (snd (getHalfEdges (edge\<lparr>bendingPoints := Some (bend # bends), edgeTypeName := t'\<rparr>)
                iEdge' groupedEdgesCount' diagramMetadata
                (Some (m\<lparr>edgesForkAperture := aperture', edgesForkLength := forkLength',
                         transformerCircleRadius := radius'\<rparr>))))"
  by (simp add: getEdgePoints_bent getHalfEdges_bent bentHalfEdgePoints_fork_parameters)

subsection \<open>Bus annulus path\<close>

lemma jlt_NaN_right [simp]: "jlt a NaN = False"
  by (cases a) simp_all

lemma jsub_NaN_left [simp]: "jsub NaN a = NaN"
  by (simp add: jsub_def)

lemma annulusSlices_filter:
  "annulusSlices toFixed nodeRadius d0 d1 angles path
     = path @ concat (map (\<lambda>(a, b).
                 ''M'' @ getCirclePath toFixed (busOuterRadius nodeRadius) (jadd a d0) (jsub b d0) True
                 @ '' L''
                 @ getCirclePath toFixed (busInnerRadius nodeRadius) (jsub b d1) (jadd a d1) False
                 @ '' Z '')
               (filter (\<lambda>(a, b). jgt (jsub b d0) (jadd a d0) \<and> jlt (jadd a d1) (jsub b d1))
                  (zip angles (tl angles))))"
proof (induction angles arbitrary: path)
  case Nil
  then show ?case by simp
next
  case (Cons a rest)
  show ?case
  proof (cases rest)
    case Nil
    then show ?thesis by (simp add: jgt_def)
  next
    case (Cons b rest')
    then show ?thesis
      using Cons.IH by (simp add: Let_def)
  qed
qed

lemma getCirclePath_finite:
  "getCirclePath toFixed (Fin \<rho>) (Fin \<alpha>) (Fin \<beta>) clockWise
     = toFixed (Fin (\<rho> * cos \<alpha>)) 3 @ '','' @ toFixed (Fin (\<rho> * sin \<alpha>)) 3
       @ '' A'' @ toFixed (Fin \<rho>) 3 @ '','' @ toFixed (Fin \<rho>) 3
       @ '' '' @ toFixed (Fin ((\<beta> - \<alpha>) * 180 / pi)) 3
       @ '' '' @ (if pi < \<bar>\<beta> - \<alpha>\<bar> then ''1'' else ''0'')
       @ '' '' @ (if clockWise then ''1'' else ''0'')
       @ '' '' @ toFixed (Fin (\<rho> * cos \<beta>)) 3 @ '','' @ toFixed (Fin (\<rho> * sin \<beta>)) 3"
  by (simp add: getCirclePath_def radToDeg_def Math_PI_def jsub_def jgt_def Let_def)

lemma getCirclePath_upper_half:
  "getCirclePath toFixed (Fin \<rho>) (Fin 0) Math_PI clockWise
     = toFixed (Fin \<rho>) 3 @ '','' @ toFixed (Fin 0) 3
       @ '' A'' @ toFixed (Fin \<rho>) 3 @ '','' @ toFixed (Fin \<rho>) 3
       @ '' '' @ toFixed (Fin 180) 3 @ '' 0 '' @ (if clockWise then ''1'' else ''0'')
       @ '' '' @ toFixed (Fin (- \<rho>)) 3 @ '','' @ toFixed (Fin 0) 3"
  unfolding Math_PI_def getCirclePath_finite by simp

lemma getCirclePath_lower_half:
  "getCirclePath toFixed (Fin \<rho>) Math_PI (Fin 0) clockWise
     = toFixed (Fin (- \<rho>)) 3 @ '','' @ toFixed (Fin 0) 3
       @ '' A'' @ toFixed (Fin \<rho>) 3 @ '','' @ toFixed (Fin \<rho>) 3
       @ '' '' @ toFixed (Fin (- 180)) 3 @ '' 0 '' @ (if clockWise then ''1'' else ''0'')
       @ '' '' @ toFixed (Fin \<rho>) 3 @ '','' @ toFixed (Fin 0) 3"
  unfolding Math_PI_def getCirclePath_finite by simp

text \<open>
  Claim C7. For an empty angle list \<^verbatim>\<open>getFragmentedAnnulusPath\<close> returns the full circle at
  the outer radius \<open>R\<close> as two half-circle arcs, from \<open>(R, 0)\<close> to \<open>(-R, 0)\<close> and back, each an
  arc command \<^verbatim>\<open>A\<close> of radii \<open>R, R\<close> with sweep flag \<^verbatim>\<open>1\<close> (clockwise), followed, only if
  \<^verbatim>\<open>busInnerRadius > 0\<close>, by the full circle at the inner radius \<open>r\<close>, drawn the same way from
  \<open>(r, 0)\<close> to \<open>(-r, 0)\<close> and back with sweep flag \<^verbatim>\<open>0\<close> (counter-clockwise). Every arc that
  \<^verbatim>\<open>getCirclePath\<close> writes starts at the point of the circle at the start angle, names the
  radius twice, the angle in degrees, the large-arc flag, the sweep flag, and ends at the point
  of the circle at the end angle. For a non-empty list the path is made of the slices between
  consecutive angles, in order, and a slice is emitted exactly when, both ends inset by
  \<open>halfWidth / radius\<close> on the outer and on the inner circle, the outer arc ends strictly after
  its start and the inner arc ends strictly before its start; the other slices are skipped.
  The coordinates are those of exact trigonometry (the sine of \<open>\<pi>\<close> is \<open>0\<close>), printed by
  \<^verbatim>\<open>toFixed\<close> with three digits.
\<close>

theorem getFragmentedAnnulusPath_slices:
  "getFragmentedAnnulusPath toFixed []
       \<lparr>busInnerRadius = Fin r, busOuterRadius = Fin R, voltageLevelRadius = v\<rparr> nodeHollowWidth'
     = ''M'' @ toFixed (Fin R) 3 @ '','' @ toFixed (Fin 0) 3
       @ '' A'' @ toFixed (Fin R) 3 @ '','' @ toFixed (Fin R) 3
       @ '' '' @ toFixed (Fin 180) 3 @ '' 0 1 ''
       @ toFixed (Fin (- R)) 3 @ '','' @ toFixed (Fin 0) 3
       @ '' M'' @ toFixed (Fin (- R)) 3 @ '','' @ toFixed (Fin 0) 3
       @ '' A'' @ toFixed (Fin R) 3 @ '','' @ toFixed (Fin R) 3
       @ '' '' @ toFixed (Fin (- 180)) 3 @ '' 0 1 ''
       @ toFixed (Fin R) 3 @ '','' @ toFixed (Fin 0) 3
       @ (if 0 < r
          then '' M'' @ toFixed (Fin r) 3 @ '','' @ toFixed (Fin 0) 3
               @ '' A'' @ toFixed (Fin r) 3 @ '','' @ toFixed (Fin r) 3
               @ '' '' @ toFixed (Fin 180) 3 @ '' 0 0 ''
               @ toFixed (Fin (- r)) 3 @ '','' @ toFixed (Fin 0) 3
               @ '' M'' @ toFixed (Fin (- r)) 3 @ '','' @ toFixed (Fin 0) 3
               @ '' A'' @ toFixed (Fin r) 3 @ '','' @ toFixed (Fin r) 3
               @ '' '' @ toFixed (Fin (- 180)) 3 @ '' 0 0 ''
               @ toFixed (Fin r) 3 @ '','' @ toFixed (Fin 0) 3
          else [])
   \<and> getCirclePath toFixed (Fin \<rho>) (Fin \<alpha>) (Fin \<beta>) clockWise
     = toFixed (Fin (\<rho> * cos \<alpha>)) 3 @ '','' @ toFixed (Fin (\<rho> * sin \<alpha>)) 3
       @ '' A'' @ toFixed (Fin \<rho>) 3 @ '','' @ toFixed (Fin \<rho>) 3
       @ '' '' @ toFixed (Fin ((\<beta> - \<alpha>) * 180 / pi)) 3
       @ '' '' @ (if pi < \<bar>\<beta> - \<alpha>\<bar> then ''1'' else ''0'')
       @ '' '' @ (if clockWise then ''1'' else ''0'')
       @ '' '' @ toFixed (Fin (\<rho> * cos \<beta>)) 3 @ '','' @ toFixed (Fin (\<rho> * sin \<beta>)) 3
   \<and> getFragmentedAnnulusPath toFixed [] nodeRadius nodeHollowWidth'
     = ''M'' @ getCirclePath toFixed (busOuterRadius nodeRadius) (Fin 0) Math_PI True
       @ '' M'' @ getCirclePath toFixed (busOuterRadius nodeRadius) Math_PI (Fin 0) True
       @ (if jgt (busInnerRadius nodeRadius) (Fin 0)
          then '' M'' @ getCirclePath toFixed (busInnerRadius nodeRadius) (Fin 0) Math_PI False
               @ '' M'' @ getCirclePath toFixed (busInnerRadius nodeRadius) Math_PI (Fin 0) False
          else [])
   \<and> (\<exists>before after. \<forall>clockWise.
         getCirclePath toFixed radius angleStart angleEnd clockWise
           = before @ (if clockWise then ''1'' else ''0'') @ after)
   \<and> getFragmentedAnnulusPath toFixed (angle # angles) nodeRadius nodeHollowWidth'
     = (let halfWidth = jdiv nodeHollowWidth' (Fin 2);
            deltaAngle0 = jdiv halfWidth (busOuterRadius nodeRadius);
            deltaAngle1 = jdiv halfWidth (busInnerRadius nodeRadius)
        in concat (map (\<lambda>(a, b).
                     ''M'' @ getCirclePath toFixed (busOuterRadius nodeRadius)
                               (jadd a deltaAngle0) (jsub b deltaAngle0) True
                     @ '' L''
                     @ getCirclePath toFixed (busInnerRadius nodeRadius)
                         (jsub b deltaAngle1) (jadd a deltaAngle1) False
                     @ '' Z '')
                   (filter (\<lambda>(a, b). jgt (jsub b deltaAngle0) (jadd a deltaAngle0)
                                      \<and> jlt (jadd a deltaAngle1) (jsub b deltaAngle1))
                      (zip (angle # angles) angles))))"
proof (intro conjI)
  show "getFragmentedAnnulusPath toFixed []
       \<lparr>busInnerRadius = Fin r, busOuterRadius = Fin R, voltageLevelRadius = v\<rparr> nodeHollowWidth'
     = ''M'' @ toFixed (Fin R) 3 @ '','' @ toFixed (Fin 0) 3
       @ '' A'' @ toFixed (Fin R) 3 @ '','' @ toFixed (Fin R) 3
       @ '' '' @ toFixed (Fin 180) 3 @ '' 0 1 ''
       @ toFixed (Fin (- R)) 3 @ '','' @ toFixed (Fin 0) 3
       @ '' M'' @ toFixed (Fin (- R)) 3 @ '','' @ toFixed (Fin 0) 3
       @ '' A'' @ toFixed (Fin R) 3 @ '','' @ toFixed (Fin R) 3
       @ '' '' @ toFixed (Fin (- 180)) 3 @ '' 0 1 ''
       @ toFixed (Fin R) 3 @ '','' @ toFixed (Fin 0) 3
       @ (if 0 < r
          then '' M'' @ toFixed (Fin r) 3 @ '','' @ toFixed (Fin 0) 3
               @ '' A'' @ toFixed (Fin r) 3 @ '','' @ toFixed (Fin r) 3
               @ '' '' @ toFixed (Fin 180) 3 @ '' 0 0 ''
               @ toFixed (Fin (- r)) 3 @ '','' @ toFixed (Fin 0) 3
               @ '' M'' @ toFixed (Fin (- r)) 3 @ '','' @ toFixed (Fin 0) 3
               @ '' A'' @ toFixed (Fin r) 3 @ '','' @ toFixed (Fin r) 3
               @ '' '' @ toFixed (Fin (- 180)) 3 @ '' 0 0 ''
               @ toFixed (Fin r) 3 @ '','' @ toFixed (Fin 0) 3
          else [])"
    by (simp add: getFragmentedAnnulusPath_def getCirclePath_upper_half getCirclePath_lower_half
        jgt_def Let_def)
next
  show "getCirclePath toFixed (Fin \<rho>) (Fin \<alpha>) (Fin \<beta>) clockWise
     = toFixed (Fin (\<rho> * cos \<alpha>)) 3 @ '','' @ toFixed (Fin (\<rho> * sin \<alpha>)) 3
       @ '' A'' @ toFixed (Fin \<rho>) 3 @ '','' @ toFixed (Fin \<rho>) 3
       @ '' '' @ toFixed (Fin ((\<beta> - \<alpha>) * 180 / pi)) 3
       @ '' '' @ (if pi < \<bar>\<beta> - \<alpha>\<bar> then ''1'' else ''0'')
       @ '' '' @ (if clockWise then ''1'' else ''0'')
       @ '' '' @ toFixed (Fin (\<rho> * cos \<beta>)) 3 @ '','' @ toFixed (Fin (\<rho> * sin \<beta>)) 3"
    by (rule getCirclePath_finite)
next
  show "getFragmentedAnnulusPath toFixed [] nodeRadius nodeHollowWidth'
     = ''M'' @ getCirclePath toFixed (busOuterRadius nodeRadius) (Fin 0) Math_PI True
       @ '' M'' @ getCirclePath toFixed (busOuterRadius nodeRadius) Math_PI (Fin 0) True
       @ (if jgt (busInnerRadius nodeRadius) (Fin 0)
          then '' M'' @ getCirclePath toFixed (busInnerRadius nodeRadius) (Fin 0) Math_PI False
               @ '' M'' @ getCirclePath toFixed (busInnerRadius nodeRadius) Math_PI (Fin 0) False
          else [])"
    by (simp add: getFragmentedAnnulusPath_def Let_def)
next
  have "\<forall>clockWise.
         getCirclePath toFixed radius angleStart angleEnd clockWise
           = (toFixed (jmul radius (Math_cos angleStart)) 3 @ '','' @
              toFixed (jmul radius (Math_sin angleStart)) 3 @ '' A'' @ toFixed radius 3 @ '',''
              @ toFixed radius 3 @ '' '' @ toFixed (radToDeg (jsub angleEnd angleStart)) 3 @ '' ''
              @ (if jgt (Math_abs (jsub angleEnd angleStart)) Math_PI then ''1'' else ''0'')
              @ '' '')
             @ (if clockWise then ''1'' else ''0'')
             @ ('' '' @ toFixed (jmul radius (Math_cos angleEnd)) 3 @ '',''
                @ toFixed (jmul radius (Math_sin angleEnd)) 3)"
    by (simp add: getCirclePath_def Let_def)
  then show "\<exists>before after. \<forall>clockWise.
         getCirclePath toFixed radius angleStart angleEnd clockWise
           = before @ (if clockWise then ''1'' else ''0'') @ after"
    by blast
next
  show "getFragmentedAnnulusPath toFixed (angle # angles) nodeRadius nodeHollowWidth'
     = (let halfWidth = jdiv nodeHollowWidth' (Fin 2);
            deltaAngle0 = jdiv halfWidth (busOuterRadius nodeRadius);
            deltaAngle1 = jdiv halfWidth (busInnerRadius nodeRadius)
        in concat (map (\<lambda>(a, b).
                     ''M'' @ getCirclePath toFixed (busOuterRadius nodeRadius)
                               (jadd a deltaAngle0) (jsub b deltaAngle0) True
                     @ '' L''
                     @ getCirclePath toFixed (busInnerRadius nodeRadius)
                         (jsub b deltaAngle1) (jadd a deltaAngle1) False
                     @ '' Z '')
                   (filter (\<lambda>(a, b). jgt (jsub b deltaAngle0) (jadd a deltaAngle0)
                                      \<and> jlt (jadd a deltaAngle1) (jsub b deltaAngle1))
                      (zip (angle # angles) angles))))"
    unfolding getFragmentedAnnulusPath_def Let_def
    by (simp add: annulusSlices_filter del: annulusSlices.simps)
qed

text \<open>The innermost bus has inner radius 0: with a positive hollow width the inset on the
  inner circle is infinite and no slice is emitted.\<close>

lemma getFragmentedAnnulusPath_innermost:
  assumes "busInnerRadius nodeRadius = Fin 0" and "0 < w"
  shows "getFragmentedAnnulusPath toFixed (angle # angles) nodeRadius (Fin w) = []"
proof -
  have "\<not> jlt (jadd a PInf) (jsub b PInf)" for a b
    by (cases a; cases b) (simp_all add: jsub_def)
  then show ?thesis
    using assms
    by (simp add: getFragmentedAnnulusPath_def Let_def annulusSlices_filter inf_of_sign_def
        del: annulusSlices.simps)
qed

subsection \<open>Bend handles\<close>

text \<open>Association lists, the edges of the metadata and the indices of the handles of an
  edge.\<close>

lemma update_fresh:
  "k \<notin> fst ` set al \<Longrightarrow> AList.update k v al = al @ [(k, v)]"
  by (induction al) auto

lemma update_last:
  "k \<notin> fst ` set al \<Longrightarrow> AList.update k v (al @ [(k, w)]) = al @ [(k, v)]"
  by (induction al) auto

lemma map_of_fresh_last:
  "k \<notin> fst ` set al \<Longrightarrow> map_of (al @ [(k, v)]) k = Some v"
  by (induction al) auto

lemma find_edge_id:
  "find (\<lambda>e. edgeSvgId e = i) es = Some edge \<Longrightarrow> edgeSvgId edge = i \<and> edge \<in> set es"
  by (induction es) (auto split: if_splits)

lemma updateFirst_ids:
  "(\<And>e. edgeSvgId (f e) = edgeSvgId e)
   \<Longrightarrow> map edgeSvgId (updateFirst (\<lambda>e. edgeSvgId e = i) f es) = map edgeSvgId es"
  by (induction es) auto

lemma updateFirst_list_all:
  assumes "distinct (map edgeSvgId es)"
    and "find (\<lambda>e. edgeSvgId e = i) es = Some edge"
    and "list_all P es"
    and "Q (f edge)"
    and "\<And>e. e \<in> set es \<Longrightarrow> edgeSvgId e \<noteq> i \<Longrightarrow> P e \<Longrightarrow> Q e"
  shows "list_all Q (updateFirst (\<lambda>e. edgeSvgId e = i) f es)"
  using assms
proof (induction es)
  case Nil
  then show ?case by simp
next
  case (Cons e es)
  show ?case
  proof (cases "edgeSvgId e = i")
    case True
    with Cons.prems have "edge = e" by simp
    moreover have "list_all Q es"
    proof -
      have "\<forall>x \<in> set es. Q x"
      proof
        fix x assume x: "x \<in> set es"
        from Cons.prems(1) have "edgeSvgId e \<notin> set (map edgeSvgId es)" by simp
        with x True have "edgeSvgId x \<noteq> i"
          by (metis image_eqI set_map)
        moreover from Cons.prems(3) x have "P x" by (auto simp: list_all_iff)
        ultimately show "Q x" using Cons.prems(5) [of x] x by simp
      qed
      then show ?thesis by (simp add: list_all_iff)
    qed
    ultimately show ?thesis using True Cons.prems(4) by simp
  next
    case False
    with Cons.prems have "Q e" by simp
    moreover from False Cons.prems have "list_all Q (updateFirst (\<lambda>e. edgeSvgId e = i) f es)"
      by (intro Cons.IH) auto
    ultimately show ?thesis using False by simp
  qed
qed

lemma handleIndices_append:
  "handleIndices (al @ bl) e = handleIndices al e @ handleIndices bl e"
  by (simp add: handleIndices_def)

lemma handleIndices_map_same:
  assumes "\<And>k v. (k, v) \<in> set al \<Longrightarrow> lpEdgeId (snd (g (k, v))) = lpEdgeId v"
    and "\<And>k v. (k, v) \<in> set al \<Longrightarrow> lpEdgeId v = e \<Longrightarrow> lpIndex (snd (g (k, v))) = h (lpIndex v)"
  shows "handleIndices (map g al) e = map h (handleIndices al e)"
  using assms
proof (induction al)
  case Nil
  then show ?case by (simp add: handleIndices_def)
next
  case (Cons p al)
  obtain k v where p: "p = (k, v)" by (cases p)
  obtain k' v' where g: "g (k, v) = (k', v')" by (cases "g (k, v)")
  from Cons.prems(1) [of k v] p g have e: "lpEdgeId v' = lpEdgeId v" by simp
  have IH: "handleIndices (map g al) e = map h (handleIndices al e)"
    using Cons.prems by (intro Cons.IH) auto
  show ?case
  proof (cases "lpEdgeId v = e")
    case True
    with Cons.prems(2) [of k v] p g have "lpIndex v' = h (lpIndex v)" by simp
    with True e IH p g show ?thesis
      using handleIndices_append [of "[g (k, v)]" "map g al" e]
        handleIndices_append [of "[(k, v)]" al e]
      by (simp add: handleIndices_def)
  next
    case False
    with e IH p g show ?thesis
      using handleIndices_append [of "[g (k, v)]" "map g al" e]
        handleIndices_append [of "[(k, v)]" al e]
      by (simp add: handleIndices_def)
  qed
qed


lemma shift_up_exact:
  fixes xs :: "int list"
  assumes "distinct xs" and "set xs = set (map int [0..<k])" and "i \<le> k"
  shows "distinct (map (\<lambda>x. if int i \<le> x then x + 1 else x) xs @ [int i])"
    and "set (map (\<lambda>x. if int i \<le> x then x + 1 else x) xs @ [int i]) = set (map int [0..<Suc k])"
proof -
  let ?sh = "\<lambda>x. if int i \<le> x then x + 1 else x"
  have mem: "\<And>x. x \<in> set xs \<longleftrightarrow> 0 \<le> x \<and> x < int k"
  proof -
    fix x :: int
    have "x \<in> int ` {0..<k} \<longleftrightarrow> 0 \<le> x \<and> x < int k"
    proof
      assume "x \<in> int ` {0..<k}"
      then show "0 \<le> x \<and> x < int k" by auto
    next
      assume a: "0 \<le> x \<and> x < int k"
      then have "x = int (nat x)" "nat x \<in> {0..<k}" by auto
      then show "x \<in> int ` {0..<k}" by (rule image_eqI)
    qed
    moreover from assms(2) have "set xs = int ` {0..<k}"
      by (simp only: set_map set_upt)
    ultimately show "x \<in> set xs \<longleftrightarrow> 0 \<le> x \<and> x < int k" by (simp only:)
  qed
  have mem': "\<And>x. x \<in> int ` {0..<Suc k} \<longleftrightarrow> 0 \<le> x \<and> x < int k + 1"
  proof -
    fix x :: int
    show "x \<in> int ` {0..<Suc k} \<longleftrightarrow> 0 \<le> x \<and> x < int k + 1"
    proof
      assume "x \<in> int ` {0..<Suc k}"
      then show "0 \<le> x \<and> x < int k + 1" by auto
    next
      assume a: "0 \<le> x \<and> x < int k + 1"
      then have "x = int (nat x)" "nat x \<in> {0..<Suc k}" by auto
      then show "x \<in> int ` {0..<Suc k}" by (rule image_eqI)
    qed
  qed
  have inj: "inj_on ?sh (set xs)" by (auto simp: inj_on_def split: if_splits)
  have notin: "int i \<notin> ?sh ` set xs" by (auto split: if_splits)
  from assms(1) inj notin show "distinct (map ?sh xs @ [int i])"
    by (simp add: distinct_map)
  have "?sh ` set xs \<union> {int i} = int ` {0..<Suc k}"
  proof (intro set_eqI iffI)
    fix y assume "y \<in> ?sh ` set xs \<union> {int i}"
    then have "0 \<le> y \<and> y < int k + 1"
    proof
      assume "y \<in> ?sh ` set xs"
      then obtain x where x: "x \<in> set xs" "y = ?sh x" by blast
      from x(1) have "0 \<le> x \<and> x < int k" by (simp only: mem simp_thms)
      with x(2) show ?thesis by (simp split: if_splits)
    next
      assume "y \<in> {int i}"
      with assms(3) show ?thesis by simp
    qed
    then show "y \<in> int ` {0..<Suc k}" by (simp only: mem' simp_thms)
  next
    fix y assume "y \<in> int ` {0..<Suc k}"
    then have y: "0 \<le> y \<and> y < int k + 1" by (simp only: mem' simp_thms)
    consider "y < int i" | "y = int i" | "int i < y" by linarith
    then show "y \<in> ?sh ` set xs \<union> {int i}"
    proof cases
      case 1
      with y assms(3) have "0 \<le> y \<and> y < int k" by simp
      then have m: "y \<in> set xs" by (simp only: mem simp_thms)
      from 1 have e: "y = ?sh y" by simp
      from e m have "y \<in> ?sh ` set xs" by (rule image_eqI)
      then show ?thesis by (rule UnI1)
    next
      case 2
      then show ?thesis by simp
    next
      case 3
      with y have "0 \<le> y - 1 \<and> y - 1 < int k" by simp
      then have m: "y - 1 \<in> set xs" by (simp only: mem simp_thms)
      from 3 have e: "y = ?sh (y - 1)" by simp
      from e m have "y \<in> ?sh ` set xs" by (rule image_eqI)
      then show ?thesis by (rule UnI1)
    qed
  qed
  then show "set (map ?sh xs @ [int i]) = set (map int [0..<Suc k])"
    by (simp only: set_append set_map set_upt list.set)
qed

lemma shift_down_exact:
  fixes xs :: "int list"
  assumes "distinct xs" and "set xs = set (map int [0..<Suc k]) - {int i}" and "i \<le> k"
  shows "distinct (map (\<lambda>x. if int i < x then x - 1 else x) xs)"
    and "set (map (\<lambda>x. if int i < x then x - 1 else x) xs) = set (map int [0..<k])"
proof -
  let ?sh = "\<lambda>x. if int i < x then x - 1 else x"
  have mem': "\<And>x. x \<in> int ` {0..<k} \<longleftrightarrow> 0 \<le> x \<and> x < int k"
  proof -
    fix x :: int
    show "x \<in> int ` {0..<k} \<longleftrightarrow> 0 \<le> x \<and> x < int k"
    proof
      assume "x \<in> int ` {0..<k}"
      then show "0 \<le> x \<and> x < int k" by auto
    next
      assume a: "0 \<le> x \<and> x < int k"
      then have "x = int (nat x)" "nat x \<in> {0..<k}" by auto
      then show "x \<in> int ` {0..<k}" by (rule image_eqI)
    qed
  qed
  have mem: "\<And>x. x \<in> set xs \<longleftrightarrow> 0 \<le> x \<and> x < int k + 1 \<and> x \<noteq> int i"
  proof -
    fix x :: int
    have "x \<in> int ` {0..<Suc k} \<longleftrightarrow> 0 \<le> x \<and> x < int k + 1"
    proof
      assume "x \<in> int ` {0..<Suc k}"
      then show "0 \<le> x \<and> x < int k + 1" by auto
    next
      assume a: "0 \<le> x \<and> x < int k + 1"
      then have "x = int (nat x)" "nat x \<in> {0..<Suc k}" by auto
      then show "x \<in> int ` {0..<Suc k}" by (rule image_eqI)
    qed
    moreover from assms(2) have "set xs = int ` {0..<Suc k} - {int i}"
      by (simp only: set_map set_upt)
    ultimately show "x \<in> set xs \<longleftrightarrow> 0 \<le> x \<and> x < int k + 1 \<and> x \<noteq> int i"
      by (simp only: Diff_iff singleton_iff conj_assoc)
  qed
  have inj: "inj_on ?sh (set xs)"
    unfolding inj_on_def
  proof (intro ballI impI)
    fix x y assume xx: "x \<in> set xs" and yy: "y \<in> set xs" and e: "?sh x = ?sh y"
    from xx have "x \<noteq> int i" using mem [of x] by blast
    moreover from yy have "y \<noteq> int i" using mem [of y] by blast
    ultimately show "x = y" using e by (simp split: if_splits)
  qed
  from assms(1) inj show "distinct (map ?sh xs)"
    by (simp add: distinct_map)
  have "?sh ` set xs = int ` {0..<k}"
  proof (intro set_eqI iffI)
    fix y assume "y \<in> ?sh ` set xs"
    then obtain x where x: "x \<in> set xs" "y = ?sh x" by blast
    from x(1) have "0 \<le> x \<and> x < int k + 1 \<and> x \<noteq> int i" by (simp only: mem simp_thms)
    with x(2) assms(3) have "0 \<le> y \<and> y < int k" by (simp split: if_splits)
    then show "y \<in> int ` {0..<k}" by (simp only: mem' simp_thms)
  next
    fix y assume "y \<in> int ` {0..<k}"
    then have y: "0 \<le> y \<and> y < int k" by (simp only: mem' simp_thms)
    show "y \<in> ?sh ` set xs"
    proof (cases "y < int i")
      case True
      with y have "0 \<le> y \<and> y < int k + 1 \<and> y \<noteq> int i" by simp
      then have m: "y \<in> set xs" by (simp only: mem simp_thms)
      from True have e: "y = ?sh y" by simp
      from e m show ?thesis by (rule image_eqI)
    next
      case False
      with y have "0 \<le> y + 1 \<and> y + 1 < int k + 1 \<and> y + 1 \<noteq> int i" by simp
      then have m: "y + 1 \<in> set xs" by (simp only: mem simp_thms)
      from False have e: "y = ?sh (y + 1)" by simp
      from e m show ?thesis by (rule image_eqI)
    qed
  qed
  then show "set (map ?sh xs) = set (map int [0..<k])"
    by (simp only: set_map set_upt)
qed


lemma addPointToList_count:
  "length (linePoints (addPointToList bp a b p)) = Suc (case bp of None \<Rightarrow> 0 | Some pts \<Rightarrow> length pts)
   \<and> pointIndex (addPointToList bp a b p) \<le> (case bp of None \<Rightarrow> 0 | Some pts \<Rightarrow> length pts)"
proof (cases bp)
  case None
  then show ?thesis by (simp add: addPointToList_def)
next
  case (Some pts)
  have "length (linePoints (addPointToList (Some pts) a b p)) = Suc (length pts)"
    by (simp add: addPointToList_Some splice_insert_def)
  with Some addPointToList_index_le [of pts a b p] show ?thesis by simp
qed

lemma handle_index_member:
  "(k, v) \<in> set al \<Longrightarrow> lpIndex v \<in> set (handleIndices al (lpEdgeId v))"
  by (force simp: handleIndices_def)

lemma handleIndices_delete:
  assumes "distinct (map fst al)" and "map_of al h = Some v"
    and "distinct (handleIndices al (lpEdgeId v))"
  shows "distinct (handleIndices (AList.delete h al) (lpEdgeId v))
     \<and> set (handleIndices (AList.delete h al) (lpEdgeId v))
         = set (handleIndices al (lpEdgeId v)) - {lpIndex v}"
  using assms
proof (induction al)
  case Nil
  then show ?case by simp
next
  case (Cons p al)
  obtain k w where p: "p = (k, w)" by (cases p)
  show ?case
  proof (cases "k = h")
    case True
    with Cons.prems p have w: "w = v" and fresh: "h \<notin> fst ` set al" by auto
    from fresh have d: "AList.delete h al = al" by (rule AList.delete_id)
    from Cons.prems(3) p w
    have "lpIndex v \<notin> set (handleIndices al (lpEdgeId v))"
      and "distinct (handleIndices al (lpEdgeId v))"
      by (simp_all add: handleIndices_def)
    with p w True d show ?thesis by (auto simp: handleIndices_def)
  next
    case False
    with Cons.prems p have m: "map_of al h = Some v" and dk: "distinct (map fst al)" by auto
    from Cons.prems(3) p have dd: "distinct (handleIndices al (lpEdgeId v))"
      by (simp add: handleIndices_def split: if_splits)
    from Cons.IH [OF dk m dd]
    have IH: "distinct (handleIndices (AList.delete h al) (lpEdgeId v))"
      "set (handleIndices (AList.delete h al) (lpEdgeId v))
         = set (handleIndices al (lpEdgeId v)) - {lpIndex v}" by simp_all
    from m have "(h, v) \<in> set al" by (rule map_of_SomeD)
    then have mem: "lpIndex v \<in> set (handleIndices al (lpEdgeId v))"
      by (rule handle_index_member)
    show ?thesis
    proof (cases "lpEdgeId w = lpEdgeId v")
      case same: True
      from Cons.prems(3) p same have nw: "lpIndex w \<notin> set (handleIndices al (lpEdgeId v))"
        by (simp add: handleIndices_def)
      with mem have "lpIndex w \<noteq> lpIndex v" by auto
      with IH nw p False same show ?thesis by (auto simp: handleIndices_def)
    next
      case other: False
      with IH p False show ?thesis by (simp add: handleIndices_def)
    qed
  qed
qed

lemma handleIndices_delete_other:
  assumes "map_of al h = Some v" and "distinct (map fst al)" and "e \<noteq> lpEdgeId v"
  shows "handleIndices (AList.delete h al) e = handleIndices al e"
  using assms
proof (induction al)
  case Nil
  then show ?case by simp
next
  case (Cons p al)
  obtain k w where p: "p = (k, w)" by (cases p)
  show ?case
  proof (cases "k = h")
    case True
    with Cons.prems p have w: "w = v" and fresh: "h \<notin> fst ` set al" by auto
    from fresh have d: "AList.delete h al = al" by (rule AList.delete_id)
    with p w True Cons.prems(3) show ?thesis by (simp add: handleIndices_def)
  next
    case False
    with Cons.prems p have "handleIndices (AList.delete h al) e = handleIndices al e"
      by (intro Cons.IH) auto
    with p False show ?thesis by (simp add: handleIndices_def)
  qed
qed

lemma find_updateFirst:
  "find (\<lambda>e. edgeSvgId e = i) es = Some edge \<Longrightarrow> (\<And>e. edgeSvgId (f e) = edgeSvgId e)
   \<Longrightarrow> find (\<lambda>e. edgeSvgId e = i) (updateFirst (\<lambda>e. edgeSvgId e = i) f es) = Some (f edge)"
  by (induction es) (auto split: if_splits)

text \<open>The state after \<^verbatim>\<open>createEdgeBendPoint\<close>.\<close>

lemma bend_map_cong:
  assumes "newId \<notin> fst ` set al"
  shows "map (\<lambda>(key, value).
            if key \<noteq> newId \<and> lpEdgeId value = e \<and> lpIndex value \<ge> i
            then (key, value\<lparr>lpIndex := lpIndex value + 1\<rparr>) else (key, value)) al
       = map (\<lambda>(key, value).
            (key, if lpEdgeId value = e \<and> i \<le> lpIndex value
                  then value\<lparr>lpIndex := lpIndex value + 1\<rparr> else value)) al"
  using assms by (induction al) auto

lemma updateEdgeMetadata_bend:
  assumes "this_diagramMetadata s = Some m"
    and "map_of (this_linePointIndexMap s) h = Some v"
    and "find (\<lambda>e. edgeSvgId e = lpEdgeId v) (edges m) = Some edge"
  shows "updateEdgeMetadata h (Some pos) BEND s = updateEdgeMetadataWhenBending edge h pos s"
  using assms by (simp add: updateEdgeMetadata_def chain_def)

lemma updateEdgeMetadata_straighten:
  assumes "this_diagramMetadata s = Some m"
    and "map_of (this_linePointIndexMap s) h = Some v"
    and "find (\<lambda>e. edgeSvgId e = lpEdgeId v) (edges m) = Some edge"
  shows "updateEdgeMetadata h None STRAIGHTEN s = updateEdgeMetadataWhenStraightening edge h s"
  using assms by (simp add: updateEdgeMetadata_def chain_def)

lemma updateEdgeMetadataWhenBending_new:
  assumes "this_diagramMetadata s = Some m"
    and "map_of (this_linePointIndexMap s) h = Some v"
    and "lpIndex v = - 1"
    and "find (\<lambda>node. nodeSvgId node = node1 edge) (nodes m) = Some n1"
    and "find (\<lambda>node. nodeSvgId node = node2 edge) (nodes m) = Some n2"
    and "added = addPointToList (bendingPoints edge)
                   \<lparr>px = nodeX n1, py = nodeY n1\<rparr> \<lparr>px = nodeX n2, py = nodeY n2\<rparr> pos"
  shows "this_linePointIndexMap (updateEdgeMetadataWhenBending edge h pos s) =
           map (\<lambda>(key, value).
                  if key \<noteq> h \<and> lpEdgeId value = edgeSvgId edge
                     \<and> lpIndex value \<ge> int (pointIndex added)
                  then (key, value\<lparr>lpIndex := lpIndex value + 1\<rparr>)
                  else (key, value))
             (AList.update h \<lparr>lpEdgeId = edgeSvgId edge, lpIndex = int (pointIndex added)\<rparr>
                (this_linePointIndexMap s))"
    and "this_diagramMetadata (updateEdgeMetadataWhenBending edge h pos s) =
           Some (m\<lparr>edges := updateFirst (\<lambda>e. edgeSvgId e = edgeSvgId edge)
                     (\<lambda>e. e\<lparr>bendingPoints := Some (linePoints added)\<rparr>) (edges m)\<rparr>)"
  using assms
  by (simp_all add: updateEdgeMetadataWhenBending_def writeEdge_def chain_def Let_def)

lemma createEdgeBendPoint_map:
  assumes md: "this_diagramMetadata this = Some m"
    and edge: "find (\<lambda>e. edgeSvgId e = lineId) (edges m) = Some edge"
    and n1: "find (\<lambda>node. nodeSvgId node = node1 edge) (nodes m) = Some n1"
    and n2: "find (\<lambda>node. nodeSvgId node = node2 edge) (nodes m) = Some n2"
    and fresh: "newId \<notin> fst ` set (this_linePointIndexMap this)"
    and added: "added = addPointToList (bendingPoints edge)
                   \<lparr>px = nodeX n1, py = nodeY n1\<rparr> \<lparr>px = nodeX n2, py = nodeY n2\<rparr> pos"
  shows "this_linePointIndexMap (createEdgeBendPoint newId (Some lineId) pos this) =
           map (\<lambda>(key, value).
                  (key, if lpEdgeId value = lineId \<and> int (pointIndex added) \<le> lpIndex value
                        then value\<lparr>lpIndex := lpIndex value + 1\<rparr> else value))
             (this_linePointIndexMap this)
           @ [(newId, \<lparr>lpEdgeId = lineId, lpIndex = int (pointIndex added)\<rparr>)]"
    and "this_diagramMetadata (createEdgeBendPoint newId (Some lineId) pos this) =
           Some (m\<lparr>edges := updateFirst (\<lambda>e. edgeSvgId e = lineId)
                     (\<lambda>e. e\<lparr>bendingPoints := Some (linePoints added)\<rparr>) (edges m)\<rparr>)"
proof -
  let ?al = "this_linePointIndexMap this"
  let ?v = "\<lparr>lpEdgeId = lineId, lpIndex = - 1\<rparr>"
  define s where "s = this\<lparr>this_linePointIndexMap := ?al @ [(newId, ?v)]\<rparr>"
  from edge have id: "edgeSvgId edge = lineId" using find_edge_id by blast
  have "AList.update newId ?v ?al = ?al @ [(newId, ?v)]"
    using fresh by (rule update_fresh)
  then have c: "createEdgeBendPoint newId (Some lineId) pos this
                  = updateEdgeMetadata newId (Some pos) BEND s"
    by (simp add: createEdgeBendPoint_def createLinePointElement_def s_def)
  have smd: "this_diagramMetadata s = Some m" using md by (simp add: s_def)
  have sal: "this_linePointIndexMap s = ?al @ [(newId, ?v)]" by (simp add: s_def)
  have look: "map_of (this_linePointIndexMap s) newId = Some ?v"
    unfolding sal using fresh by (rule map_of_fresh_last)
  have e': "find (\<lambda>e. edgeSvgId e = lpEdgeId ?v) (edges m) = Some edge"
    using edge by simp
  have u: "updateEdgeMetadata newId (Some pos) BEND s
             = updateEdgeMetadataWhenBending edge newId pos s"
    using smd look e' by (rule updateEdgeMetadata_bend)
  have i: "lpIndex ?v = - 1" by simp
  note r = updateEdgeMetadataWhenBending_new [OF smd look i n1 n2 added]
  have upd: "AList.update newId w (?al @ [(newId, ?v)]) = ?al @ [(newId, w)]" for w
    using fresh by (rule update_last)
  show "this_linePointIndexMap (createEdgeBendPoint newId (Some lineId) pos this) =
           map (\<lambda>(key, value).
                  (key, if lpEdgeId value = lineId \<and> int (pointIndex added) \<le> lpIndex value
                        then value\<lparr>lpIndex := lpIndex value + 1\<rparr> else value))
             (this_linePointIndexMap this)
           @ [(newId, \<lparr>lpEdgeId = lineId, lpIndex = int (pointIndex added)\<rparr>)]"
    unfolding c u r(1) sal upd id
    by (simp add: bend_map_cong [OF fresh])
  show "this_diagramMetadata (createEdgeBendPoint newId (Some lineId) pos this) =
           Some (m\<lparr>edges := updateFirst (\<lambda>e. edgeSvgId e = lineId)
                     (\<lambda>e. e\<lparr>bendingPoints := Some (linePoints added)\<rparr>) (edges m)\<rparr>)"
    unfolding c u r(2) id ..
qed

text \<open>The state after \<^verbatim>\<open>onStraightenEnd\<close>, and the step that keeps the handles exact.\<close>

lemma handlesExact_step:
  assumes exact: "handlesExact this"
    and md: "this_diagramMetadata this = Some m"
    and edge: "find (\<lambda>e. edgeSvgId e = lineId) (edges m) = Some edge"
    and md': "this_diagramMetadata this' =
                Some (m\<lparr>edges := updateFirst (\<lambda>e. edgeSvgId e = lineId) f (edges m)\<rparr>)"
    and ids: "\<And>e. edgeSvgId (f e) = edgeSvgId e"
    and keys: "distinct (map fst (this_linePointIndexMap this'))"
    and same: "distinct (handleIndices (this_linePointIndexMap this') lineId)
               \<and> set (handleIndices (this_linePointIndexMap this') lineId)
                   = set (map int [0..<bendCount (f edge)])"
    and other: "\<And>e. e \<noteq> lineId \<Longrightarrow>
                  handleIndices (this_linePointIndexMap this') e
                    = handleIndices (this_linePointIndexMap this) e"
  shows "handlesExact this'"
proof -
  let ?P = "\<lambda>e. distinct (handleIndices (this_linePointIndexMap this) (edgeSvgId e))
                 \<and> set (handleIndices (this_linePointIndexMap this) (edgeSvgId e))
                     = set (map int [0..<bendCount e])"
  let ?Q = "\<lambda>e. distinct (handleIndices (this_linePointIndexMap this') (edgeSvgId e))
                 \<and> set (handleIndices (this_linePointIndexMap this') (edgeSvgId e))
                     = set (map int [0..<bendCount e])"
  from exact md have d: "distinct (map edgeSvgId (edges m))" and P: "list_all ?P (edges m)"
    by (simp_all add: handlesExact_def)
  from edge have id: "edgeSvgId edge = lineId" using find_edge_id by blast
  have Qf: "?Q (f edge)" using same ids [of edge] id by simp
  have Qo: "?Q e" if "e \<in> set (edges m)" "edgeSvgId e \<noteq> lineId" "?P e" for e
    using that other [of "edgeSvgId e"] by simp
  have "list_all ?Q (updateFirst (\<lambda>e. edgeSvgId e = lineId) f (edges m))"
    using d edge P Qf Qo by (rule updateFirst_list_all)
  moreover have "distinct (map edgeSvgId (updateFirst (\<lambda>e. edgeSvgId e = lineId) f (edges m)))"
    using d updateFirst_ids [of f lineId "edges m"] ids by simp
  ultimately show ?thesis using keys md' by (simp add: handlesExact_def)
qed

lemma straighten_lookup:
  "map_of al h = Some v \<Longrightarrow>
   map_of (map (\<lambda>(key, value).
                  if key \<noteq> h \<and> lpEdgeId value = e \<and> lpIndex value \<ge> i
                  then (key, value\<lparr>lpIndex := lpIndex value - 1\<rparr>)
                  else (key, value)) al) h = Some v"
  by (induction al) (auto split: if_splits)

lemma updateEdgeMetadataWhenStraightening_some:
  assumes "this_diagramMetadata s = Some m"
    and "map_of (this_linePointIndexMap s) h = Some v"
    and "bendingPoints edge = Some pts"
  shows "this_linePointIndexMap (updateEdgeMetadataWhenStraightening edge h s) =
           map (\<lambda>(key, value).
                  if key \<noteq> h \<and> lpEdgeId value = edgeSvgId edge \<and> lpIndex value \<ge> lpIndex v
                  then (key, value\<lparr>lpIndex := lpIndex value - 1\<rparr>)
                  else (key, value)) (this_linePointIndexMap s)"
    and "this_diagramMetadata (updateEdgeMetadataWhenStraightening edge h s) =
           Some (m\<lparr>edges := updateFirst (\<lambda>e. edgeSvgId e = edgeSvgId edge)
                     (\<lambda>e. e\<lparr>bendingPoints :=
                              (if length (splice_remove pts (lpIndex v)) = 0 then None
                               else Some (splice_remove pts (lpIndex v)))\<rparr>) (edges m)\<rparr>)"
  using assms
  by (simp_all add: updateEdgeMetadataWhenStraightening_def writeEdge_def nullish_def Let_def)

lemma redrawBentLine_straighten:
  assumes "this_diagramMetadata s = Some m"
    and "h \<noteq> []"
    and "map_of (this_linePointIndexMap s) h = Some v"
    and "find (\<lambda>e. edgeSvgId e = lpEdgeId v) (edges m) = Some e"
    and "hasElement (lpEdgeId v)"
  shows "redrawBentLine hasElement h STRAIGHTEN s
           = s\<lparr>this_linePointIndexMap := AList.delete h (this_linePointIndexMap s)\<rparr>"
proof -
  from assms(4) have "edgeSvgId e = lpEdgeId v" using find_edge_id by blast
  with assms show ?thesis by (simp add: redrawBentLine_def chain_def)
qed

lemma delete_fresh: "h \<notin> fst ` set (AList.delete h al)"
  by (induction al) auto

lemma straighten_map_cong:
  assumes "h \<notin> fst ` set al"
  shows "map (\<lambda>(key, value).
            if key \<noteq> h \<and> lpEdgeId value = e \<and> lpIndex value \<ge> i
            then (key, value\<lparr>lpIndex := lpIndex value - 1\<rparr>) else (key, value)) al
       = map (\<lambda>(key, value).
            (key, if lpEdgeId value = e \<and> i \<le> lpIndex value
                  then value\<lparr>lpIndex := lpIndex value - 1\<rparr> else value)) al"
  using assms by (induction al) auto

lemma onStraightenEnd_map:
  assumes md: "this_diagramMetadata this = Some m"
    and look: "map_of (this_linePointIndexMap this) h = Some v"
    and edge: "find (\<lambda>e. edgeSvgId e = lpEdgeId v) (edges m) = Some edge"
    and pts: "bendingPoints edge = Some pts"
    and dom: "hasElement (lpEdgeId v)"
    and h: "h \<noteq> []"
  shows "this_linePointIndexMap (onStraightenEnd hasElement (Some h) this) =
           map (\<lambda>(key, value).
                  (key, if lpEdgeId value = lpEdgeId v \<and> lpIndex v \<le> lpIndex value
                        then value\<lparr>lpIndex := lpIndex value - 1\<rparr> else value))
             (AList.delete h (this_linePointIndexMap this))"
    and "this_diagramMetadata (onStraightenEnd hasElement (Some h) this) =
           Some (m\<lparr>edges := updateFirst (\<lambda>e. edgeSvgId e = lpEdgeId v)
                     (\<lambda>e. e\<lparr>bendingPoints :=
                              (if length (splice_remove pts (lpIndex v)) = 0 then None
                               else Some (splice_remove pts (lpIndex v)))\<rparr>) (edges m)\<rparr>)"
proof -
  let ?al = "this_linePointIndexMap this"
  let ?g = "\<lambda>(key, value).
              if key \<noteq> h \<and> lpEdgeId value = lpEdgeId v \<and> lpIndex value \<ge> lpIndex v
              then (key, value\<lparr>lpIndex := lpIndex value - 1\<rparr>) else (key, value)"
  let ?f = "\<lambda>e. e\<lparr>bendingPoints :=
                     (if length (splice_remove pts (lpIndex v)) = 0 then None
                      else Some (splice_remove pts (lpIndex v)))\<rparr>"
  define s where "s = updateEdgeMetadataWhenStraightening edge h this"
  from edge have id: "edgeSvgId edge = lpEdgeId v" using find_edge_id by blast
  have u: "updateEdgeMetadata h None STRAIGHTEN this = s"
    unfolding s_def using md look edge by (rule updateEdgeMetadata_straighten)
  note r = updateEdgeMetadataWhenStraightening_some [OF md look pts, folded s_def, unfolded id]
  have look': "map_of (this_linePointIndexMap s) h = Some v"
    unfolding r(1) using look by (rule straighten_lookup)
  have edge': "find (\<lambda>e. edgeSvgId e = lpEdgeId v)
                 (edges (m\<lparr>edges := updateFirst (\<lambda>e. edgeSvgId e = lpEdgeId v) ?f (edges m)\<rparr>))
               = Some (?f edge)"
    using find_updateFirst [OF edge, of ?f] by simp
  have rd: "redrawBentLine hasElement h STRAIGHTEN s
              = s\<lparr>this_linePointIndexMap := AList.delete h (this_linePointIndexMap s)\<rparr>"
    using r(2) h look' edge' dom by (rule redrawBentLine_straighten)
  have o: "onStraightenEnd hasElement (Some h) this
             = s\<lparr>this_linePointIndexMap := AList.delete h (this_linePointIndexMap s)\<rparr>"
    by (simp add: onStraightenEnd_def u rd)
  have "AList.delete h (map ?g ?al) = map ?g (AList.delete h ?al)"
    by (rule AList.delete_map) (auto split: prod.splits)
  also have "\<dots> = map (\<lambda>(key, value).
                  (key, if lpEdgeId value = lpEdgeId v \<and> lpIndex v \<le> lpIndex value
                        then value\<lparr>lpIndex := lpIndex value - 1\<rparr> else value))
             (AList.delete h ?al)"
    using delete_fresh [of h ?al] by (rule straighten_map_cong)
  finally show "this_linePointIndexMap (onStraightenEnd hasElement (Some h) this) =
           map (\<lambda>(key, value).
                  (key, if lpEdgeId value = lpEdgeId v \<and> lpIndex v \<le> lpIndex value
                        then value\<lparr>lpIndex := lpIndex value - 1\<rparr> else value))
             (AList.delete h (this_linePointIndexMap this))"
    by (simp add: o r(1))
  show "this_diagramMetadata (onStraightenEnd hasElement (Some h) this) =
           Some (m\<lparr>edges := updateFirst (\<lambda>e. edgeSvgId e = lpEdgeId v) ?f (edges m)\<rparr>)"
    by (simp add: o r(2))
qed

lemma exampleBentViewer_exact: "handlesExact exampleBentViewer"
  by (auto simp: handlesExact_def exampleBentViewer_def exampleBentDiagram_def handleIndices_def
      bendCount_def atLeast0_lessThan_Suc)

lemma fst_shift_keys:
  "map fst (map (\<lambda>(key, value). (key, f value)) al) = map fst al"
  by (induction al) auto

lemma handle_indices_differ:
  assumes "distinct (map fst al)" and "map_of al h = Some v" and "map_of al k = Some w"
    and "k \<noteq> h" and "lpEdgeId w = lpEdgeId v"
    and "distinct (handleIndices al (lpEdgeId v))"
  shows "lpIndex w \<noteq> lpIndex v"
proof -
  from assms(3,4) have "map_of (AList.delete h al) k = Some w"
    by (simp add: AList.delete_conv')
  then have "(k, w) \<in> set (AList.delete h al)" by (rule map_of_SomeD)
  then have "lpIndex w \<in> set (handleIndices (AList.delete h al) (lpEdgeId w))"
    by (rule handle_index_member)
  with handleIndices_delete [OF assms(1,2,6)] assms(5) show ?thesis by simp
qed

lemma splice_remove_length:
  "0 \<le> j \<Longrightarrow> nat j < length pts \<Longrightarrow> length (splice_remove pts j) = length pts - 1"
  by (simp add: splice_remove_def Let_def min_def)

lemma edge_exact:
  assumes "handlesExact this" and "this_diagramMetadata this = Some m"
    and "find (\<lambda>e. edgeSvgId e = lineId) (edges m) = Some edge"
  shows "distinct (handleIndices (this_linePointIndexMap this) lineId)"
    and "set (handleIndices (this_linePointIndexMap this) lineId) = set (map int [0..<bendCount edge])"
    and "distinct (map fst (this_linePointIndexMap this))"
proof -
  from assms(3) have e: "edgeSvgId edge = lineId" "edge \<in> set (edges m)"
    using find_edge_id by blast+
  from assms(1,2) e(2)
  have "distinct (handleIndices (this_linePointIndexMap this) (edgeSvgId edge))
        \<and> set (handleIndices (this_linePointIndexMap this) (edgeSvgId edge))
            = set (map int [0..<bendCount edge])"
    by (simp add: handlesExact_def list_all_iff)
  with e(1) show "distinct (handleIndices (this_linePointIndexMap this) lineId)"
    and "set (handleIndices (this_linePointIndexMap this) lineId) = set (map int [0..<bendCount edge])"
    by simp_all
  from assms(1) show "distinct (map fst (this_linePointIndexMap this))"
    by (simp add: handlesExact_def)
qed

lemma bend_keeps_exact:
  assumes exact: "handlesExact this"
    and md: "this_diagramMetadata this = Some m"
    and edge: "find (\<lambda>e. edgeSvgId e = lineId) (edges m) = Some edge"
    and n1: "find (\<lambda>node. nodeSvgId node = node1 edge) (nodes m) = Some n1"
    and n2: "find (\<lambda>node. nodeSvgId node = node2 edge) (nodes m) = Some n2"
    and fresh: "newId \<notin> fst ` set (this_linePointIndexMap this)"
    and added: "added = addPointToList (bendingPoints edge)
                   \<lparr>px = nodeX n1, py = nodeY n1\<rparr> \<lparr>px = nodeX n2, py = nodeY n2\<rparr> pos"
    and bent: "bent = createEdgeBendPoint newId (Some lineId) pos this"
  shows "map_of (this_linePointIndexMap bent) newId
           = Some \<lparr>lpEdgeId = lineId, lpIndex = int (pointIndex added)\<rparr>"
    and "\<And>key value. key \<noteq> newId \<Longrightarrow> map_of (this_linePointIndexMap this) key = Some value \<Longrightarrow>
           map_of (this_linePointIndexMap bent) key =
             Some (if lpEdgeId value = lineId \<and> int (pointIndex added) \<le> lpIndex value
                   then value\<lparr>lpIndex := lpIndex value + 1\<rparr> else value)"
    and "handlesExact bent"
proof -
  let ?al = "this_linePointIndexMap this"
  let ?i = "pointIndex added"
  let ?f = "\<lambda>value. if lpEdgeId value = lineId \<and> int ?i \<le> lpIndex value
                      then value\<lparr>lpIndex := lpIndex value + 1\<rparr> else value"
  let ?g = "\<lambda>(key, value). (key, ?f value)"
  let ?nv = "\<lparr>lpEdgeId = lineId, lpIndex = int ?i\<rparr>"
  note r = createEdgeBendPoint_map [OF md edge n1 n2 fresh added, folded bent]
  have keys: "map fst (map ?g ?al) = map fst ?al" by (rule fst_shift_keys)
  then have "fst ` set (map ?g ?al) = fst ` set ?al" by (metis set_map)
  with fresh have fresh': "newId \<notin> fst ` set (map ?g ?al)" by simp
  show "map_of (this_linePointIndexMap bent) newId = Some ?nv"
    unfolding r(1) using fresh' by (rule map_of_fresh_last)
  show "map_of (this_linePointIndexMap bent) k = Some (?f w)"
    if "k \<noteq> newId" "map_of ?al k = Some w" for k w
    unfolding r(1) using that by (simp add: map_of_map map_add_def)
  note ex = edge_exact [OF exact md edge]
  from addPointToList_count [of "bendingPoints edge" "\<lparr>px = nodeX n1, py = nodeY n1\<rparr>"
      "\<lparr>px = nodeX n2, py = nodeY n2\<rparr>" pos] added
  have cnt: "length (linePoints added) = Suc (bendCount edge)" "?i \<le> bendCount edge"
    by (simp_all add: bendCount_def)
  have hi: "handleIndices (map ?g ?al) lineId
              = map (\<lambda>x. if int ?i \<le> x then x + 1 else x) (handleIndices ?al lineId)"
    by (rule handleIndices_map_same) auto
  have same: "handleIndices (this_linePointIndexMap bent) lineId
                = map (\<lambda>x. if int ?i \<le> x then x + 1 else x) (handleIndices ?al lineId) @ [int ?i]"
    unfolding r(1) handleIndices_append hi by (simp add: handleIndices_def)
  have other: "handleIndices (this_linePointIndexMap bent) e = handleIndices ?al e"
    if "e \<noteq> lineId" for e
  proof -
    have "handleIndices (map ?g ?al) e = map (\<lambda>x. x) (handleIndices ?al e)"
      using that by (intro handleIndices_map_same) auto
    with that show ?thesis unfolding r(1) handleIndices_append
      by (simp add: handleIndices_def)
  qed
  have bc: "bendCount (edge\<lparr>bendingPoints := Some (linePoints added)\<rparr>) = Suc (bendCount edge)"
    using cnt(1) by (simp add: bendCount_def)
  show "handlesExact bent"
  proof (rule handlesExact_step [OF exact md edge r(2)])
    show "edgeSvgId (e\<lparr>bendingPoints := Some (linePoints added)\<rparr>) = edgeSvgId e" for e
      by simp
    have "distinct (map fst ?al @ [newId])" using ex(3) fresh by simp
    then show "distinct (map fst (this_linePointIndexMap bent))"
      unfolding r(1) by (simp only: map_append keys list.map fst_conv)
    show "distinct (handleIndices (this_linePointIndexMap bent) lineId)
          \<and> set (handleIndices (this_linePointIndexMap bent) lineId)
              = set (map int [0..<bendCount (edge\<lparr>bendingPoints := Some (linePoints added)\<rparr>)])"
      unfolding same bc using shift_up_exact [OF ex(1) ex(2) cnt(2)] by blast
    show "handleIndices (this_linePointIndexMap bent) e = handleIndices ?al e"
      if "e \<noteq> lineId" for e using that by (rule other)
  qed
qed

lemma straighten_keeps_exact:
  assumes exact: "handlesExact this"
    and md: "this_diagramMetadata this = Some m"
    and look: "map_of (this_linePointIndexMap this) h = Some v"
    and edge: "find (\<lambda>e. edgeSvgId e = lpEdgeId v) (edges m) = Some edge"
    and dom: "hasElement (lpEdgeId v)"
    and h: "h \<noteq> []"
    and straightened: "straightened = onStraightenEnd hasElement (Some h) this"
  shows "map_of (this_linePointIndexMap straightened) h = None"
    and "\<And>key value. key \<noteq> h \<Longrightarrow> map_of (this_linePointIndexMap this) key = Some value \<Longrightarrow>
           map_of (this_linePointIndexMap straightened) key =
             Some (if lpEdgeId value = lpEdgeId v \<and> lpIndex v < lpIndex value
                   then value\<lparr>lpIndex := lpIndex value - 1\<rparr> else value)"
    and "handlesExact straightened"
proof -
  let ?al = "this_linePointIndexMap this"
  let ?dl = "AList.delete h ?al"
  let ?e = "lpEdgeId v"
  let ?j = "lpIndex v"
  let ?f = "\<lambda>value. if lpEdgeId value = ?e \<and> ?j \<le> lpIndex value
                      then value\<lparr>lpIndex := lpIndex value - 1\<rparr> else value"
  let ?g = "\<lambda>(key, value). (key, ?f value)"
  note ex = edge_exact [OF exact md edge]
  from look have "(h, v) \<in> set ?al" by (rule map_of_SomeD)
  then have "?j \<in> set (handleIndices ?al ?e)" by (rule handle_index_member)
  with ex(2) have j: "0 \<le> ?j" "nat ?j < bendCount edge" by auto
  then obtain pts where pts: "bendingPoints edge = Some pts" and len: "length pts = bendCount edge"
    by (cases "bendingPoints edge") (auto simp: bendCount_def)
  note r = onStraightenEnd_map [where hasElement = hasElement, OF md look edge pts dom h, folded straightened]
  have keys: "map fst (map ?g ?dl) = map fst ?dl" by (rule fst_shift_keys)
  then have "fst ` set (map ?g ?dl) = fst ` set ?dl" by (metis set_map)
  with delete_fresh [of h ?al] have "h \<notin> fst ` set (map ?g ?dl)" by simp
  then show "map_of (this_linePointIndexMap straightened) h = None"
    unfolding r(1) by (simp only: map_of_eq_None_iff simp_thms)
  show "map_of (this_linePointIndexMap straightened) k =
          Some (if lpEdgeId w = ?e \<and> ?j < lpIndex w then w\<lparr>lpIndex := lpIndex w - 1\<rparr> else w)"
    if "k \<noteq> h" "map_of ?al k = Some w" for k w
  proof -
    from that have "map_of ?dl k = Some w" by (simp add: AList.delete_conv')
    then have "map_of (map ?g ?dl) k = Some (?f w)" by (simp add: map_of_map)
    moreover have "lpIndex w \<noteq> ?j" if "lpEdgeId w = ?e"
      using ex(3) look \<open>map_of ?al k = Some w\<close> \<open>k \<noteq> h\<close> that ex(1)
      by (rule handle_indices_differ)
    then have "?f w = (if lpEdgeId w = ?e \<and> ?j < lpIndex w
                        then w\<lparr>lpIndex := lpIndex w - 1\<rparr> else w)"
      by auto
    ultimately show ?thesis unfolding r(1) by simp
  qed
  note del = handleIndices_delete [OF ex(3) look ex(1)]
  have hi: "handleIndices (map ?g ?dl) ?e
              = map (\<lambda>x. if int (nat ?j) < x then x - 1 else x) (handleIndices ?dl ?e)"
  proof (rule handleIndices_map_same)
    fix k w assume "(k, w) \<in> set ?dl"
    then show "lpEdgeId (snd (?g (k, w))) = lpEdgeId w" by simp
  next
    fix k w assume kw: "(k, w) \<in> set ?dl" and e: "lpEdgeId w = ?e"
    from kw have "lpIndex w \<in> set (handleIndices ?dl (lpEdgeId w))" by (rule handle_index_member)
    with del e have "lpIndex w \<noteq> ?j" by simp
    with e j(1) show "lpIndex (snd (?g (k, w))) = (if int (nat ?j) < lpIndex w then lpIndex w - 1 else lpIndex w)"
      by auto
  qed
  have other: "handleIndices (map ?g ?dl) e = handleIndices ?al e" if "e \<noteq> ?e" for e
  proof -
    have "handleIndices (map ?g ?dl) e = map (\<lambda>x. x) (handleIndices ?dl e)"
      using that by (intro handleIndices_map_same) auto
    moreover have "handleIndices ?dl e = handleIndices ?al e"
      using look ex(3) that by (rule handleIndices_delete_other)
    ultimately show ?thesis by simp
  qed
  let ?pts' = "splice_remove pts ?j"
  let ?upd = "\<lambda>e. e\<lparr>bendingPoints := (if length ?pts' = 0 then None else Some ?pts')\<rparr>"
  from j len have l': "length ?pts' = bendCount edge - 1" by (simp add: splice_remove_length)
  then have bc: "bendCount (?upd edge) = bendCount edge - 1" by (simp add: bendCount_def)
  obtain k where k: "bendCount edge = Suc k" "nat ?j \<le> k" using j(2) by (cases "bendCount edge") auto
  from del ex(2) k(1) j(1)
  have xs: "distinct (handleIndices ?dl ?e)"
    "set (handleIndices ?dl ?e) = set (map int [0..<Suc k]) - {int (nat ?j)}"
    by simp_all
  show "handlesExact straightened"
  proof (rule handlesExact_step [OF exact md edge r(2)])
    show "edgeSvgId (?upd e) = edgeSvgId e" for e by simp
    have "distinct (map fst ?dl)" using ex(3) by (rule AList.distinct_delete)
    then show "distinct (map fst (this_linePointIndexMap straightened))"
      unfolding r(1) by (simp only: keys)
    show "distinct (handleIndices (this_linePointIndexMap straightened) ?e)
          \<and> set (handleIndices (this_linePointIndexMap straightened) ?e)
              = set (map int [0..<bendCount (?upd edge)])"
      unfolding r(1) hi bc k(1) diff_Suc_1 using shift_down_exact [OF xs k(2)] by blast
    show "handleIndices (this_linePointIndexMap straightened) e = handleIndices ?al e"
      if "e \<noteq> ?e" for e unfolding r(1) using that by (rule other)
  qed
qed

text \<open>
  Claim C4, as stated, fails. The entry of the straightened handle is deleted by the redraw
  that follows the update of the metadata, and the redraw returns before that when the SVG
  element of the edge is not in the document. In a state whose handles are exactly the
  positions of the bend points, straightening the handle at position 0 of a line that has no
  element then removes the bend point and decrements the other handle, and the entry of the
  straightened handle stays: two handles hold position 0 of the one bend point left.
\<close>

theorem straighten_without_edge_element_counterexample:
  "handlesExact exampleBentViewer
   \<and> map_of (this_linePointIndexMap exampleBentViewer) ''a'' = Some \<lparr>lpEdgeId = ''5'', lpIndex = 0\<rparr>
   \<and> this_linePointIndexMap (onStraightenEnd (\<lambda>edgeId. False) (Some ''a'') exampleBentViewer)
       = [(''a'', \<lparr>lpEdgeId = ''5'', lpIndex = 0\<rparr>), (''b'', \<lparr>lpEdgeId = ''5'', lpIndex = 0\<rparr>)]
   \<and> \<not> handlesExact (onStraightenEnd (\<lambda>edgeId. False) (Some ''a'') exampleBentViewer)"
proof -
  note ex = exampleBentViewer_exact
  have al: "this_linePointIndexMap (onStraightenEnd (\<lambda>edgeId. False) (Some ''a'') exampleBentViewer)
       = [(''a'', \<lparr>lpEdgeId = ''5'', lpIndex = 0\<rparr>), (''b'', \<lparr>lpEdgeId = ''5'', lpIndex = 0\<rparr>)]"
    by (simp add: onStraightenEnd_def updateEdgeMetadata_def updateEdgeMetadataWhenStraightening_def
        redrawBentLine_def writeEdge_def chain_def nullish_def splice_remove_def Let_def
        exampleBentViewer_def exampleBentDiagram_def)
  have md: "this_diagramMetadata (onStraightenEnd (\<lambda>edgeId. False) (Some ''a'') exampleBentViewer)
       = Some (exampleBentDiagram\<lparr>edges :=
           [\<lparr>edgeSvgId = ''5'', edgeEquipmentId = ''L1'', node1 = ''0'', node2 = ''3'',
             busNode1 = ''1'', busNode2 = ''4'', edgeTypeName = Some ''LineEdge'',
             bendingPoints = Some [\<lparr>px = Fin 200, py = Fin 50\<rparr>],
             edgeInfo1 = None, edgeInfo2 = None\<rparr>]\<rparr>)"
    by (simp add: onStraightenEnd_def updateEdgeMetadata_def updateEdgeMetadataWhenStraightening_def
        redrawBentLine_def writeEdge_def chain_def nullish_def splice_remove_def Let_def
        exampleBentViewer_def exampleBentDiagram_def)
  have "\<not> handlesExact (onStraightenEnd (\<lambda>edgeId. False) (Some ''a'') exampleBentViewer)"
    by (simp add: handlesExact_def al md handleIndices_def)
  moreover have "map_of (this_linePointIndexMap exampleBentViewer) ''a''
                   = Some \<lparr>lpEdgeId = ''5'', lpIndex = 0\<rparr>"
    by (simp add: exampleBentViewer_def)
  ultimately show ?thesis using ex al by simp
qed

text \<open>
  Claim C4, amended. In a state whose handles are, edge by edge, exactly the positions
  \<open>0, \<dots>, k - 1\<close> of the bend points: when \<^verbatim>\<open>createEdgeBendPoint\<close> adds a handle with a fresh id
  to an edge whose two end nodes are in the metadata, the new handle is mapped to the position
  \<open>i\<close> where \<^verbatim>\<open>addPointToList\<close> inserted its point, every other handle of that edge with index
  at least \<open>i\<close> is incremented and every other entry is kept; when \<^verbatim>\<open>onStraightenEnd\<close>
  straightens a handle with a non-empty id at position \<open>j\<close> of an edge of the metadata whose SVG
  element is in the document, the entry of that handle is deleted, every other handle of that
  edge with index above \<open>j\<close> is decremented and every other entry is kept. After either
  operation the handles are again exactly the positions of the bend points.
\<close>

theorem bend_handles_follow_bend_points:
  assumes exact: "handlesExact this"
    and md: "this_diagramMetadata this = Some m"
  shows "(find (\<lambda>e. edgeSvgId e = lineId) (edges m) = Some edge
          \<and> find (\<lambda>node. nodeSvgId node = node1 edge) (nodes m) = Some n1
          \<and> find (\<lambda>node. nodeSvgId node = node2 edge) (nodes m) = Some n2
          \<and> newId \<notin> fst ` set (this_linePointIndexMap this)
          \<and> i = int (pointIndex (addPointToList (bendingPoints edge)
                         \<lparr>px = nodeX n1, py = nodeY n1\<rparr> \<lparr>px = nodeX n2, py = nodeY n2\<rparr> pos))
          \<and> bent = createEdgeBendPoint newId (Some lineId) pos this
          \<longrightarrow> map_of (this_linePointIndexMap bent) newId = Some \<lparr>lpEdgeId = lineId, lpIndex = i\<rparr>
              \<and> (\<forall>key value. key \<noteq> newId \<and> map_of (this_linePointIndexMap this) key = Some value
                    \<longrightarrow> map_of (this_linePointIndexMap bent) key =
                          Some (if lpEdgeId value = lineId \<and> i \<le> lpIndex value
                                then value\<lparr>lpIndex := lpIndex value + 1\<rparr> else value))
              \<and> handlesExact bent)
       \<and> (map_of (this_linePointIndexMap this) h = Some \<lparr>lpEdgeId = straightenedId, lpIndex = j\<rparr>
          \<and> find (\<lambda>e. edgeSvgId e = straightenedId) (edges m) = Some straightenedEdge
          \<and> hasElement straightenedId
          \<and> h \<noteq> []
          \<and> straightened = onStraightenEnd hasElement (Some h) this
          \<longrightarrow> map_of (this_linePointIndexMap straightened) h = None
              \<and> (\<forall>key value. key \<noteq> h \<and> map_of (this_linePointIndexMap this) key = Some value
                    \<longrightarrow> map_of (this_linePointIndexMap straightened) key =
                          Some (if lpEdgeId value = straightenedId \<and> j < lpIndex value
                                then value\<lparr>lpIndex := lpIndex value - 1\<rparr> else value))
              \<and> handlesExact straightened)"
proof (intro conjI impI)
  assume a: "find (\<lambda>e. edgeSvgId e = lineId) (edges m) = Some edge
          \<and> find (\<lambda>node. nodeSvgId node = node1 edge) (nodes m) = Some n1
          \<and> find (\<lambda>node. nodeSvgId node = node2 edge) (nodes m) = Some n2
          \<and> newId \<notin> fst ` set (this_linePointIndexMap this)
          \<and> i = int (pointIndex (addPointToList (bendingPoints edge)
                         \<lparr>px = nodeX n1, py = nodeY n1\<rparr> \<lparr>px = nodeX n2, py = nodeY n2\<rparr> pos))
          \<and> bent = createEdgeBendPoint newId (Some lineId) pos this"
  define added where "added = addPointToList (bendingPoints edge)
                         \<lparr>px = nodeX n1, py = nodeY n1\<rparr> \<lparr>px = nodeX n2, py = nodeY n2\<rparr> pos"
  from a have edge: "find (\<lambda>e. edgeSvgId e = lineId) (edges m) = Some edge"
    and n1: "find (\<lambda>node. nodeSvgId node = node1 edge) (nodes m) = Some n1"
    and n2: "find (\<lambda>node. nodeSvgId node = node2 edge) (nodes m) = Some n2"
    and fresh: "newId \<notin> fst ` set (this_linePointIndexMap this)"
    and i: "i = int (pointIndex added)"
    and bent: "bent = createEdgeBendPoint newId (Some lineId) pos this"
    unfolding added_def by blast+
  note r = bend_keeps_exact [OF exact md edge n1 n2 fresh added_def bent]
  from r(1) show "map_of (this_linePointIndexMap bent) newId = Some \<lparr>lpEdgeId = lineId, lpIndex = i\<rparr>"
    by (simp only: i)
  from r(2) show "\<forall>key value. key \<noteq> newId \<and> map_of (this_linePointIndexMap this) key = Some value
                    \<longrightarrow> map_of (this_linePointIndexMap bent) key =
                          Some (if lpEdgeId value = lineId \<and> i \<le> lpIndex value
                                then value\<lparr>lpIndex := lpIndex value + 1\<rparr> else value)"
    unfolding i by blast
  from r(3) show "handlesExact bent" .
next
  assume a: "map_of (this_linePointIndexMap this) h = Some \<lparr>lpEdgeId = straightenedId, lpIndex = j\<rparr>
          \<and> find (\<lambda>e. edgeSvgId e = straightenedId) (edges m) = Some straightenedEdge
          \<and> hasElement straightenedId
          \<and> h \<noteq> []
          \<and> straightened = onStraightenEnd hasElement (Some h) this"
  let ?v = "\<lparr>lpEdgeId = straightenedId, lpIndex = j\<rparr>"
  from a have look: "map_of (this_linePointIndexMap this) h = Some ?v"
    and edge: "find (\<lambda>e. edgeSvgId e = lpEdgeId ?v) (edges m) = Some straightenedEdge"
    and dom: "hasElement (lpEdgeId ?v)"
    and h: "h \<noteq> []"
    and s: "straightened = onStraightenEnd hasElement (Some h) this"
    by simp_all
  note r = straighten_keeps_exact [where hasElement = hasElement, OF exact md look edge dom h s]
  from r(1) show "map_of (this_linePointIndexMap straightened) h = None" .
  from r(2) show "\<forall>key value. key \<noteq> h \<and> map_of (this_linePointIndexMap this) key = Some value
                    \<longrightarrow> map_of (this_linePointIndexMap straightened) key =
                          Some (if lpEdgeId value = straightenedId \<and> j < lpIndex value
                                then value\<lparr>lpIndex := lpIndex value - 1\<rparr> else value)"
    by simp
  from r(3) show "handlesExact straightened" .
qed

text \<open>An instance: a third bend point on the line of the example, and the straightening of
  its first handle.\<close>

theorem bend_handles_follow_bend_points_witness:
  "handlesExact exampleBentViewer
   \<and> this_diagramMetadata exampleBentViewer = Some exampleBentDiagram
   \<and> map_of (this_linePointIndexMap
               (createEdgeBendPoint ''c'' (Some ''5'') \<lparr>px = Fin 150, py = Fin 60\<rparr> exampleBentViewer)) ''c''
       = Some \<lparr>lpEdgeId = ''5'',
                lpIndex = int (pointIndex (addPointToList
                            (Some [\<lparr>px = Fin 100, py = Fin 50\<rparr>, \<lparr>px = Fin 200, py = Fin 50\<rparr>])
                            \<lparr>px = Fin 0, py = Fin 0\<rparr> \<lparr>px = Fin 300, py = Fin 0\<rparr>
                            \<lparr>px = Fin 150, py = Fin 60\<rparr>))\<rparr>
   \<and> handlesExact (createEdgeBendPoint ''c'' (Some ''5'') \<lparr>px = Fin 150, py = Fin 60\<rparr> exampleBentViewer)
   \<and> map_of (this_linePointIndexMap
               (onStraightenEnd (\<lambda>edgeId. edgeId = ''5'') (Some ''a'') exampleBentViewer)) ''a'' = None
   \<and> map_of (this_linePointIndexMap
               (onStraightenEnd (\<lambda>edgeId. edgeId = ''5'') (Some ''a'') exampleBentViewer)) ''b''
       = Some \<lparr>lpEdgeId = ''5'', lpIndex = 0\<rparr>
   \<and> handlesExact (onStraightenEnd (\<lambda>edgeId. edgeId = ''5'') (Some ''a'') exampleBentViewer)"
proof -
  let ?edge = "\<lparr>edgeSvgId = ''5'', edgeEquipmentId = ''L1'', node1 = ''0'', node2 = ''3'',
          busNode1 = ''1'', busNode2 = ''4'', edgeTypeName = Some ''LineEdge'',
          bendingPoints = Some [\<lparr>px = Fin 100, py = Fin 50\<rparr>, \<lparr>px = Fin 200, py = Fin 50\<rparr>],
          edgeInfo1 = None, edgeInfo2 = None\<rparr>"
  let ?n1 = "\<lparr>nodeSvgId = ''0'', nodeEquipmentId = ''VL1'', nodeX = Fin 0, nodeY = Fin 0,
          fictitious = None\<rparr>"
  let ?n2 = "\<lparr>nodeSvgId = ''3'', nodeEquipmentId = ''VL2'', nodeX = Fin 300, nodeY = Fin 0,
          fictitious = None\<rparr>"
  let ?pos = "\<lparr>px = Fin 150, py = Fin 60\<rparr>"
  let ?i = "int (pointIndex (addPointToList (bendingPoints ?edge)
                     \<lparr>px = nodeX ?n1, py = nodeY ?n1\<rparr> \<lparr>px = nodeX ?n2, py = nodeY ?n2\<rparr> ?pos))"
  note ex = exampleBentViewer_exact
  have md: "this_diagramMetadata exampleBentViewer = Some exampleBentDiagram"
    by (simp add: exampleBentViewer_def)
  note t = bend_handles_follow_bend_points [OF ex md, where lineId = "''5''" and edge = ?edge
      and ?n1.0 = ?n1 and ?n2.0 = ?n2 and newId = "''c''" and pos = ?pos and i = ?i
      and bent = "createEdgeBendPoint ''c'' (Some ''5'') ?pos exampleBentViewer"
      and h = "''a''" and straightenedId = "''5''" and j = 0 and straightenedEdge = ?edge
      and hasElement = "\<lambda>edgeId. edgeId = ''5''"
      and straightened = "onStraightenEnd (\<lambda>edgeId. edgeId = ''5'') (Some ''a'') exampleBentViewer"]
  have hyps: "find (\<lambda>e. edgeSvgId e = ''5'') (edges exampleBentDiagram) = Some ?edge"
    "find (\<lambda>node. nodeSvgId node = node1 ?edge) (nodes exampleBentDiagram) = Some ?n1"
    "find (\<lambda>node. nodeSvgId node = node2 ?edge) (nodes exampleBentDiagram) = Some ?n2"
    "''c'' \<notin> fst ` set (this_linePointIndexMap exampleBentViewer)"
    "map_of (this_linePointIndexMap exampleBentViewer) ''a'' = Some \<lparr>lpEdgeId = ''5'', lpIndex = 0\<rparr>"
    "map_of (this_linePointIndexMap exampleBentViewer) ''b'' = Some \<lparr>lpEdgeId = ''5'', lpIndex = 1\<rparr>"
    by (simp_all add: exampleBentViewer_def exampleBentDiagram_def)
  from t hyps have
    "map_of (this_linePointIndexMap
               (createEdgeBendPoint ''c'' (Some ''5'') ?pos exampleBentViewer)) ''c''
       = Some \<lparr>lpEdgeId = ''5'', lpIndex = ?i\<rparr>"
    "handlesExact (createEdgeBendPoint ''c'' (Some ''5'') ?pos exampleBentViewer)"
    "map_of (this_linePointIndexMap
               (onStraightenEnd (\<lambda>edgeId. edgeId = ''5'') (Some ''a'') exampleBentViewer)) ''a'' = None"
    "handlesExact (onStraightenEnd (\<lambda>edgeId. edgeId = ''5'') (Some ''a'') exampleBentViewer)"
    by blast+
  moreover from t hyps have
    "map_of (this_linePointIndexMap
               (onStraightenEnd (\<lambda>edgeId. edgeId = ''5'') (Some ''a'') exampleBentViewer)) ''b''
       = Some \<lparr>lpEdgeId = ''5'', lpIndex = 0\<rparr>"
    by simp
  ultimately show ?thesis using ex md by simp
qed

end
